theory Spec2Isabelle
  imports Complex_Main
begin

section \<open>Go values: errors, panics and results\<close>

text \<open>
  A Go function of this repository returns a value together with an \<open>error\<close>, or it panics
  (an index out of range). The three outcomes are the three constructors of \<open>res\<close>.
  \<open>Wrapped p e\<close> is \<open>fmt.Errorf(p + "%w", e)\<close>: the text \<open>p\<close> of the format before the verb
  (with its separator, \<open>": "\<close> or \<open>"; "\<close>) and the wrapped error. \<open>Msg\<close> is an error made
  from a text only.
\<close>

datatype numError = ErrSyntax | ErrRange

datatype error =
    Msg string
  | Wrapped string error
  | NumError string string numError
  | InputError error
  | LinkError string string string string

datatype panic = IndexOutOfRange nat nat

datatype 'a res = Ok 'a | Err error | Panic panic

text \<open>\<open>xs[i]\<close> of Go: a panic when the index is not below the length.\<close>

definition index :: "'a list \<Rightarrow> nat \<Rightarrow> panic + 'a" where
  "index xs i = (if i < length xs then Inr (xs ! i) else Inl (IndexOutOfRange i (length xs)))"

section \<open>The standard library functions the code calls\<close>

text \<open>\<open>strings.Split(s, sep)\<close> for a separator of one byte, as in \<open>strings.Split(r, "/")\<close>.\<close>

fun Split :: "string \<Rightarrow> char \<Rightarrow> string list" where
  "Split [] sep = [[]]"
| "Split (c # cs) sep =
     (if c = sep then [] # Split cs sep
      else (case Split cs sep of [] \<Rightarrow> [[c]] | x # xs \<Rightarrow> (c # x) # xs))"

text \<open>\<open>strings.Join(elems, sep)\<close>.\<close>

fun strings_Join :: "string list \<Rightarrow> string \<Rightarrow> string" where
  "strings_Join [] sep = []"
| "strings_Join [x] sep = x"
| "strings_Join (x # y # ys) sep = x @ sep @ strings_Join (y # ys) sep"

text \<open>
  \<open>strconv.Atoi\<close>. The release workflow builds for amd64 and arm64 only, so \<open>int\<close> has
  64 bits. \<open>parseUint\<close> is the digit loop of \<open>strconv.ParseUint(s, 10, 64)\<close>: a byte that is
  no decimal digit is a syntax error, a value that leaves 64 bits is a range error, whichever
  comes first from the left. \<open>Atoi\<close> takes an optional sign off, refuses the empty digit
  string, and checks the signed range.
\<close>

definition intSize :: nat where
  "intSize = 64"

definition digitVal :: "char \<Rightarrow> nat option" where
  "digitVal c = (let n = (of_char c :: nat) in if 48 \<le> n \<and> n \<le> 57 then Some (n - 48) else None)"

fun parseUint :: "nat \<Rightarrow> string \<Rightarrow> numError + nat" where
  "parseUint n [] = Inr n"
| "parseUint n (c # cs) =
     (case digitVal c of
        None \<Rightarrow> Inl ErrSyntax
      | Some d \<Rightarrow> if 2 ^ intSize \<le> n * 10 + d then Inl ErrRange else parseUint (n * 10 + d) cs)"

definition Atoi :: "string \<Rightarrow> error + int" where
  "Atoi s =
     (case s of
        [] \<Rightarrow> Inl (NumError ''Atoi'' s ErrSyntax)
      | c # cs \<Rightarrow>
          (let neg = (c = CHR ''-'');
               ds = (if c = CHR ''+'' \<or> c = CHR ''-'' then cs else s)
           in if ds = [] then Inl (NumError ''Atoi'' s ErrSyntax)
              else (case parseUint 0 ds of
                      Inl k \<Rightarrow> Inl (NumError ''Atoi'' s k)
                    | Inr un \<Rightarrow>
                        if \<not> neg \<and> 2 ^ (intSize - 1) \<le> un then Inl (NumError ''Atoi'' s ErrRange)
                        else if neg \<and> 2 ^ (intSize - 1) < un then Inl (NumError ''Atoi'' s ErrRange)
                        else Inr (if neg then - int un else int un))))"

section \<open>Data model\<close>

text \<open>
  \<open>StartupMode\<close> has the two values \<open>SelectStartupMode\<close> can return.
  \<open>GenerateSettings\<close>, \<open>SQLCredentials\<close> and the snapshot are declared in other packages
  of the repository; their fields are the ones the code reads.
\<close>

datatype StartupMode = StartFromBlock0 | StartFromNetworkHistory

record SQLCredentials =
  Host :: string
  Port :: int
  User :: string
  Pass :: string
  DatabaseName :: string

record Snapshot =
  BlockHeight :: string
  BlockHash :: string

record GenerateSettings =
  Mode :: StartupMode
  VisorHome :: string
  VegaHome :: string
  TendermintHome :: string
  DataNodeHome :: string
  SQLCredentials :: SQLCredentials
  MainnetVersion :: string
  MainnetChainId :: string
  LatestSnapshot :: Snapshot

record NetworkConfig =
  GenesisVersion :: string
  Repository :: string
  GenesisURL :: string
  DataNodesRESTUrls :: "string list"
  TendermintSeeds :: "string list"
  BootstrapPeers :: "string list"
  TendermintRPCServers :: "string list"

definition MainnetConfig :: NetworkConfig where
  "MainnetConfig = \<lparr>
     GenesisVersion = ''v0.72.14'',
     Repository = ''vegaprotocol/vega'',
     GenesisURL = ''https://raw.githubusercontent.com/vegaprotocol/networks/master/mainnet1/genesis.json'',
     DataNodesRESTUrls = [
       ''https://api0.vega.community'',
       ''https://api1.vega.community'',
       ''https://api2.vega.community'',
       ''https://api3.vega.community''],
     TendermintSeeds = [
       ''b0db58f5651c85385f588bd5238b42bedbe57073@13.125.55.240:26656'',
       ''abe207dae9367995526812d42207aeab73fd6418@18.158.4.175:26656'',
       ''198ecd046ebb9da0fc5a3270ee9a1aeef57a76ff@144.76.105.240:26656'',
       ''211e435c2162aedb6d687409d5d7f67399d198a9@65.21.60.252:26656'',
       ''c5b11e1d819115c4f3974d14f76269e802f3417b@34.88.191.54:26656'',
       ''61051c21f083ee30c835a34a0c17c5d1ceef3c62@51.178.75.45:26656''],
     BootstrapPeers = [
       ''/dns/api1.vega.community/tcp/4001/ipfs/12D3KooWDZrusS1p2XyJDbCaWkVDCk2wJaKi6tNb4bjgSHo9yi5Q'',
       ''/dns/api2.vega.community/tcp/4001/ipfs/12D3KooWEH9pQd6P7RgNEpwbRyavWcwrAdiy9etivXqQZzd7Jkrh'',
       ''/dns/api3.vega.community/tcp/4001/ipfs/12D3KooWHSoYzEqSfUWEXfFbSnmRhWcP2WgZG2GRT8fzZzio5BTY''],
     TendermintRPCServers = [
       ''api0.vega.community:26657'',
       ''api1.vega.community:26657'',
       ''api2.vega.community:26657'',
       ''api3.vega.community:26657'']
   \<rparr>"

record DataNodeGenerator =
  userSettings :: GenerateSettings
  networkConfig :: NetworkConfig

definition NewDataNodeGenerator :: "GenerateSettings \<Rightarrow> NetworkConfig \<Rightarrow> DataNodeGenerator res" where
  "NewDataNodeGenerator settings nc = Ok \<lparr>userSettings = settings, networkConfig = nc\<rparr>"

section \<open>Configuration key sets\<close>

text \<open>
  A \<open>map[string]interface{}\<close> handed to \<open>utils.UpdateConfig\<close>: a map from the dotted key to
  a value of one of the types the code stores.
\<close>

datatype cfgval = VString string | VInt int | VFloat real | VBool bool | VStrings "string list"

type_synonym config = "string \<rightharpoonup> cfgval"

section \<open>The world outside the program\<close>

text \<open>
  The pipeline acts on the machine through the helpers of packages \<open>github\<close>, \<open>utils\<close> and
  \<open>vegacmd\<close> (download, execution, initialisation, copy, config update) and through the
  operating system. Each such call is a value of \<open>call\<close>. The world is the
  file system, a flat map from path to entry, and the trace of the calls issued so far.
\<close>

datatype artifact = ArtifactVega | ArtifactVisor

datatype vegaNodeMode = VegaNodeFull

datatype call =
    MkdirTemp string string
  | RemoveAll string
  | DownloadArtifact string string string artifact
  | ExecuteBinary string "string list"
  | InitVisor string string
  | InitTendermint string string
  | InitVega string string vegaNodeMode
  | InitDataNode string string string
  | MkdirAll string
  | WriteFile string string
  | CopyFile string string
  | Symlink string string
  | UpdateConfig string string config
  | DownloadFile string string

datatype entry = File | Dir | Link string

type_synonym fsys = "string \<rightharpoonup> entry"

record world =
  fs :: fsys
  trace :: "call list"

text \<open>
  What the program cannot decide is a parameter: the platform (\<open>runtime.GOOS\<close>,
  \<open>runtime.GOARCH\<close>), \<open>filepath.Join\<close>, the path constants and the run-config template of
  package \<open>vegacmd\<close>, and \<open>extern\<close>, the behaviour of every external call: given the call and
  the file system it returns an error or a result text, and the file system it leaves.
\<close>

record platform =
  GOOS :: string
  GOARCH :: string
  filepath_Join :: "string list \<Rightarrow> string"
  GenesisPath :: string
  DataNodeConfigPath :: string
  CoreConfigPath :: string
  TenderminConfigPath :: string
  VegavisorConfigPath :: string
  TemplateVisorRunConfig :: "string \<Rightarrow> string \<Rightarrow> string \<Rightarrow> error + string"
  extern :: "call \<Rightarrow> fsys \<Rightarrow> (error + string) \<times> fsys"

definition perform :: "platform \<Rightarrow> call \<Rightarrow> world \<Rightarrow> string res \<times> world" where
  "perform env c w =
     (case extern env c (fs w) of
        (Inl e, f) \<Rightarrow> (Err e, \<lparr>fs = f, trace = trace w @ [c]\<rparr>)
      | (Inr v, f) \<Rightarrow> (Ok v, \<lparr>fs = f, trace = trace w @ [c]\<rparr>))"

text \<open>
  \<open>os.Symlink(oldname, newname)\<close>: the system call fails with "file exists" when an entry
  \<open>newname\<close> is there, whatever it is. Otherwise \<open>extern\<close> says whether it fails for another
  reason; when it does not, \<open>newname\<close> becomes a link to \<open>oldname\<close>.
\<close>

definition os_Symlink :: "platform \<Rightarrow> string \<Rightarrow> string \<Rightarrow> world \<Rightarrow> unit res \<times> world" where
  "os_Symlink env oldname newname w =
     (let t = trace w @ [Symlink oldname newname]
      in if fs w newname \<noteq> None
         then (Err (LinkError ''symlink'' oldname newname ''file exists''), \<lparr>fs = fs w, trace = t\<rparr>)
         else (case fst (extern env (Symlink oldname newname) (fs w)) of
                 Inl e \<Rightarrow> (Err e, \<lparr>fs = fs w, trace = t\<rparr>)
               | Inr _ \<Rightarrow> (Ok (), \<lparr>fs = (fs w)(newname \<mapsto> Link oldname), trace = t\<rparr>)))"

section \<open>Sequencing\<close>

text \<open>
  \<open>wrapf p r\<close> is the Go idiom \<open>if err != nil { return fmt.Errorf(p + "%w", err) }\<close> applied
  to the outcome \<open>r\<close> of a call; \<open>andThen r f\<close> goes on with \<open>f\<close> when \<open>r\<close> returned without
  error and returns what \<open>r\<close> returned otherwise. Log lines are not modelled.
\<close>

definition wrapf :: "string \<Rightarrow> 'a res \<times> world \<Rightarrow> 'a res \<times> world" where
  "wrapf p r = (case r of (Err e, w) \<Rightarrow> (Err (Wrapped p e), w) | (Ok x, w) \<Rightarrow> (Ok x, w)
                | (Panic q, w) \<Rightarrow> (Panic q, w))"

definition andThen :: "'a res \<times> world \<Rightarrow> ('a \<Rightarrow> world \<Rightarrow> 'b res \<times> world) \<Rightarrow> 'b res \<times> world" where
  "andThen r f = (case r of (Ok x, w) \<Rightarrow> f x w | (Err e, w) \<Rightarrow> (Err e, w)
                  | (Panic q, w) \<Rightarrow> (Panic q, w))"

section \<open>The provisioning pipeline (DataNodeGenerator)\<close>

definition downloadGenesis :: "platform \<Rightarrow> DataNodeGenerator \<Rightarrow> world \<Rightarrow> unit res \<times> world" where
  "downloadGenesis env gen w =
     (let genesisDestination =
            filepath_Join env [TendermintHome (userSettings gen), GenesisPath env]
      in andThen (wrapf ''failed to download genesis: ''
                    (perform env (DownloadFile (GenesisURL (networkConfig gen)) genesisDestination) w))
           (\<lambda>_ w. (Ok (), w)))"

definition copyBinaries ::
  "platform \<Rightarrow> DataNodeGenerator \<Rightarrow> string \<Rightarrow> string \<Rightarrow> world \<Rightarrow> unit res \<times> world" where
  "copyBinaries env gen vegaBinaryPath visorBinaryPath w =
     (let vegavisorDstFilePath = filepath_Join env [VisorHome (userSettings gen), ''visor'']
      in andThen (wrapf ''failed to copy visor binary: ''
                    (perform env (CopyFile visorBinaryPath vegavisorDstFilePath) w))
           (\<lambda>_ w.
              let version = (if Mode (userSettings gen) = StartFromBlock0 then ''genesis''
                             else MainnetVersion (userSettings gen));
                  vegaDstFilePath =
                    filepath_Join env [VisorHome (userSettings gen), version, ''vega'']
              in andThen (wrapf ''failed to copy vega binary: ''
                            (perform env (CopyFile vegaBinaryPath vegaDstFilePath) w))
                   (\<lambda>_ w.
                      let versionDirectory =
                            filepath_Join env [VisorHome (userSettings gen), version];
                          currentDirectory =
                            filepath_Join env [VisorHome (userSettings gen), ''current'']
                      in andThen (wrapf (''failed to create symlink from '' @ versionDirectory
                                           @ '' to '' @ currentDirectory @ '': '')
                                    (os_Symlink env versionDirectory currentDirectory w))
                           (\<lambda>_ w. (Ok (), w)))))"

definition prepareVisorHome :: "platform \<Rightarrow> DataNodeGenerator \<Rightarrow> world \<Rightarrow> unit res \<times> world" where
  "prepareVisorHome env gen w =
     (let runConfigDirPath =
            (if Mode (userSettings gen) = StartFromBlock0
             then filepath_Join env [VisorHome (userSettings gen), ''genesis'']
             else filepath_Join env [VisorHome (userSettings gen), MainnetVersion (userSettings gen)]);
          version = (if Mode (userSettings gen) = StartFromBlock0 then ''genesis''
                     else MainnetVersion (userSettings gen))
      in andThen (wrapf ''failed to make directory: '' (perform env (MkdirAll runConfigDirPath) w))
           (\<lambda>_ w.
              let runConfigPath = filepath_Join env [runConfigDirPath, ''run-config.toml'']
              in (case TemplateVisorRunConfig env version (VegaHome (userSettings gen))
                         (TendermintHome (userSettings gen)) of
                    Inl e \<Rightarrow>
                      (Err (Wrapped ''failed to generate run-config.toml from template: '' e), w)
                  | Inr runConfigContent \<Rightarrow>
                      andThen (wrapf (''failed to write run-config.toml in '' @ runConfigContent @ '': '')
                                 (perform env (WriteFile runConfigPath runConfigContent) w))
                        (\<lambda>_ w. (Ok (), w)))))"

text \<open>
  \<open>updateConfigs\<close>, first half (the four map literals and the mode branch): the key sets for
  the data-node, core, consensus-layer and supervisor documents, in this order.
  \<open>strings.Split(...)[1]\<close> panics when the repository has no \<open>/\<close>.
\<close>

definition buildConfigs ::
  "platform \<Rightarrow> DataNodeGenerator \<Rightarrow> (config \<times> config \<times> config \<times> config) res" where
  "buildConfigs env gen =
     (let dataNodeConfig = [
            ''SQLStore.ConnectionConfig.Host'' \<mapsto> VString (Host (SQLCredentials (userSettings gen))),
            ''SQLStore.ConnectionConfig.Port'' \<mapsto> VInt (Port (SQLCredentials (userSettings gen))),
            ''SQLStore.ConnectionConfig.Username'' \<mapsto> VString (User (SQLCredentials (userSettings gen))),
            ''SQLStore.ConnectionConfig.Password'' \<mapsto> VString (Pass (SQLCredentials (userSettings gen))),
            ''SQLStore.ConnectionConfig.Database'' \<mapsto>
               VString (DatabaseName (SQLCredentials (userSettings gen))),
            ''SQLStore.WipeOnStartup'' \<mapsto> VBool True,
            ''NetworkHistory.Store.BootstrapPeers'' \<mapsto> VStrings (BootstrapPeers (networkConfig gen)),
            ''NetworkHistory.Initialise.Timeout'' \<mapsto> VString ''4h'',
            ''API.RateLimit.Rate'' \<mapsto> VFloat 300,
            ''API.RateLimit.Burst'' \<mapsto> VInt 1000];
          vegaConfig = [
            ''Snapshot.StartHeight'' \<mapsto> VInt (- 1),
            ''Broker.Socket.Enabled'' \<mapsto> VBool True,
            ''Broker.Socket.DialTimeout'' \<mapsto> VString ''4h''];
          tendermintConfig = [
            ''p2p.seeds'' \<mapsto> VString (strings_Join (TendermintSeeds (networkConfig gen)) '',''),
            ''pex'' \<mapsto> VBool True,
            ''statesync.enable'' \<mapsto> VBool False,
            ''statesync.rpc_servers'' \<mapsto>
               VString (strings_Join (TendermintRPCServers (networkConfig gen)) '',''),
            ''statesync.trust_period'' \<mapsto> VString ''672h0m0s'']
      in case index (Split (Repository (networkConfig gen)) CHR ''/'') 0 of
           Inl q \<Rightarrow> Panic q
         | Inr repositoryOwner \<Rightarrow>
            (case index (Split (Repository (networkConfig gen)) CHR ''/'') 1 of
               Inl q \<Rightarrow> Panic q
             | Inr repository \<Rightarrow>
                (let vegavisorConfig = [
                       ''maxNumberOfFirstConnectionRetries'' \<mapsto> VInt 43200,
                       ''autoInstall.enabled'' \<mapsto> VBool True,
                       ''autoInstall.repositoryOwner'' \<mapsto> VString repositoryOwner,
                       ''autoInstall.repository'' \<mapsto> VString repository,
                       ''autoInstall.asset.name'' \<mapsto>
                          VString (''vega-'' @ GOOS env @ ''-'' @ GOARCH env @ ''.zip''),
                       ''autoInstall.asset.binaryName'' \<mapsto> VString ''vega'']
                 in if Mode (userSettings gen) = StartFromNetworkHistory
                    then (if BlockHash (LatestSnapshot (userSettings gen)) = []
                          then Err (Msg ''cannot start vega from the network-history when latest snapshot is empty'')
                          else (case Atoi (BlockHeight (LatestSnapshot (userSettings gen))) of
                                  Inl e \<Rightarrow>
                                    Err (Wrapped ''failed to convert trust block height from string to int: '' e)
                                | Inr trustHeight \<Rightarrow>
                                    Ok (dataNodeConfig(''AutoInitialiseFromNetworkHistory'' \<mapsto> VBool True),
                                        vegaConfig,
                                        tendermintConfig(
                                          ''statesync.enable'' \<mapsto> VBool True,
                                          ''statesync.trust_height'' \<mapsto> VInt trustHeight,
                                          ''statesync.trust_hash'' \<mapsto>
                                             VString (BlockHash (LatestSnapshot (userSettings gen)))),
                                        vegavisorConfig)))
                    else Ok (dataNodeConfig, vegaConfig, tendermintConfig, vegavisorConfig))))"

text \<open>
  \<open>updateConfigs\<close>: the key sets, then one \<open>utils.UpdateConfig\<close> per document, stopping at
  the first that fails.
\<close>

definition updateConfigs :: "platform \<Rightarrow> DataNodeGenerator \<Rightarrow> world \<Rightarrow> unit res \<times> world" where
  "updateConfigs env gen w =
     (case buildConfigs env gen of
        Panic q \<Rightarrow> (Panic q, w)
      | Err e \<Rightarrow> (Err e, w)
      | Ok (dataNodeConfig, vegaConfig, tendermintConfig, vegavisorConfig) \<Rightarrow>
         (let dataNodeConfigPath =
                filepath_Join env [DataNodeHome (userSettings gen), DataNodeConfigPath env]
          in andThen (wrapf ''failed to update the data-node config; ''
                        (perform env (UpdateConfig dataNodeConfigPath ''toml'' dataNodeConfig) w))
               (\<lambda>_ w.
                  let vegaConfigPath =
                        filepath_Join env [VegaHome (userSettings gen), CoreConfigPath env]
                  in andThen (wrapf ''failed to update the vega config; ''
                                (perform env (UpdateConfig vegaConfigPath ''toml'' vegaConfig) w))
                       (\<lambda>_ w.
                          let tendermintConfigPath =
                                filepath_Join env
                                  [TendermintHome (userSettings gen), TenderminConfigPath env]
                          in andThen (wrapf ''failed to update the tendermint config; ''
                                        (perform env
                                           (UpdateConfig tendermintConfigPath ''toml'' tendermintConfig) w))
                               (\<lambda>_ w.
                                  let vegavisorConfigPath =
                                        filepath_Join env
                                          [VisorHome (userSettings gen), VegavisorConfigPath env]
                                  in andThen (wrapf ''failed to update vegavisor config: ''
                                                (perform env
                                                   (UpdateConfig vegavisorConfigPath ''toml''
                                                      vegavisorConfig) w))
                                       (\<lambda>_ w. (Ok (), w)))))))"

definition initNode ::
  "platform \<Rightarrow> DataNodeGenerator \<Rightarrow> string \<Rightarrow> string \<Rightarrow> world \<Rightarrow> unit res \<times> world" where
  "initNode env gen visorBinary vegaBinary w =
     andThen (wrapf (''failed to initialize vegavisor in '' @ VisorHome (userSettings gen) @ '': '')
                (perform env (InitVisor visorBinary (VisorHome (userSettings gen))) w))
       (\<lambda>_ w.
          andThen (wrapf (''failed to initialize tendermint in '' @ TendermintHome (userSettings gen)
                           @ '': '')
                     (perform env (InitTendermint vegaBinary (TendermintHome (userSettings gen))) w))
            (\<lambda>_ w.
               andThen (wrapf (''failed to initialize vega in '' @ VegaHome (userSettings gen) @ '': '')
                          (perform env (InitVega vegaBinary (VegaHome (userSettings gen)) VegaNodeFull) w))
                 (\<lambda>_ w.
                    andThen (wrapf (''failed to initialize data-node in ''
                                     @ DataNodeHome (userSettings gen) @ '': '')
                               (perform env
                                  (InitDataNode vegaBinary (DataNodeHome (userSettings gen))
                                     (MainnetChainId (userSettings gen))) w))
                      (\<lambda>_ w. (Ok (), w)))))"

text \<open>
  \<open>Run\<close>. The line \<open>defer os.RemoveAll(outputDir)\<close> of the source is a comment, so no call
  follows the last step.
\<close>

definition Run :: "platform \<Rightarrow> DataNodeGenerator \<Rightarrow> world \<Rightarrow> unit res \<times> world" where
  "Run env gen w =
     andThen (wrapf ''failed to create temp dir: '' (perform env (MkdirTemp [] ''vega-assistant'') w))
       (\<lambda>outputDir w.
     andThen (wrapf ''failed to download vega binary: ''
                (perform env
                   (DownloadArtifact (Repository (networkConfig gen))
                      (MainnetVersion (userSettings gen)) outputDir ArtifactVega) w))
       (\<lambda>vegaBinaryPath w.
     andThen (wrapf ''failed to download visor binary: ''
                (perform env
                   (DownloadArtifact (Repository (networkConfig gen))
                      (MainnetVersion (userSettings gen)) outputDir ArtifactVisor) w))
       (\<lambda>visorBinaryPath w.
     andThen (wrapf ''failed to check vega version: ''
                (perform env (ExecuteBinary vegaBinaryPath [''version'']) w))
       (\<lambda>vegaVersion w.
     andThen (wrapf ''failed to check visor version: ''
                (perform env (ExecuteBinary visorBinaryPath [''version'']) w))
       (\<lambda>visorVersion w.
     andThen (wrapf ''failed to init vega node: '' (initNode env gen visorBinaryPath vegaBinaryPath w))
       (\<lambda>_ w.
     andThen (wrapf ''failed to prepare visor home: '' (prepareVisorHome env gen w))
       (\<lambda>_ w.
     andThen (wrapf ''failed to copy binaries to visor home: ''
                (copyBinaries env gen vegaBinaryPath visorBinaryPath w))
       (\<lambda>_ w.
     andThen (wrapf ''failed to update config files for the node: '' (updateConfigs env gen w))
       (\<lambda>_ w.
     andThen (wrapf ''failed to download genesis: '' (downloadGenesis env gen w))
       (\<lambda>_ w. (Ok (), w)))))))))))"

section \<open>The interview (package generator)\<close>

text \<open>
  The terminal is the list of the lines the operator will type. \<open>ask validate dflt\<close> is
  \<open>ui.Ask\<close> of the go-input library with the options every prompt of this package sets,
  \<open>Default: dflt, Required: true, Loop: true, ValidateFunc: validate\<close>: it reads a line; an
  empty line returns the default when there is one and is asked again otherwise; a line the
  validator refuses is asked again; the first other line is returned. Reading past the last
  line is the reader's error.
\<close>

type_synonym ui = "string list"

fun ask :: "(string \<Rightarrow> error option) \<Rightarrow> string \<Rightarrow> ui \<Rightarrow> (error + string) \<times> ui" where
  "ask validate dflt [] = (Inl (Msg ''EOF''), [])"
| "ask validate dflt (line # rest) =
     (if line = [] \<and> dflt \<noteq> [] then (Inr dflt, rest)
      else if line = [] then ask validate dflt rest
      else (case validate line of
              Some e \<Rightarrow> ask validate dflt rest
            | None \<Rightarrow> (Inr line, rest)))"

text \<open>A prompt without \<open>ValidateFunc\<close> accepts every line.\<close>

definition noValidate :: "string \<Rightarrow> error option" where
  "noValidate s = None"

text \<open>\<open>strings.ToLower\<close> on the ASCII letters; other bytes are kept.\<close>

definition lowerChar :: "char \<Rightarrow> char" where
  "lowerChar c = (let n = (of_char c :: nat) in if 65 \<le> n \<and> n \<le> 90 then char_of (n + 32) else c)"

definition ToLower :: "string \<Rightarrow> string" where
  "ToLower s = map lowerChar s"

text \<open>\<open>fmt.Sprintf("%d", n)\<close>.\<close>

fun showNat :: "nat \<Rightarrow> string" where
  "showNat n = (if n < 10 then [char_of (48 + n)] else showNat (n div 10) @ [char_of (48 + n mod 10)])"

declare showNat.simps [simp del]

definition showInt :: "int \<Rightarrow> string" where
  "showInt i = (if i < 0 then CHR ''-'' # showNat (nat (- i)) else showNat (nat i))"

text \<open>The \<open>ValidateFunc\<close> of the port prompt and of the try-again prompt.\<close>

definition portValidate :: "string \<Rightarrow> error option" where
  "portValidate s =
     (case Atoi s of Inl err \<Rightarrow> Some (Wrapped ''port must be numeric: '' err) | Inr _ \<Rightarrow> None)"

definition yesNoValidate :: "string \<Rightarrow> error option" where
  "yesNoValidate s =
     (let normalizedResponse = ToLower s
      in if normalizedResponse \<noteq> ''yes'' \<and> normalizedResponse \<noteq> ''no''
         then Some (Msg (''invalid response; got '' @ s @ '', expected Yes or No''))
         else None)"

lemma ask_shorter: "ask validate dflt u = (Inr x, u') \<Longrightarrow> length u' < length u"
  by (induction u) (auto split: if_splits option.splits)

text \<open>
  \<open>AskSQLCredentials\<close>: the \<open>for\<close> loop is the recursion; \<open>continue\<close> is the recursive call
  on the lines that are left, \<open>break\<close> returns the credentials.
\<close>

function AskSQLCredentials ::
  "SQLCredentials \<Rightarrow> (SQLCredentials \<Rightarrow> error option) \<Rightarrow> ui \<Rightarrow> SQLCredentials res \<times> ui" where
  "AskSQLCredentials defaultValue checkFunc u =
     (case ask noValidate (Host defaultValue) u of
        (Inl err, u1) \<Rightarrow> (Err (InputError (Wrapped ''failed to get postgresql host: '' err)), u1)
      | (Inr dbHost, u1) \<Rightarrow>
     (case ask portValidate (showInt (Port defaultValue)) u1 of
        (Inl err, u2) \<Rightarrow> (Err (InputError (Wrapped ''failed to get postgresql port: '' err)), u2)
      | (Inr dbPortStr, u2) \<Rightarrow>
     (case Atoi dbPortStr of
        Inl err \<Rightarrow> (Err (InputError (Wrapped ''port must be numeric: '' err)), u2)
      | Inr dbPort \<Rightarrow>
     (case ask noValidate (User defaultValue) u2 of
        (Inl err, u3) \<Rightarrow> (Err (Wrapped ''failed to ask for database user name: '' err), u3)
      | (Inr dbUser, u3) \<Rightarrow>
     (case ask noValidate (Pass defaultValue) u3 of
        (Inl err, u4) \<Rightarrow> (Err (Wrapped ''failed to ask for database password: '' err), u4)
      | (Inr dbPass, u4) \<Rightarrow>
     (case ask noValidate (DatabaseName defaultValue) u4 of
        (Inl err, u5) \<Rightarrow> (Err (Wrapped ''failed to ask for database name: '' err), u5)
      | (Inr dbName, u5) \<Rightarrow>
     (case checkFunc \<lparr>Host = dbHost, Port = dbPort, User = dbUser, Pass = dbPass,
                      DatabaseName = dbName\<rparr> of
        None \<Rightarrow>
          (Ok \<lparr>Host = dbHost, Port = dbPort, User = dbUser, Pass = dbPass,
               DatabaseName = dbName\<rparr>, u5)
      | Some cerr \<Rightarrow>
          (case ask yesNoValidate ''Yes'' u5 of
             (Inl err, u6) \<Rightarrow> (Err (Wrapped ''failed to ask for try-again: '' err), u6)
           | (Inr tryAgain, u6) \<Rightarrow>
               if ToLower tryAgain = ''yes''
               then AskSQLCredentials defaultValue checkFunc u6
               else (Ok \<lparr>Host = dbHost, Port = dbPort, User = dbUser, Pass = dbPass,
                         DatabaseName = dbName\<rparr>, u6)))))))))"
  by pat_completeness auto
termination
proof (relation "measure (\<lambda>(d, c, u). length u)", goal_cases)
  case 1
  show ?case by simp
next
  case (2 defaultValue checkFunc u x1 u1 dbHost x2 u2 dbPortStr dbPort x3 u3 dbUser x4 u4 dbPass
          x5 u5 dbName cerr x6 u6 tryAgain)
  have "length u6 < length u5" using 2 ask_shorter by metis
  moreover have "length u5 < length u4" using 2 ask_shorter by metis
  moreover have "length u4 < length u3" using 2 ask_shorter by metis
  moreover have "length u3 < length u2" using 2 ask_shorter by metis
  moreover have "length u2 < length u1" using 2 ask_shorter by metis
  moreover have "length u1 < length u" using 2 ask_shorter by metis
  ultimately show ?case by simp
qed

declare AskSQLCredentials.simps [simp del]

text \<open>\<open>AskYesNo\<close>.\<close>

datatype YesNoAnswer = AnswerYes | AnswerNo

definition AskYesNo :: "YesNoAnswer \<Rightarrow> ui \<Rightarrow> YesNoAnswer res \<times> ui" where
  "AskYesNo defaultAnswer u =
     (case ask yesNoValidate (case defaultAnswer of AnswerYes \<Rightarrow> ''Yes'' | AnswerNo \<Rightarrow> ''No'') u of
        (Inl err, u1) \<Rightarrow> (Err (Wrapped ''failed to ask for yes/no: '' err), u1)
      | (Inr answer, u1) \<Rightarrow>
          if ToLower answer = ''yes'' then (Ok AnswerYes, u1) else (Ok AnswerNo, u1))"

section \<open>The summary\<close>

text \<open>
  \<open>fmt.Sprintf("%c", b)\<close> for a byte \<open>b\<close>: the UTF-8 encoding of the code point \<open>b\<close>, one byte
  below 128 and two bytes from 128 on.
\<close>

definition fmtC :: "char \<Rightarrow> string" where
  "fmtC b =
     (let n = (of_char b :: nat)
      in if n < 128 then [b] else [char_of (192 + n div 64), char_of (128 + n mod 64)])"

text \<open>
  \<open>printSummary\<close> fills a table and prints it with its last statement; the model returns the
  rows of the table, or the panic that ends the function before anything of the table is
  printed. \<open>Pass[0]\<close> is evaluated before \<open>Pass[len(Pass)-1]\<close>, so the second index is only
  computed on a password that is not empty.
\<close>

datatype cell = CStr string | CInt int

definition printSummary :: "GenerateSettings \<Rightarrow> panic + (string \<times> cell) list" where
  "printSummary settings =
     (let modeRow = (if Mode settings = StartFromBlock0
                     then (''Mode'', CStr ''Start from block 0'')
                     else (''Mode'', CStr ''Start from Network History''))
      in case index (Pass (SQLCredentials settings)) 0 of
           Inl q \<Rightarrow> Inl q
         | Inr c0 \<Rightarrow>
            (case index (Pass (SQLCredentials settings))
                    (length (Pass (SQLCredentials settings)) - 1) of
               Inl q \<Rightarrow> Inl q
             | Inr c1 \<Rightarrow>
                 Inr [modeRow,
                      (''Visor Home'', CStr (VisorHome settings)),
                      (''Vega Home'', CStr (VegaHome settings)),
                      (''Tendermint Home'', CStr (TendermintHome settings)),
                      (''SQL Host'', CStr (Host (SQLCredentials settings))),
                      (''SQL Port'', CInt (Port (SQLCredentials settings))),
                      (''SQL User'', CStr (User (SQLCredentials settings))),
                      (''SQL Password'', CStr (fmtC c0 @ ''***'' @ fmtC c1)),
                      (''SQL Database Name'', CStr (DatabaseName (SQLCredentials settings))),
                      (''Vega Version'', CStr (MainnetVersion settings)),
                      (''Vega Chain ID'', CStr (MainnetChainId settings))]))"

section \<open>A concrete machine for evaluation\<close>

text \<open>
  A platform on which every external call succeeds, used to evaluate the pipeline on concrete
  inputs: \<open>unixJoin\<close> joins the non-empty elements with a slash (what \<open>filepath.Join\<close> gives
  for elements that are already clean), and \<open>succeeds\<close> creates the entries a call is there
  to create. \<open>failing P\<close> is the same machine on which the calls that satisfy \<open>P\<close> fail.
  The path constants of package \<open>vegacmd\<close> and the text of the run-config template are
  example values.
\<close>

definition unixJoin :: "string list \<Rightarrow> string" where
  "unixJoin elems = strings_Join (filter (\<lambda>e. e \<noteq> []) elems) ''/''"

fun succeeds :: "call \<Rightarrow> fsys \<Rightarrow> (error + string) \<times> fsys" where
  "succeeds (MkdirTemp dir pat) f = (Inr ''/tmp/vega-assistant1'', f(''/tmp/vega-assistant1'' \<mapsto> Dir))"
| "succeeds (RemoveAll p) f = (Inr [], f(p := None))"
| "succeeds (DownloadArtifact repo ver dir ArtifactVega) f =
     (Inr (dir @ ''/vega''), f(dir @ ''/vega'' \<mapsto> File))"
| "succeeds (DownloadArtifact repo ver dir ArtifactVisor) f =
     (Inr (dir @ ''/visor''), f(dir @ ''/visor'' \<mapsto> File))"
| "succeeds (ExecuteBinary p args) f = (Inr ''v0.72.14'', f)"
| "succeeds (InitVisor b home) f = (Inr [], f(home \<mapsto> Dir))"
| "succeeds (InitTendermint b home) f = (Inr [], f(home \<mapsto> Dir))"
| "succeeds (InitVega b home m) f = (Inr [], f(home \<mapsto> Dir))"
| "succeeds (InitDataNode b home chain) f = (Inr [], f(home \<mapsto> Dir))"
| "succeeds (MkdirAll p) f = (Inr [], f(p \<mapsto> Dir))"
| "succeeds (WriteFile p content) f = (Inr [], f(p \<mapsto> File))"
| "succeeds (CopyFile src dst) f = (Inr [], f(dst \<mapsto> File))"
| "succeeds (Symlink old new) f = (Inr [], f)"
| "succeeds (UpdateConfig p fmt kv) f = (Inr [], f)"
| "succeeds (DownloadFile url dst) f = (Inr [], f(dst \<mapsto> File))"

definition failing :: "(call \<Rightarrow> bool) \<Rightarrow> call \<Rightarrow> fsys \<Rightarrow> (error + string) \<times> fsys" where
  "failing P c f = (if P c then (Inl (Msg ''refused''), f) else succeeds c f)"

definition linuxAmd64 :: "(call \<Rightarrow> fsys \<Rightarrow> (error + string) \<times> fsys) \<Rightarrow> platform" where
  "linuxAmd64 ext = \<lparr>
     GOOS = ''linux'',
     GOARCH = ''amd64'',
     filepath_Join = unixJoin,
     GenesisPath = ''config/genesis.json'',
     DataNodeConfigPath = ''config/data-node/config.toml'',
     CoreConfigPath = ''config/node/config.toml'',
     TenderminConfigPath = ''config/config.toml'',
     VegavisorConfigPath = ''config.toml'',
     TemplateVisorRunConfig = (\<lambda>version vegaHome tendermintHome. Inr (''name = '' @ version)),
     extern = ext
   \<rparr>"

definition exampleSettings :: "StartupMode \<Rightarrow> Snapshot \<Rightarrow> GenerateSettings" where
  "exampleSettings m snap = \<lparr>
     Mode = m,
     VisorHome = ''/home/vega/vegavisor_home'',
     VegaHome = ''/home/vega/vega_home'',
     TendermintHome = ''/home/vega/tendermint_home'',
     DataNodeHome = ''/home/vega/data_node_home'',
     SQLCredentials = \<lparr>Host = ''localhost'', Port = 5432, User = ''vega'', Pass = ''secret'',
                        DatabaseName = ''vega''\<rparr>,
     MainnetVersion = ''v0.72.14'',
     MainnetChainId = ''vega-mainnet-0011'',
     LatestSnapshot = snap
   \<rparr>"

definition exampleNetwork :: "string \<Rightarrow> NetworkConfig" where
  "exampleNetwork repo = MainnetConfig\<lparr>Repository := repo\<rparr>"

definition emptyWorld :: world where
  "emptyWorld = \<lparr>fs = Map.empty, trace = []\<rparr>"

text \<open>Two connectivity checks: one that reaches the database, one that never does.\<close>

definition checkOk :: "SQLCredentials \<Rightarrow> error option" where
  "checkOk c = None"

definition checkFails :: "SQLCredentials \<Rightarrow> error option" where
  "checkFails c = Some (Msg ''connection refused'')"

section \<open>The key sets of \<open>updateConfigs\<close>\<close>

text \<open>
  The key set \<open>updateConfigs\<close> hands to \<open>utils.UpdateConfig\<close> for the consensus-layer
  document and for the supervisor document; \<open>None\<close> when it returns or panics before.
\<close>

definition tendermintKeys :: "platform \<Rightarrow> DataNodeGenerator \<Rightarrow> config option" where
  "tendermintKeys env gen =
     (case buildConfigs env gen of
        Ok (dataNodeConfig, vegaConfig, tendermintConfig, vegavisorConfig) \<Rightarrow> Some tendermintConfig
      | Err e \<Rightarrow> None
      | Panic q \<Rightarrow> None)"

definition vegavisorKeys :: "platform \<Rightarrow> DataNodeGenerator \<Rightarrow> config option" where
  "vegavisorKeys env gen =
     (case buildConfigs env gen of
        Ok (dataNodeConfig, vegaConfig, tendermintConfig, vegavisorConfig) \<Rightarrow> Some vegavisorConfig
      | Err e \<Rightarrow> None
      | Panic q \<Rightarrow> None)"

text \<open>The four calls of \<open>updateConfigs\<close>, in the order it issues them.\<close>

definition configCalls ::
  "platform \<Rightarrow> DataNodeGenerator \<Rightarrow> config \<times> config \<times> config \<times> config \<Rightarrow> call list" where
  "configCalls env gen kv =
     (case kv of (dataNodeConfig, vegaConfig, tendermintConfig, vegavisorConfig) \<Rightarrow>
        [UpdateConfig (filepath_Join env [DataNodeHome (userSettings gen), DataNodeConfigPath env])
           ''toml'' dataNodeConfig,
         UpdateConfig (filepath_Join env [VegaHome (userSettings gen), CoreConfigPath env])
           ''toml'' vegaConfig,
         UpdateConfig (filepath_Join env [TendermintHome (userSettings gen), TenderminConfigPath env])
           ''toml'' tendermintConfig,
         UpdateConfig (filepath_Join env [VisorHome (userSettings gen), VegavisorConfigPath env])
           ''toml'' vegavisorConfig])"

text \<open>The value a key set gives to a key; \<open>None\<close> when there is no key set or no such key.\<close>

definition lookupKey :: "config option \<Rightarrow> string \<Rightarrow> cfgval option" where
  "lookupKey kv k = (case kv of None \<Rightarrow> None | Some m \<Rightarrow> m k)"

text \<open>
  The Go function a call stands for, with the artifact or the binary where one function is
  called twice; \<open>named n\<close> holds of the calls with the name \<open>n\<close>, and \<open>genesisRun\<close> is the
  generator of the example settings in mode \<open>StartFromBlock0\<close> on the mainnet parameters.
\<close>

fun callName :: "call \<Rightarrow> string" where
  "callName (MkdirTemp dir pat) = ''os.MkdirTemp''"
| "callName (RemoveAll p) = ''os.RemoveAll''"
| "callName (DownloadArtifact repo ver dir ArtifactVega) = ''github.DownloadArtifact vega''"
| "callName (DownloadArtifact repo ver dir ArtifactVisor) = ''github.DownloadArtifact visor''"
| "callName (ExecuteBinary p args) = ''utils.ExecuteBinary '' @ p"
| "callName (InitVisor b home) = ''vegacmd.InitVisor''"
| "callName (InitTendermint b home) = ''vegacmd.InitTendermint''"
| "callName (InitVega b home m) = ''vegacmd.InitVega''"
| "callName (InitDataNode b home chain) = ''vegacmd.InitDataNode''"
| "callName (MkdirAll p) = ''os.MkdirAll''"
| "callName (WriteFile p content) = ''os.WriteFile''"
| "callName (CopyFile src dst) = ''utils.CopyFile''"
| "callName (Symlink old new) = ''os.Symlink''"
| "callName (UpdateConfig p fmt kv) = ''utils.UpdateConfig''"
| "callName (DownloadFile url dst) = ''utils.DownloadFile''"

definition named :: "string \<Rightarrow> call \<Rightarrow> bool" where
  "named n c = (callName c = n)"

definition genesisRun :: DataNodeGenerator where
  "genesisRun = \<lparr>userSettings = exampleSettings StartFromBlock0 \<lparr>BlockHeight = [], BlockHash = []\<rparr>,
                 networkConfig = MainnetConfig\<rparr>"

text \<open>
  The generator of the example settings in mode \<open>StartFromNetworkHistory\<close> with the snapshot
  of height 1000 and hash ABC, and a world in which the supervisor home already holds an
  entry \<open>current\<close>, a link to the directory of an earlier version.
\<close>

definition historyRun :: DataNodeGenerator where
  "historyRun = \<lparr>userSettings = exampleSettings StartFromNetworkHistory
                                  \<lparr>BlockHeight = ''1000'', BlockHash = ''ABC''\<rparr>,
                 networkConfig = MainnetConfig\<rparr>"

definition occupiedWorld :: world where
  "occupiedWorld = \<lparr>fs = [''/home/vega/vegavisor_home/current''
                             \<mapsto> Link ''/home/vega/vegavisor_home/v0.72.13''],
                     trace = []\<rparr>"

text \<open>
  \<open>extendsWithout n w w'\<close>: the trace of \<open>w'\<close> is the trace of \<open>w\<close> followed by calls none of
  which has the name \<open>n\<close>.
\<close>

definition extendsWithout :: "string \<Rightarrow> world \<Rightarrow> world \<Rightarrow> bool" where
  "extendsWithout n w w' = (\<exists>cs. trace w' = trace w @ cs \<and> n \<notin> set (map callName cs))"

section \<open>Lemmas on the key sets\<close>

lemma Split_nonempty: "Split s c \<noteq> []"
  by (induction s) (auto split: list.splits)

lemma Split_two: "c \<in> set s \<Longrightarrow> 2 \<le> length (Split s c)"
proof (induction s)
  case Nil
  then show ?case by simp
next
  case (Cons a s)
  show ?case
  proof (cases "a = c")
    case True
    have "1 \<le> length (Split s c)" using Split_nonempty [of s c] by (cases "Split s c") auto
    with True show ?thesis by simp
  next
    case False
    with Cons have "2 \<le> length (Split s c)" by simp
    with False show ?thesis by (auto split: list.splits)
  qed
qed

lemma index_Split_0: "\<exists>owner. index (Split s c) 0 = Inr owner"
  using Split_nonempty [of s c] by (simp add: index_def)

lemma index_Split_1: "c \<in> set s \<Longrightarrow> \<exists>name. index (Split s c) 1 = Inr name"
  using Split_two [of c s] by (simp add: index_def)

lemma tendermintKeys_genesis:
  assumes "CHR ''/'' \<in> set (Repository (networkConfig gen))"
    and "Mode (userSettings gen) = StartFromBlock0"
  shows "tendermintKeys env gen = Some [
            ''p2p.seeds'' \<mapsto> VString (strings_Join (TendermintSeeds (networkConfig gen)) '',''),
            ''pex'' \<mapsto> VBool True,
            ''statesync.enable'' \<mapsto> VBool False,
            ''statesync.rpc_servers'' \<mapsto>
               VString (strings_Join (TendermintRPCServers (networkConfig gen)) '',''),
            ''statesync.trust_period'' \<mapsto> VString ''672h0m0s'']"
proof -
  obtain owner where o: "index (Split (Repository (networkConfig gen)) CHR ''/'') 0 = Inr owner"
    using index_Split_0 by blast
  obtain name where n: "index (Split (Repository (networkConfig gen)) CHR ''/'') (Suc 0) = Inr name"
    using index_Split_1 [OF assms(1)] by auto
  show ?thesis
    using assms(2) by (simp add: tendermintKeys_def buildConfigs_def Let_def o n)
qed

lemma tendermintKeys_history:
  assumes "CHR ''/'' \<in> set (Repository (networkConfig gen))"
    and "Mode (userSettings gen) = StartFromNetworkHistory"
    and "BlockHash (LatestSnapshot (userSettings gen)) \<noteq> []"
    and "Atoi (BlockHeight (LatestSnapshot (userSettings gen))) = Inr h"
  shows "tendermintKeys env gen = Some [
            ''p2p.seeds'' \<mapsto> VString (strings_Join (TendermintSeeds (networkConfig gen)) '',''),
            ''pex'' \<mapsto> VBool True,
            ''statesync.enable'' \<mapsto> VBool False,
            ''statesync.rpc_servers'' \<mapsto>
               VString (strings_Join (TendermintRPCServers (networkConfig gen)) '',''),
            ''statesync.trust_period'' \<mapsto> VString ''672h0m0s'',
            ''statesync.enable'' \<mapsto> VBool True,
            ''statesync.trust_height'' \<mapsto> VInt h,
            ''statesync.trust_hash'' \<mapsto> VString (BlockHash (LatestSnapshot (userSettings gen)))]"
proof -
  obtain owner where o: "index (Split (Repository (networkConfig gen)) CHR ''/'') 0 = Inr owner"
    using index_Split_0 by blast
  obtain name where n: "index (Split (Repository (networkConfig gen)) CHR ''/'') (Suc 0) = Inr name"
    using index_Split_1 [OF assms(1)] by auto
  show ?thesis
    using assms(2-4) by (simp add: tendermintKeys_def buildConfigs_def Let_def o n)
qed


lemma andThen_wrapf_perform:
  "andThen (wrapf p (perform env c w)) f =
     (case extern env c (fs w) of
        (Inl e, g) \<Rightarrow> (Err (Wrapped p e), \<lparr>fs = g, trace = trace w @ [c]\<rparr>)
      | (Inr v, g) \<Rightarrow> f v \<lparr>fs = g, trace = trace w @ [c]\<rparr>)"
  by (simp add: andThen_def wrapf_def perform_def split: prod.splits sum.splits)

lemma step_Ok_trace:
  assumes ok: "fst (andThen (wrapf p (perform env c w)) f) = Ok y"
    and rest: "\<And>v w1. trace w1 = trace w @ [c] \<Longrightarrow> fst (f v w1) = Ok y
                 \<Longrightarrow> trace (snd (f v w1)) = trace w1 @ cs"
  shows "trace (snd (andThen (wrapf p (perform env c w)) f)) = trace w @ c # cs"
proof (cases "extern env c (fs w)")
  case (Pair r g)
  show ?thesis
  proof (cases r)
    case (Inl e)
    with Pair ok show ?thesis by (simp add: andThen_wrapf_perform)
  next
    case (Inr v)
    let ?w1 = "\<lparr>fs = g, trace = trace w @ [c]\<rparr>"
    have eq: "andThen (wrapf p (perform env c w)) f = f v ?w1"
      using Pair Inr by (simp add: andThen_wrapf_perform)
    have "trace (snd (f v ?w1)) = trace ?w1 @ cs"
      using ok eq by (intro rest) simp_all
    with eq show ?thesis by simp
  qed
qed

lemma updateConfigs_Ok_trace:
  assumes b: "buildConfigs env gen = Ok (dn, vc, tm, vv)"
    and ok: "fst (updateConfigs env gen w) = Ok ()"
  shows "trace (snd (updateConfigs env gen w)) = trace w @ configCalls env gen (dn, vc, tm, vv)"
  using ok unfolding updateConfigs_def b configCalls_def Let_def res.case prod.case
  apply -
  apply (erule step_Ok_trace)
  apply (erule step_Ok_trace)
  apply (erule step_Ok_trace)
  apply (erule step_Ok_trace)
  apply simp
  done

lemma tendermintKeys_SomeD:
  "tendermintKeys env gen = Some tm \<Longrightarrow> \<exists>dn vc vv. buildConfigs env gen = Ok (dn, vc, tm, vv)"
  by (auto simp: tendermintKeys_def split: res.splits)

lemma tendermint_written:
  assumes "tendermintKeys env gen = Some tm"
    and "fst (updateConfigs env gen w) = Ok ()"
  shows "UpdateConfig (filepath_Join env [TendermintHome (userSettings gen), TenderminConfigPath env])
           ''toml'' tm \<in> set (trace (snd (updateConfigs env gen w)))"
proof -
  from assms(1) obtain dn vc vv where "buildConfigs env gen = Ok (dn, vc, tm, vv)"
    using tendermintKeys_SomeD by blast
  from updateConfigs_Ok_trace [OF this assms(2)] show ?thesis
    by (simp add: configCalls_def)
qed

text \<open>
  C1. With a repository of the form owner/name: in mode \<open>StartFromNetworkHistory\<close>, when the
  snapshot's hash is not empty and its height parses as the integer \<open>h\<close>, the consensus-layer
  key set has \<open>statesync.enable = true\<close>, \<open>statesync.trust_height = h\<close> as an integer
  value and \<open>statesync.trust_hash\<close> the snapshot's hash; in mode \<open>StartFromBlock0\<close> it has
  \<open>statesync.enable = false\<close>. When \<open>updateConfigs\<close> returns without error, this key set
  has been handed to \<open>utils.UpdateConfig\<close> for the consensus-layer document.
\<close>

theorem updateConfigs_statesync:
  assumes "CHR ''/'' \<in> set (Repository (networkConfig gen))"
  shows "(Mode (userSettings gen) = StartFromNetworkHistory
          \<and> BlockHash (LatestSnapshot (userSettings gen)) \<noteq> []
          \<and> Atoi (BlockHeight (LatestSnapshot (userSettings gen))) = Inr h
          \<longrightarrow> (\<exists>tm. tendermintKeys env gen = Some tm
                 \<and> tm ''statesync.enable'' = Some (VBool True)
                 \<and> tm ''statesync.trust_height'' = Some (VInt h)
                 \<and> tm ''statesync.trust_hash''
                     = Some (VString (BlockHash (LatestSnapshot (userSettings gen))))
                 \<and> (fst (updateConfigs env gen w) = Ok ()
                      \<longrightarrow> UpdateConfig
                            (filepath_Join env [TendermintHome (userSettings gen), TenderminConfigPath env])
                            ''toml'' tm \<in> set (trace (snd (updateConfigs env gen w))))))
       \<and> (Mode (userSettings gen) = StartFromBlock0
          \<longrightarrow> (\<exists>tm. tendermintKeys env gen = Some tm
                 \<and> tm ''statesync.enable'' = Some (VBool False)
                 \<and> (fst (updateConfigs env gen w) = Ok ()
                      \<longrightarrow> UpdateConfig
                            (filepath_Join env [TendermintHome (userSettings gen), TenderminConfigPath env])
                            ''toml'' tm \<in> set (trace (snd (updateConfigs env gen w))))))"
proof (intro conjI impI)
  assume a: "Mode (userSettings gen) = StartFromNetworkHistory
          \<and> BlockHash (LatestSnapshot (userSettings gen)) \<noteq> []
          \<and> Atoi (BlockHeight (LatestSnapshot (userSettings gen))) = Inr h"
  from tendermintKeys_history [OF assms, of h env] a
  obtain tm where k: "tendermintKeys env gen = Some tm"
    and "tm ''statesync.enable'' = Some (VBool True)"
    and "tm ''statesync.trust_height'' = Some (VInt h)"
    and "tm ''statesync.trust_hash'' = Some (VString (BlockHash (LatestSnapshot (userSettings gen))))"
    by simp
  with tendermint_written [OF k] show "\<exists>tm. tendermintKeys env gen = Some tm
                 \<and> tm ''statesync.enable'' = Some (VBool True)
                 \<and> tm ''statesync.trust_height'' = Some (VInt h)
                 \<and> tm ''statesync.trust_hash''
                     = Some (VString (BlockHash (LatestSnapshot (userSettings gen))))
                 \<and> (fst (updateConfigs env gen w) = Ok ()
                      \<longrightarrow> UpdateConfig
                            (filepath_Join env [TendermintHome (userSettings gen), TenderminConfigPath env])
                            ''toml'' tm \<in> set (trace (snd (updateConfigs env gen w))))"
    by blast
next
  assume a: "Mode (userSettings gen) = StartFromBlock0"
  from tendermintKeys_genesis [OF assms a, of env]
  obtain tm where k: "tendermintKeys env gen = Some tm"
    and "tm ''statesync.enable'' = Some (VBool False)"
    by simp
  with tendermint_written [OF k] show "\<exists>tm. tendermintKeys env gen = Some tm
                 \<and> tm ''statesync.enable'' = Some (VBool False)
                 \<and> (fst (updateConfigs env gen w) = Ok ()
                      \<longrightarrow> UpdateConfig
                            (filepath_Join env [TendermintHome (userSettings gen), TenderminConfigPath env])
                            ''toml'' tm \<in> set (trace (snd (updateConfigs env gen w))))"
    by blast
qed

theorem updateConfigs_statesync_witness:
  "CHR ''/'' \<in> set (Repository MainnetConfig)
   \<and> Atoi ''1000'' = Inr 1000
   \<and> (\<exists>tm. tendermintKeys (linuxAmd64 succeeds)
              \<lparr>userSettings = exampleSettings StartFromNetworkHistory
                                \<lparr>BlockHeight = ''1000'', BlockHash = ''ABC''\<rparr>,
               networkConfig = MainnetConfig\<rparr> = Some tm
          \<and> tm ''statesync.enable'' = Some (VBool True)
          \<and> tm ''statesync.trust_height'' = Some (VInt 1000)
          \<and> tm ''statesync.trust_hash'' = Some (VString ''ABC'')
          \<and> UpdateConfig ''/home/vega/tendermint_home/config/config.toml'' ''toml'' tm
              \<in> set (trace (snd (updateConfigs (linuxAmd64 succeeds)
                    \<lparr>userSettings = exampleSettings StartFromNetworkHistory
                                      \<lparr>BlockHeight = ''1000'', BlockHash = ''ABC''\<rparr>,
                     networkConfig = MainnetConfig\<rparr> emptyWorld))))
   \<and> (\<exists>tm. tendermintKeys (linuxAmd64 succeeds)
              \<lparr>userSettings = exampleSettings StartFromBlock0 \<lparr>BlockHeight = [], BlockHash = []\<rparr>,
               networkConfig = MainnetConfig\<rparr> = Some tm
          \<and> tm ''statesync.enable'' = Some (VBool False))"
proof -
  let ?P = "linuxAmd64 succeeds"
  let ?H = "\<lparr>userSettings = exampleSettings StartFromNetworkHistory
                                \<lparr>BlockHeight = ''1000'', BlockHash = ''ABC''\<rparr>,
               networkConfig = MainnetConfig\<rparr>"
  let ?G = "\<lparr>userSettings = exampleSettings StartFromBlock0 \<lparr>BlockHeight = [], BlockHash = []\<rparr>,
               networkConfig = MainnetConfig\<rparr>"
  have r: "CHR ''/'' \<in> set (Repository MainnetConfig)"
    by (simp add: MainnetConfig_def)
  have a: "Atoi ''1000'' = Inr 1000"
    by (simp add: Atoi_def digitVal_def intSize_def)
  have ok: "fst (updateConfigs ?P ?H emptyWorld) = Ok ()"
    by (simp add: updateConfigs_def buildConfigs_def Let_def index_def andThen_def wrapf_def
        perform_def linuxAmd64_def exampleSettings_def MainnetConfig_def emptyWorld_def
        Atoi_def digitVal_def intSize_def unixJoin_def)
  have p: "filepath_Join ?P [TendermintHome (userSettings ?H), TenderminConfigPath ?P]
             = ''/home/vega/tendermint_home/config/config.toml''"
    by (simp add: linuxAmd64_def exampleSettings_def unixJoin_def)
  from updateConfigs_statesync [of ?H 1000 ?P emptyWorld] r a ok
  have "\<exists>tm. tendermintKeys ?P ?H = Some tm
          \<and> tm ''statesync.enable'' = Some (VBool True)
          \<and> tm ''statesync.trust_height'' = Some (VInt 1000)
          \<and> tm ''statesync.trust_hash'' = Some (VString ''ABC'')
          \<and> UpdateConfig ''/home/vega/tendermint_home/config/config.toml'' ''toml'' tm
              \<in> set (trace (snd (updateConfigs ?P ?H emptyWorld)))"
    unfolding p by (simp add: exampleSettings_def)
  moreover from updateConfigs_statesync [of ?G 0 ?P emptyWorld] r
  have "\<exists>tm. tendermintKeys ?P ?G = Some tm \<and> tm ''statesync.enable'' = Some (VBool False)"
    by (simp add: exampleSettings_def) blast
  ultimately show ?thesis using r a by blast
qed

lemma tendermintKeys_eq:
  assumes "CHR ''/'' \<in> set (Repository (networkConfig gen))"
  shows "tendermintKeys env gen =
     (if Mode (userSettings gen) = StartFromNetworkHistory
      then (if BlockHash (LatestSnapshot (userSettings gen)) = [] then None
            else (case Atoi (BlockHeight (LatestSnapshot (userSettings gen))) of
                    Inl e \<Rightarrow> None
                  | Inr h \<Rightarrow> Some [
                      ''p2p.seeds'' \<mapsto> VString (strings_Join (TendermintSeeds (networkConfig gen)) '',''),
                      ''pex'' \<mapsto> VBool True,
                      ''statesync.enable'' \<mapsto> VBool False,
                      ''statesync.rpc_servers'' \<mapsto>
                         VString (strings_Join (TendermintRPCServers (networkConfig gen)) '',''),
                      ''statesync.trust_period'' \<mapsto> VString ''672h0m0s'',
                      ''statesync.enable'' \<mapsto> VBool True,
                      ''statesync.trust_height'' \<mapsto> VInt h,
                      ''statesync.trust_hash'' \<mapsto>
                         VString (BlockHash (LatestSnapshot (userSettings gen)))]))
      else Some [
            ''p2p.seeds'' \<mapsto> VString (strings_Join (TendermintSeeds (networkConfig gen)) '',''),
            ''pex'' \<mapsto> VBool True,
            ''statesync.enable'' \<mapsto> VBool False,
            ''statesync.rpc_servers'' \<mapsto>
               VString (strings_Join (TendermintRPCServers (networkConfig gen)) '',''),
            ''statesync.trust_period'' \<mapsto> VString ''672h0m0s''])"
proof -
  obtain owner where o: "index (Split (Repository (networkConfig gen)) CHR ''/'') 0 = Inr owner"
    using index_Split_0 by blast
  obtain name where n: "index (Split (Repository (networkConfig gen)) CHR ''/'') (Suc 0) = Inr name"
    using index_Split_1 [OF assms] by auto
  show ?thesis
    by (simp add: tendermintKeys_def buildConfigs_def Let_def o n split: sum.splits)
qed

text \<open>
  C8, as the code has it. With a repository of the form owner/name: in mode \<open>StartFromBlock0\<close>
  the consensus-layer key set has exactly the five keys peer seeds, peer exchange, state-sync
  enabled (false), rpc servers and trust period; in mode \<open>StartFromNetworkHistory\<close> (snapshot
  hash not empty, height parsed) it has these and trust height and trust hash. The rpc servers
  key is the comma-joined RPC endpoint list in every key set the step produces; trust height and
  trust hash are in the key set only in mode \<open>StartFromNetworkHistory\<close>.
\<close>

theorem tendermint_key_set:
  assumes "CHR ''/'' \<in> set (Repository (networkConfig gen))"
  shows "(Mode (userSettings gen) = StartFromBlock0
          \<longrightarrow> map_option dom (tendermintKeys env gen)
                = Some {''p2p.seeds'', ''pex'', ''statesync.enable'', ''statesync.rpc_servers'',
                        ''statesync.trust_period''}
              \<and> lookupKey (tendermintKeys env gen) ''statesync.enable'' = Some (VBool False))
       \<and> (Mode (userSettings gen) = StartFromNetworkHistory
          \<and> BlockHash (LatestSnapshot (userSettings gen)) \<noteq> []
          \<and> Atoi (BlockHeight (LatestSnapshot (userSettings gen))) = Inr h
          \<longrightarrow> map_option dom (tendermintKeys env gen)
                = Some {''p2p.seeds'', ''pex'', ''statesync.enable'', ''statesync.rpc_servers'',
                        ''statesync.trust_period'', ''statesync.trust_height'',
                        ''statesync.trust_hash''})
       \<and> (tendermintKeys env gen \<noteq> None
          \<longrightarrow> lookupKey (tendermintKeys env gen) ''statesync.rpc_servers''
                = Some (VString (strings_Join (TendermintRPCServers (networkConfig gen)) '','')))
       \<and> ((lookupKey (tendermintKeys env gen) ''statesync.trust_height'' \<noteq> None
           \<or> lookupKey (tendermintKeys env gen) ''statesync.trust_hash'' \<noteq> None)
          \<longrightarrow> Mode (userSettings gen) = StartFromNetworkHistory)"
proof (intro conjI impI)
  assume "Mode (userSettings gen) = StartFromBlock0"
  then show "map_option dom (tendermintKeys env gen)
                = Some {''p2p.seeds'', ''pex'', ''statesync.enable'', ''statesync.rpc_servers'',
                        ''statesync.trust_period''}"
    by (simp add: tendermintKeys_eq [OF assms]) auto
next
  assume "Mode (userSettings gen) = StartFromBlock0"
  then show "lookupKey (tendermintKeys env gen) ''statesync.enable'' = Some (VBool False)"
    by (simp add: tendermintKeys_eq [OF assms] lookupKey_def)
next
  assume "Mode (userSettings gen) = StartFromNetworkHistory
          \<and> BlockHash (LatestSnapshot (userSettings gen)) \<noteq> []
          \<and> Atoi (BlockHeight (LatestSnapshot (userSettings gen))) = Inr h"
  then show "map_option dom (tendermintKeys env gen)
                = Some {''p2p.seeds'', ''pex'', ''statesync.enable'', ''statesync.rpc_servers'',
                        ''statesync.trust_period'', ''statesync.trust_height'',
                        ''statesync.trust_hash''}"
    by (simp add: tendermintKeys_eq [OF assms]) auto
next
  assume "tendermintKeys env gen \<noteq> None"
  then show "lookupKey (tendermintKeys env gen) ''statesync.rpc_servers''
                = Some (VString (strings_Join (TendermintRPCServers (networkConfig gen)) '',''))"
    by (simp add: tendermintKeys_eq [OF assms] lookupKey_def split: if_splits sum.splits)
next
  assume "lookupKey (tendermintKeys env gen) ''statesync.trust_height'' \<noteq> None
           \<or> lookupKey (tendermintKeys env gen) ''statesync.trust_hash'' \<noteq> None"
  then show "Mode (userSettings gen) = StartFromNetworkHistory"
    by (cases "Mode (userSettings gen)") (simp_all add: tendermintKeys_eq [OF assms] lookupKey_def)
qed

theorem tendermint_key_set_witness:
  "CHR ''/'' \<in> set (Repository MainnetConfig)
   \<and> Atoi ''1000'' = Inr 1000
   \<and> map_option dom (tendermintKeys (linuxAmd64 succeeds)
        \<lparr>userSettings = exampleSettings StartFromBlock0 \<lparr>BlockHeight = [], BlockHash = []\<rparr>,
         networkConfig = MainnetConfig\<rparr>)
      = Some {''p2p.seeds'', ''pex'', ''statesync.enable'', ''statesync.rpc_servers'',
              ''statesync.trust_period''}
   \<and> map_option dom (tendermintKeys (linuxAmd64 succeeds)
        \<lparr>userSettings = exampleSettings StartFromNetworkHistory
                          \<lparr>BlockHeight = ''1000'', BlockHash = ''ABC''\<rparr>,
         networkConfig = MainnetConfig\<rparr>)
      = Some {''p2p.seeds'', ''pex'', ''statesync.enable'', ''statesync.rpc_servers'',
              ''statesync.trust_period'', ''statesync.trust_height'', ''statesync.trust_hash''}
   \<and> lookupKey (tendermintKeys (linuxAmd64 succeeds)
        \<lparr>userSettings = exampleSettings StartFromNetworkHistory
                          \<lparr>BlockHeight = ''1000'', BlockHash = ''ABC''\<rparr>,
         networkConfig = MainnetConfig\<rparr>) ''statesync.trust_height'' \<noteq> None
   \<and> lookupKey (tendermintKeys (linuxAmd64 succeeds)
        \<lparr>userSettings = exampleSettings StartFromBlock0 \<lparr>BlockHeight = [], BlockHash = []\<rparr>,
         networkConfig = MainnetConfig\<rparr>) ''statesync.rpc_servers''
      = Some (VString ''api0.vega.community:26657,api1.vega.community:26657,api2.vega.community:26657,api3.vega.community:26657'')"
proof -
  let ?P = "linuxAmd64 succeeds"
  let ?H = "\<lparr>userSettings = exampleSettings StartFromNetworkHistory
                                \<lparr>BlockHeight = ''1000'', BlockHash = ''ABC''\<rparr>,
               networkConfig = MainnetConfig\<rparr>"
  let ?G = "\<lparr>userSettings = exampleSettings StartFromBlock0 \<lparr>BlockHeight = [], BlockHash = []\<rparr>,
               networkConfig = MainnetConfig\<rparr>"
  have r: "CHR ''/'' \<in> set (Repository MainnetConfig)"
    by (simp add: MainnetConfig_def)
  have a: "Atoi ''1000'' = Inr 1000"
    by (simp add: Atoi_def digitVal_def intSize_def)
  have j: "strings_Join (TendermintRPCServers MainnetConfig) '',''
           = ''api0.vega.community:26657,api1.vega.community:26657,api2.vega.community:26657,api3.vega.community:26657''"
    by (simp add: MainnetConfig_def)
  have rG: "CHR ''/'' \<in> set (Repository (networkConfig ?G))"
    and rH: "CHR ''/'' \<in> set (Repository (networkConfig ?H))"
    using r by simp_all
  have mG: "Mode (userSettings ?G) = StartFromBlock0"
    by (simp add: exampleSettings_def)
  have mH: "Mode (userSettings ?H) = StartFromNetworkHistory
            \<and> BlockHash (LatestSnapshot (userSettings ?H)) \<noteq> []
            \<and> Atoi (BlockHeight (LatestSnapshot (userSettings ?H))) = Inr 1000"
    using a by (simp add: exampleSettings_def)
  note TG = tendermint_key_set [of ?G ?P 0, OF rG]
  note TH = tendermint_key_set [of ?H ?P 1000, OF rH]
  have g: "map_option dom (tendermintKeys ?P ?G)
             = Some {''p2p.seeds'', ''pex'', ''statesync.enable'', ''statesync.rpc_servers'',
                     ''statesync.trust_period''}"
    using TG mG by blast
  have h: "map_option dom (tendermintKeys ?P ?H)
             = Some {''p2p.seeds'', ''pex'', ''statesync.enable'', ''statesync.rpc_servers'',
                     ''statesync.trust_period'', ''statesync.trust_height'', ''statesync.trust_hash''}"
    using TH mH by blast
  have t: "lookupKey (tendermintKeys ?P ?H) ''statesync.trust_height'' \<noteq> None"
    using tendermintKeys_history [of ?H 1000 ?P] rH mH
    by (simp add: lookupKey_def)
  have "tendermintKeys ?P ?G \<noteq> None"
    using g by auto
  with TG have "lookupKey (tendermintKeys ?P ?G) ''statesync.rpc_servers''
      = Some (VString (strings_Join (TendermintRPCServers (networkConfig ?G)) '',''))"
    by blast
  with j have s: "lookupKey (tendermintKeys ?P ?G) ''statesync.rpc_servers''
      = Some (VString ''api0.vega.community:26657,api1.vega.community:26657,api2.vega.community:26657,api3.vega.community:26657'')"
    by simp
  from r a g h t s show ?thesis by blast
qed

theorem tendermint_key_set_counterexample:
  "Mode (userSettings
      \<lparr>userSettings = exampleSettings StartFromBlock0 \<lparr>BlockHeight = [], BlockHash = []\<rparr>,
       networkConfig = MainnetConfig\<rparr>) = StartFromBlock0
   \<and> map_option dom (tendermintKeys (linuxAmd64 succeeds)
        \<lparr>userSettings = exampleSettings StartFromBlock0 \<lparr>BlockHeight = [], BlockHash = []\<rparr>,
         networkConfig = MainnetConfig\<rparr>)
      \<noteq> Some {''p2p.seeds'', ''pex'', ''statesync.enable'', ''statesync.trust_period''}
   \<and> lookupKey (tendermintKeys (linuxAmd64 succeeds)
        \<lparr>userSettings = exampleSettings StartFromBlock0 \<lparr>BlockHeight = [], BlockHash = []\<rparr>,
         networkConfig = MainnetConfig\<rparr>) ''statesync.rpc_servers''
      = Some (VString ''api0.vega.community:26657,api1.vega.community:26657,api2.vega.community:26657,api3.vega.community:26657'')"
proof -
  let ?K = "tendermintKeys (linuxAmd64 succeeds)
        \<lparr>userSettings = exampleSettings StartFromBlock0 \<lparr>BlockHeight = [], BlockHash = []\<rparr>,
         networkConfig = MainnetConfig\<rparr>"
  have k: "?K = Some [
            ''p2p.seeds'' \<mapsto> VString (strings_Join (TendermintSeeds MainnetConfig) '',''),
            ''pex'' \<mapsto> VBool True,
            ''statesync.enable'' \<mapsto> VBool False,
            ''statesync.rpc_servers'' \<mapsto> VString (strings_Join (TendermintRPCServers MainnetConfig) '',''),
            ''statesync.trust_period'' \<mapsto> VString ''672h0m0s'']"
    by (simp add: tendermintKeys_def buildConfigs_def Let_def index_def exampleSettings_def
        MainnetConfig_def)
  have "''statesync.rpc_servers'' \<in> dom (the ?K)"
    unfolding k by simp
  moreover have "''statesync.rpc_servers''
                   \<notin> {''p2p.seeds'', ''pex'', ''statesync.enable'', ''statesync.trust_period''}"
    by simp
  ultimately have "dom (the ?K) \<noteq> {''p2p.seeds'', ''pex'', ''statesync.enable'', ''statesync.trust_period''}"
    by metis
  then have d: "map_option dom ?K
                 \<noteq> Some {''p2p.seeds'', ''pex'', ''statesync.enable'', ''statesync.trust_period''}"
    unfolding k by simp
  have v: "lookupKey ?K ''statesync.rpc_servers''
      = Some (VString ''api0.vega.community:26657,api1.vega.community:26657,api2.vega.community:26657,api3.vega.community:26657'')"
    unfolding k by (simp add: lookupKey_def MainnetConfig_def)
  have m: "Mode (userSettings
      \<lparr>userSettings = exampleSettings StartFromBlock0 \<lparr>BlockHeight = [], BlockHash = []\<rparr>,
       networkConfig = MainnetConfig\<rparr>) = StartFromBlock0"
    by (simp add: exampleSettings_def)
  from m d v show ?thesis by blast
qed

lemma vegavisorKeys_eq:
  assumes "CHR ''/'' \<in> set (Repository (networkConfig gen))"
  shows "vegavisorKeys env gen =
     (if Mode (userSettings gen) = StartFromNetworkHistory
         \<and> (BlockHash (LatestSnapshot (userSettings gen)) = []
            \<or> (\<exists>e. Atoi (BlockHeight (LatestSnapshot (userSettings gen))) = Inl e))
      then None
      else Some [
             ''maxNumberOfFirstConnectionRetries'' \<mapsto> VInt 43200,
             ''autoInstall.enabled'' \<mapsto> VBool True,
             ''autoInstall.repositoryOwner'' \<mapsto>
                VString (Split (Repository (networkConfig gen)) CHR ''/'' ! 0),
             ''autoInstall.repository'' \<mapsto>
                VString (Split (Repository (networkConfig gen)) CHR ''/'' ! 1),
             ''autoInstall.asset.name'' \<mapsto>
                VString (''vega-'' @ GOOS env @ ''-'' @ GOARCH env @ ''.zip''),
             ''autoInstall.asset.binaryName'' \<mapsto> VString ''vega''])"
proof -
  have l: "2 \<le> length (Split (Repository (networkConfig gen)) CHR ''/'')"
    using Split_two [OF assms] .
  have o: "index (Split (Repository (networkConfig gen)) CHR ''/'') 0
             = Inr (Split (Repository (networkConfig gen)) CHR ''/'' ! 0)"
    using l by (auto simp: index_def)
  have n: "index (Split (Repository (networkConfig gen)) CHR ''/'') (Suc 0)
             = Inr (Split (Repository (networkConfig gen)) CHR ''/'' ! Suc 0)"
    using l by (auto simp: index_def)
  show ?thesis
    by (cases "Atoi (BlockHeight (LatestSnapshot (userSettings gen)))")
       (simp_all add: vegavisorKeys_def buildConfigs_def Let_def o n)
qed

lemma vegavisorKeys_SomeD:
  "vegavisorKeys env gen = Some vv \<Longrightarrow> \<exists>dn vc tm. buildConfigs env gen = Ok (dn, vc, tm, vv)"
  by (auto simp: vegavisorKeys_def split: res.splits)

lemma vegavisor_written:
  assumes "vegavisorKeys env gen = Some vv"
    and "fst (updateConfigs env gen w) = Ok ()"
  shows "UpdateConfig (filepath_Join env [VisorHome (userSettings gen), VegavisorConfigPath env])
           ''toml'' vv \<in> set (trace (snd (updateConfigs env gen w)))"
proof -
  from assms(1) obtain dn vc tm where "buildConfigs env gen = Ok (dn, vc, tm, vv)"
    using vegavisorKeys_SomeD by blast
  from updateConfigs_Ok_trace [OF this assms(2)] show ?thesis
    by (simp add: configCalls_def)
qed

text \<open>
  C3, as the code has it. With a repository of the form owner/name, every supervisor key set
  the step produces has the asset name \<open>vega-<os>-<arch>.zip\<close>, with the fixed prefix \<open>vega\<close>
  (the binary name it also writes) and not the repository's name; owner and name of the
  repository go to the keys \<open>autoInstall.repositoryOwner\<close> and \<open>autoInstall.repository\<close>.
  The key set is produced in mode \<open>StartFromBlock0\<close> and, with a usable snapshot, in mode
  \<open>StartFromNetworkHistory\<close>, and is handed to \<open>utils.UpdateConfig\<close> for the supervisor
  document when \<open>updateConfigs\<close> returns without error.
\<close>

theorem vegavisor_asset_name:
  assumes "CHR ''/'' \<in> set (Repository (networkConfig gen))"
  shows "(vegavisorKeys env gen \<noteq> None
          \<longrightarrow> lookupKey (vegavisorKeys env gen) ''autoInstall.asset.name''
                = Some (VString (''vega-'' @ GOOS env @ ''-'' @ GOARCH env @ ''.zip''))
              \<and> lookupKey (vegavisorKeys env gen) ''autoInstall.asset.binaryName''
                = Some (VString ''vega'')
              \<and> lookupKey (vegavisorKeys env gen) ''autoInstall.repositoryOwner''
                = Some (VString (Split (Repository (networkConfig gen)) CHR ''/'' ! 0))
              \<and> lookupKey (vegavisorKeys env gen) ''autoInstall.repository''
                = Some (VString (Split (Repository (networkConfig gen)) CHR ''/'' ! 1)))
       \<and> (Mode (userSettings gen) = StartFromBlock0 \<longrightarrow> vegavisorKeys env gen \<noteq> None)
       \<and> (Mode (userSettings gen) = StartFromNetworkHistory
          \<and> BlockHash (LatestSnapshot (userSettings gen)) \<noteq> []
          \<and> Atoi (BlockHeight (LatestSnapshot (userSettings gen))) = Inr h
          \<longrightarrow> vegavisorKeys env gen \<noteq> None)
       \<and> (vegavisorKeys env gen = Some vv \<and> fst (updateConfigs env gen w) = Ok ()
          \<longrightarrow> UpdateConfig (filepath_Join env [VisorHome (userSettings gen), VegavisorConfigPath env])
                ''toml'' vv \<in> set (trace (snd (updateConfigs env gen w))))"
proof (intro conjI impI)
  assume s: "vegavisorKeys env gen \<noteq> None"
  then have k: "vegavisorKeys env gen = Some [
             ''maxNumberOfFirstConnectionRetries'' \<mapsto> VInt 43200,
             ''autoInstall.enabled'' \<mapsto> VBool True,
             ''autoInstall.repositoryOwner'' \<mapsto>
                VString (Split (Repository (networkConfig gen)) CHR ''/'' ! 0),
             ''autoInstall.repository'' \<mapsto>
                VString (Split (Repository (networkConfig gen)) CHR ''/'' ! 1),
             ''autoInstall.asset.name'' \<mapsto>
                VString (''vega-'' @ GOOS env @ ''-'' @ GOARCH env @ ''.zip''),
             ''autoInstall.asset.binaryName'' \<mapsto> VString ''vega'']"
    unfolding vegavisorKeys_eq [OF assms] by (simp split: if_splits)
  show "lookupKey (vegavisorKeys env gen) ''autoInstall.asset.name''
                = Some (VString (''vega-'' @ GOOS env @ ''-'' @ GOARCH env @ ''.zip''))"
    unfolding k by (simp add: lookupKey_def)
  show "lookupKey (vegavisorKeys env gen) ''autoInstall.asset.binaryName'' = Some (VString ''vega'')"
    unfolding k by (simp add: lookupKey_def)
  show "lookupKey (vegavisorKeys env gen) ''autoInstall.repositoryOwner''
                = Some (VString (Split (Repository (networkConfig gen)) CHR ''/'' ! 0))"
    unfolding k by (simp add: lookupKey_def)
  show "lookupKey (vegavisorKeys env gen) ''autoInstall.repository''
                = Some (VString (Split (Repository (networkConfig gen)) CHR ''/'' ! 1))"
    unfolding k by (simp add: lookupKey_def)
next
  assume "Mode (userSettings gen) = StartFromBlock0"
  then show "vegavisorKeys env gen \<noteq> None"
    by (simp add: vegavisorKeys_eq [OF assms])
next
  assume "Mode (userSettings gen) = StartFromNetworkHistory
          \<and> BlockHash (LatestSnapshot (userSettings gen)) \<noteq> []
          \<and> Atoi (BlockHeight (LatestSnapshot (userSettings gen))) = Inr h"
  then show "vegavisorKeys env gen \<noteq> None"
    by (simp add: vegavisorKeys_eq [OF assms])
next
  assume "vegavisorKeys env gen = Some vv \<and> fst (updateConfigs env gen w) = Ok ()"
  then show "UpdateConfig (filepath_Join env [VisorHome (userSettings gen), VegavisorConfigPath env])
                ''toml'' vv \<in> set (trace (snd (updateConfigs env gen w)))"
    using vegavisor_written by blast
qed

theorem vegavisor_asset_name_counterexample:
  "lookupKey (vegavisorKeys (linuxAmd64 succeeds)
      \<lparr>userSettings = exampleSettings StartFromBlock0 \<lparr>BlockHeight = [], BlockHash = []\<rparr>,
       networkConfig = exampleNetwork ''org/proj''\<rparr>) ''autoInstall.asset.name''
     = Some (VString ''vega-linux-amd64.zip'')
   \<and> lookupKey (vegavisorKeys (linuxAmd64 succeeds)
      \<lparr>userSettings = exampleSettings StartFromBlock0 \<lparr>BlockHeight = [], BlockHash = []\<rparr>,
       networkConfig = exampleNetwork ''org/proj''\<rparr>) ''autoInstall.asset.name''
     \<noteq> Some (VString ''proj-linux-amd64.zip'')
   \<and> lookupKey (vegavisorKeys (linuxAmd64 succeeds)
      \<lparr>userSettings = exampleSettings StartFromBlock0 \<lparr>BlockHeight = [], BlockHash = []\<rparr>,
       networkConfig = exampleNetwork ''org/proj''\<rparr>) ''autoInstall.repository''
     = Some (VString ''proj'')"
  by (simp add: vegavisorKeys_def buildConfigs_def Let_def index_def lookupKey_def
      exampleSettings_def exampleNetwork_def linuxAmd64_def)

theorem vegavisor_asset_name_witness:
  "CHR ''/'' \<in> set (Repository (exampleNetwork ''org/proj''))
   \<and> vegavisorKeys (linuxAmd64 succeeds)
      \<lparr>userSettings = exampleSettings StartFromBlock0 \<lparr>BlockHeight = [], BlockHash = []\<rparr>,
       networkConfig = exampleNetwork ''org/proj''\<rparr> \<noteq> None
   \<and> lookupKey (vegavisorKeys (linuxAmd64 succeeds)
      \<lparr>userSettings = exampleSettings StartFromBlock0 \<lparr>BlockHeight = [], BlockHash = []\<rparr>,
       networkConfig = exampleNetwork ''org/proj''\<rparr>) ''autoInstall.asset.name''
     = Some (VString ''vega-linux-amd64.zip'')
   \<and> lookupKey (vegavisorKeys (linuxAmd64 succeeds)
      \<lparr>userSettings = exampleSettings StartFromBlock0 \<lparr>BlockHeight = [], BlockHash = []\<rparr>,
       networkConfig = exampleNetwork ''org/proj''\<rparr>) ''autoInstall.repository''
     = Some (VString ''proj'')
   \<and> lookupKey (vegavisorKeys (linuxAmd64 succeeds)
      \<lparr>userSettings = exampleSettings StartFromBlock0 \<lparr>BlockHeight = [], BlockHash = []\<rparr>,
       networkConfig = exampleNetwork ''org/proj''\<rparr>) ''autoInstall.repositoryOwner''
     = Some (VString ''org'')
   \<and> fst (updateConfigs (linuxAmd64 succeeds)
      \<lparr>userSettings = exampleSettings StartFromBlock0 \<lparr>BlockHeight = [], BlockHash = []\<rparr>,
       networkConfig = exampleNetwork ''org/proj''\<rparr> emptyWorld) = Ok ()
   \<and> UpdateConfig ''/home/vega/vegavisor_home/config.toml'' ''toml''
        (the (vegavisorKeys (linuxAmd64 succeeds)
          \<lparr>userSettings = exampleSettings StartFromBlock0 \<lparr>BlockHeight = [], BlockHash = []\<rparr>,
           networkConfig = exampleNetwork ''org/proj''\<rparr>))
      \<in> set (trace (snd (updateConfigs (linuxAmd64 succeeds)
          \<lparr>userSettings = exampleSettings StartFromBlock0 \<lparr>BlockHeight = [], BlockHash = []\<rparr>,
           networkConfig = exampleNetwork ''org/proj''\<rparr> emptyWorld)))"
proof -
  let ?P = "linuxAmd64 succeeds"
  let ?G = "\<lparr>userSettings = exampleSettings StartFromBlock0 \<lparr>BlockHeight = [], BlockHash = []\<rparr>,
             networkConfig = exampleNetwork ''org/proj''\<rparr>"
  have r: "CHR ''/'' \<in> set (Repository (exampleNetwork ''org/proj''))"
    by (simp add: exampleNetwork_def)
  then have rG: "CHR ''/'' \<in> set (Repository (networkConfig ?G))"
    by simp
  have m: "Mode (userSettings ?G) = StartFromBlock0"
    by (simp add: exampleSettings_def)
  have sp: "Split (Repository (networkConfig ?G)) CHR ''/'' = [''org'', ''proj'']"
    by (simp add: exampleNetwork_def)
  have pl: "GOOS ?P = ''linux''" "GOARCH ?P = ''amd64''"
    by (simp_all add: linuxAmd64_def)
  have pa: "filepath_Join ?P [VisorHome (userSettings ?G), VegavisorConfigPath ?P]
             = ''/home/vega/vegavisor_home/config.toml''"
    by (simp add: linuxAmd64_def exampleSettings_def unixJoin_def)
  have ok: "fst (updateConfigs ?P ?G emptyWorld) = Ok ()"
    by (simp add: updateConfigs_def buildConfigs_def Let_def index_def andThen_def wrapf_def
        perform_def linuxAmd64_def exampleSettings_def exampleNetwork_def emptyWorld_def
        unixJoin_def)
  note T = vegavisor_asset_name [of ?G ?P 0 "the (vegavisorKeys ?P ?G)" emptyWorld, OF rG]
  have s: "vegavisorKeys ?P ?G \<noteq> None"
    using T m by blast
  then have s': "vegavisorKeys ?P ?G = Some (the (vegavisorKeys ?P ?G))"
    by simp
  have n: "lookupKey (vegavisorKeys ?P ?G) ''autoInstall.asset.name'' = Some (VString ''vega-linux-amd64.zip'')"
    using T s unfolding pl by simp
  have rp: "lookupKey (vegavisorKeys ?P ?G) ''autoInstall.repository'' = Some (VString ''proj'')"
    using T s unfolding sp by simp
  have ro: "lookupKey (vegavisorKeys ?P ?G) ''autoInstall.repositoryOwner'' = Some (VString ''org'')"
    using T s unfolding sp by simp
  have wr: "UpdateConfig ''/home/vega/vegavisor_home/config.toml'' ''toml'' (the (vegavisorKeys ?P ?G))
      \<in> set (trace (snd (updateConfigs ?P ?G emptyWorld)))"
    using T s' ok unfolding pa by blast
  from r s n rp ro ok wr show ?thesis by blast
qed

section \<open>The pipeline stops at the first error\<close>

text \<open>
  C9. \<open>Run\<close> performs its steps in order: temporary directory, download of the node binary,
  download of the supervisor binary, version check of each, initialisation of the homes,
  supervisor home, copy of the binaries, configuration update, genesis download. When a step
  returns the error \<open>e\<close> in the world \<open>w'\<close>, after the steps before it returned without error,
  \<open>Run\<close> returns \<open>e\<close> wrapped with the text naming that step, and the world it returns is
  \<open>w'\<close>, the world the failed step left: no later step has run. When every step returns without
  error, so does \<open>Run\<close>.
\<close>

theorem Run_stops_at_first_error:
  "(perform env (MkdirTemp [] ''vega-assistant'') w = (Err e, w')
      \<longrightarrow> Run env gen w = (Err (Wrapped ''failed to create temp dir: '' e), w'))
   \<and> (perform env (MkdirTemp [] ''vega-assistant'') w = (Ok outputDir, wTemp) \<longrightarrow>
   (perform env (DownloadArtifact (Repository (networkConfig gen)) (MainnetVersion (userSettings gen))
                   outputDir ArtifactVega) wTemp = (Err e, w')
      \<longrightarrow> Run env gen w = (Err (Wrapped ''failed to download vega binary: '' e), w'))
   \<and> (perform env (DownloadArtifact (Repository (networkConfig gen)) (MainnetVersion (userSettings gen))
                   outputDir ArtifactVega) wTemp = (Ok vegaBinaryPath, wVega) \<longrightarrow>
   (perform env (DownloadArtifact (Repository (networkConfig gen)) (MainnetVersion (userSettings gen))
                   outputDir ArtifactVisor) wVega = (Err e, w')
      \<longrightarrow> Run env gen w = (Err (Wrapped ''failed to download visor binary: '' e), w'))
   \<and> (perform env (DownloadArtifact (Repository (networkConfig gen)) (MainnetVersion (userSettings gen))
                   outputDir ArtifactVisor) wVega = (Ok visorBinaryPath, wVisor) \<longrightarrow>
   (perform env (ExecuteBinary vegaBinaryPath [''version'']) wVisor = (Err e, w')
      \<longrightarrow> Run env gen w = (Err (Wrapped ''failed to check vega version: '' e), w'))
   \<and> (perform env (ExecuteBinary vegaBinaryPath [''version'']) wVisor = (Ok vegaVersion, wVegaVer) \<longrightarrow>
   (perform env (ExecuteBinary visorBinaryPath [''version'']) wVegaVer = (Err e, w')
      \<longrightarrow> Run env gen w = (Err (Wrapped ''failed to check visor version: '' e), w'))
   \<and> (perform env (ExecuteBinary visorBinaryPath [''version'']) wVegaVer = (Ok visorVersion, wVisorVer) \<longrightarrow>
   (initNode env gen visorBinaryPath vegaBinaryPath wVisorVer = (Err e, w')
      \<longrightarrow> Run env gen w = (Err (Wrapped ''failed to init vega node: '' e), w'))
   \<and> (initNode env gen visorBinaryPath vegaBinaryPath wVisorVer = (Ok (), wInit) \<longrightarrow>
   (prepareVisorHome env gen wInit = (Err e, w')
      \<longrightarrow> Run env gen w = (Err (Wrapped ''failed to prepare visor home: '' e), w'))
   \<and> (prepareVisorHome env gen wInit = (Ok (), wHome) \<longrightarrow>
   (copyBinaries env gen vegaBinaryPath visorBinaryPath wHome = (Err e, w')
      \<longrightarrow> Run env gen w = (Err (Wrapped ''failed to copy binaries to visor home: '' e), w'))
   \<and> (copyBinaries env gen vegaBinaryPath visorBinaryPath wHome = (Ok (), wCopy) \<longrightarrow>
   (updateConfigs env gen wCopy = (Err e, w')
      \<longrightarrow> Run env gen w = (Err (Wrapped ''failed to update config files for the node: '' e), w'))
   \<and> (updateConfigs env gen wCopy = (Ok (), wConf) \<longrightarrow>
   (downloadGenesis env gen wConf = (Err e, w')
      \<longrightarrow> Run env gen w = (Err (Wrapped ''failed to download genesis: '' e), w'))
   \<and> (downloadGenesis env gen wConf = (Ok (), w')
      \<longrightarrow> Run env gen w = (Ok (), w')))))))))))"
  by (simp add: Run_def andThen_def wrapf_def)

text \<open>
  The example machine, refusing one call: selectors of the platform and of the example
  generator, and the outcome of a call on it.
\<close>

lemma platform_sel:
  "GOOS (linuxAmd64 x) = ''linux''" "GOARCH (linuxAmd64 x) = ''amd64''"
  "filepath_Join (linuxAmd64 x) = unixJoin"
  "GenesisPath (linuxAmd64 x) = ''config/genesis.json''"
  "DataNodeConfigPath (linuxAmd64 x) = ''config/data-node/config.toml''"
  "CoreConfigPath (linuxAmd64 x) = ''config/node/config.toml''"
  "TenderminConfigPath (linuxAmd64 x) = ''config/config.toml''"
  "VegavisorConfigPath (linuxAmd64 x) = ''config.toml''"
  "TemplateVisorRunConfig (linuxAmd64 x) v a b = Inr (''name = '' @ v)"
  "extern (linuxAmd64 x) = x"
  by (simp_all add: linuxAmd64_def)

lemma genesisRun_sel:
  "Mode (userSettings genesisRun) = StartFromBlock0"
  "VisorHome (userSettings genesisRun) = ''/home/vega/vegavisor_home''"
  "VegaHome (userSettings genesisRun) = ''/home/vega/vega_home''"
  "TendermintHome (userSettings genesisRun) = ''/home/vega/tendermint_home''"
  "DataNodeHome (userSettings genesisRun) = ''/home/vega/data_node_home''"
  "MainnetVersion (userSettings genesisRun) = ''v0.72.14''"
  "MainnetChainId (userSettings genesisRun) = ''vega-mainnet-0011''"
  "Repository (networkConfig genesisRun) = ''vegaprotocol/vega''"
  "GenesisURL (networkConfig genesisRun)
     = ''https://raw.githubusercontent.com/vegaprotocol/networks/master/mainnet1/genesis.json''"
  by (simp_all add: genesisRun_def exampleSettings_def MainnetConfig_def)

lemma perform_failing:
  "perform (linuxAmd64 (failing (named n))) c w =
     (if callName c = n then (Err (Msg ''refused''), \<lparr>fs = fs w, trace = trace w @ [c]\<rparr>)
      else (case succeeds c (fs w) of
              (Inl e, f) \<Rightarrow> (Err e, \<lparr>fs = f, trace = trace w @ [c]\<rparr>)
            | (Inr v, f) \<Rightarrow> (Ok v, \<lparr>fs = f, trace = trace w @ [c]\<rparr>)))"
  by (simp add: perform_def failing_def named_def platform_sel)

lemmas run_eval = perform_failing platform_sel genesisRun_sel andThen_def wrapf_def unixJoin_def Let_def
  emptyWorld_def


lemma buildConfigs_genesisRun:
  "\<exists>dn vc tm vv. buildConfigs env genesisRun = Ok (dn, vc, tm, vv)"
proof -
  have "tendermintKeys env genesisRun \<noteq> None"
    using tendermintKeys_genesis [of genesisRun env] by (simp add: genesisRun_sel)
  then show ?thesis
    using tendermintKeys_SomeD by fastforce
qed

theorem Run_stops_at_first_error_witness:
  "fst (Run (linuxAmd64 (failing (named ''os.MkdirTemp''))) genesisRun emptyWorld)
     = Err (Wrapped ''failed to create temp dir: '' (Msg ''refused''))
   \<and> callName (last (trace (snd (Run (linuxAmd64 (failing (named ''os.MkdirTemp''))) genesisRun emptyWorld))))
     = ''os.MkdirTemp''
   \<and> fst (Run (linuxAmd64 (failing (named ''github.DownloadArtifact vega''))) genesisRun emptyWorld)
     = Err (Wrapped ''failed to download vega binary: '' (Msg ''refused''))
   \<and> callName (last (trace (snd (Run (linuxAmd64 (failing (named ''github.DownloadArtifact vega''))) genesisRun emptyWorld))))
     = ''github.DownloadArtifact vega''
   \<and> fst (Run (linuxAmd64 (failing (named ''github.DownloadArtifact visor''))) genesisRun emptyWorld)
     = Err (Wrapped ''failed to download visor binary: '' (Msg ''refused''))
   \<and> callName (last (trace (snd (Run (linuxAmd64 (failing (named ''github.DownloadArtifact visor''))) genesisRun emptyWorld))))
     = ''github.DownloadArtifact visor''
   \<and> fst (Run (linuxAmd64 (failing (named ''utils.ExecuteBinary /tmp/vega-assistant1/vega''))) genesisRun emptyWorld)
     = Err (Wrapped ''failed to check vega version: '' (Msg ''refused''))
   \<and> callName (last (trace (snd (Run (linuxAmd64 (failing (named ''utils.ExecuteBinary /tmp/vega-assistant1/vega''))) genesisRun emptyWorld))))
     = ''utils.ExecuteBinary /tmp/vega-assistant1/vega''
   \<and> fst (Run (linuxAmd64 (failing (named ''utils.ExecuteBinary /tmp/vega-assistant1/visor''))) genesisRun emptyWorld)
     = Err (Wrapped ''failed to check visor version: '' (Msg ''refused''))
   \<and> callName (last (trace (snd (Run (linuxAmd64 (failing (named ''utils.ExecuteBinary /tmp/vega-assistant1/visor''))) genesisRun emptyWorld))))
     = ''utils.ExecuteBinary /tmp/vega-assistant1/visor''
   \<and> fst (Run (linuxAmd64 (failing (named ''vegacmd.InitVisor''))) genesisRun emptyWorld)
     = Err (Wrapped ''failed to init vega node: '' (Wrapped ''failed to initialize vegavisor in /home/vega/vegavisor_home: '' (Msg ''refused'')))
   \<and> callName (last (trace (snd (Run (linuxAmd64 (failing (named ''vegacmd.InitVisor''))) genesisRun emptyWorld))))
     = ''vegacmd.InitVisor''
   \<and> fst (Run (linuxAmd64 (failing (named ''os.MkdirAll''))) genesisRun emptyWorld)
     = Err (Wrapped ''failed to prepare visor home: '' (Wrapped ''failed to make directory: '' (Msg ''refused'')))
   \<and> callName (last (trace (snd (Run (linuxAmd64 (failing (named ''os.MkdirAll''))) genesisRun emptyWorld))))
     = ''os.MkdirAll''
   \<and> fst (Run (linuxAmd64 (failing (named ''utils.CopyFile''))) genesisRun emptyWorld)
     = Err (Wrapped ''failed to copy binaries to visor home: '' (Wrapped ''failed to copy visor binary: '' (Msg ''refused'')))
   \<and> callName (last (trace (snd (Run (linuxAmd64 (failing (named ''utils.CopyFile''))) genesisRun emptyWorld))))
     = ''utils.CopyFile''
   \<and> fst (Run (linuxAmd64 (failing (named ''utils.UpdateConfig''))) genesisRun emptyWorld)
     = Err (Wrapped ''failed to update config files for the node: '' (Wrapped ''failed to update the data-node config; '' (Msg ''refused'')))
   \<and> callName (last (trace (snd (Run (linuxAmd64 (failing (named ''utils.UpdateConfig''))) genesisRun emptyWorld))))
     = ''utils.UpdateConfig''
   \<and> fst (Run (linuxAmd64 (failing (named ''utils.DownloadFile''))) genesisRun emptyWorld)
     = Err (Wrapped ''failed to download genesis: '' (Wrapped ''failed to download genesis: '' (Msg ''refused'')))
   \<and> callName (last (trace (snd (Run (linuxAmd64 (failing (named ''utils.DownloadFile''))) genesisRun emptyWorld))))
     = ''utils.DownloadFile''
   \<and> fst (Run (linuxAmd64 (failing (named ''os.RemoveAll''))) genesisRun emptyWorld) = Ok ()
   \<and> callName (last (trace (snd (Run (linuxAmd64 (failing (named ''os.RemoveAll''))) genesisRun emptyWorld))))
     = ''utils.DownloadFile''"
proof -
  have "fst (Run (linuxAmd64 (failing (named ''os.MkdirTemp''))) genesisRun emptyWorld)
     = Err (Wrapped ''failed to create temp dir: '' (Msg ''refused''))
   \<and> callName (last (trace (snd (Run (linuxAmd64 (failing (named ''os.MkdirTemp''))) genesisRun emptyWorld))))
     = ''os.MkdirTemp''"
  proof -
    let ?E = "linuxAmd64 (failing (named ''os.MkdirTemp''))"
    define Wa where "Wa = snd (perform ?E (MkdirTemp [] ''vega-assistant'') emptyWorld)"
    have h0: "perform ?E (MkdirTemp [] ''vega-assistant'') emptyWorld
                = (Err (Msg ''refused''), Wa)"
      by (simp add: Wa_def run_eval )
    note r = Run_stops_at_first_error [THEN conjunct1, THEN mp, OF h0]
    show ?thesis
      unfolding r by (simp add: Wa_def run_eval )
  qed
  moreover
  have "fst (Run (linuxAmd64 (failing (named ''github.DownloadArtifact vega''))) genesisRun emptyWorld)
     = Err (Wrapped ''failed to download vega binary: '' (Msg ''refused''))
   \<and> callName (last (trace (snd (Run (linuxAmd64 (failing (named ''github.DownloadArtifact vega''))) genesisRun emptyWorld))))
     = ''github.DownloadArtifact vega''"
  proof -
    let ?E = "linuxAmd64 (failing (named ''github.DownloadArtifact vega''))"
    define Wa where "Wa = snd (perform ?E (MkdirTemp [] ''vega-assistant'') emptyWorld)"
    have h0: "perform ?E (MkdirTemp [] ''vega-assistant'') emptyWorld
                = (Ok ''/tmp/vega-assistant1'', Wa)"
      by (simp add: Wa_def run_eval )
    define Wb where "Wb = snd (perform ?E (DownloadArtifact (Repository (networkConfig genesisRun)) (MainnetVersion (userSettings genesisRun)) ''/tmp/vega-assistant1'' ArtifactVega) Wa)"
    have h1: "perform ?E (DownloadArtifact (Repository (networkConfig genesisRun)) (MainnetVersion (userSettings genesisRun)) ''/tmp/vega-assistant1'' ArtifactVega) Wa
                = (Err (Msg ''refused''), Wb)"
      by (simp add: Wb_def run_eval )
    note r = Run_stops_at_first_error [THEN conjunct2, THEN mp, OF h0, THEN conjunct1, THEN mp, OF h1]
    show ?thesis
      unfolding r by (simp add: Wb_def run_eval )
  qed
  moreover
  have "fst (Run (linuxAmd64 (failing (named ''github.DownloadArtifact visor''))) genesisRun emptyWorld)
     = Err (Wrapped ''failed to download visor binary: '' (Msg ''refused''))
   \<and> callName (last (trace (snd (Run (linuxAmd64 (failing (named ''github.DownloadArtifact visor''))) genesisRun emptyWorld))))
     = ''github.DownloadArtifact visor''"
  proof -
    let ?E = "linuxAmd64 (failing (named ''github.DownloadArtifact visor''))"
    define Wa where "Wa = snd (perform ?E (MkdirTemp [] ''vega-assistant'') emptyWorld)"
    have h0: "perform ?E (MkdirTemp [] ''vega-assistant'') emptyWorld
                = (Ok ''/tmp/vega-assistant1'', Wa)"
      by (simp add: Wa_def run_eval )
    define Wb where "Wb = snd (perform ?E (DownloadArtifact (Repository (networkConfig genesisRun)) (MainnetVersion (userSettings genesisRun)) ''/tmp/vega-assistant1'' ArtifactVega) Wa)"
    have h1: "perform ?E (DownloadArtifact (Repository (networkConfig genesisRun)) (MainnetVersion (userSettings genesisRun)) ''/tmp/vega-assistant1'' ArtifactVega) Wa
                = (Ok ''/tmp/vega-assistant1/vega'', Wb)"
      by (simp add: Wb_def run_eval )
    define Wc where "Wc = snd (perform ?E (DownloadArtifact (Repository (networkConfig genesisRun)) (MainnetVersion (userSettings genesisRun)) ''/tmp/vega-assistant1'' ArtifactVisor) Wb)"
    have h2: "perform ?E (DownloadArtifact (Repository (networkConfig genesisRun)) (MainnetVersion (userSettings genesisRun)) ''/tmp/vega-assistant1'' ArtifactVisor) Wb
                = (Err (Msg ''refused''), Wc)"
      by (simp add: Wc_def run_eval )
    note r = Run_stops_at_first_error [THEN conjunct2, THEN mp, OF h0, THEN conjunct2, THEN mp, OF h1, THEN conjunct1, THEN mp, OF h2]
    show ?thesis
      unfolding r by (simp add: Wc_def run_eval )
  qed
  moreover
  have "fst (Run (linuxAmd64 (failing (named ''utils.ExecuteBinary /tmp/vega-assistant1/vega''))) genesisRun emptyWorld)
     = Err (Wrapped ''failed to check vega version: '' (Msg ''refused''))
   \<and> callName (last (trace (snd (Run (linuxAmd64 (failing (named ''utils.ExecuteBinary /tmp/vega-assistant1/vega''))) genesisRun emptyWorld))))
     = ''utils.ExecuteBinary /tmp/vega-assistant1/vega''"
  proof -
    let ?E = "linuxAmd64 (failing (named ''utils.ExecuteBinary /tmp/vega-assistant1/vega''))"
    define Wa where "Wa = snd (perform ?E (MkdirTemp [] ''vega-assistant'') emptyWorld)"
    have h0: "perform ?E (MkdirTemp [] ''vega-assistant'') emptyWorld
                = (Ok ''/tmp/vega-assistant1'', Wa)"
      by (simp add: Wa_def run_eval )
    define Wb where "Wb = snd (perform ?E (DownloadArtifact (Repository (networkConfig genesisRun)) (MainnetVersion (userSettings genesisRun)) ''/tmp/vega-assistant1'' ArtifactVega) Wa)"
    have h1: "perform ?E (DownloadArtifact (Repository (networkConfig genesisRun)) (MainnetVersion (userSettings genesisRun)) ''/tmp/vega-assistant1'' ArtifactVega) Wa
                = (Ok ''/tmp/vega-assistant1/vega'', Wb)"
      by (simp add: Wb_def run_eval )
    define Wc where "Wc = snd (perform ?E (DownloadArtifact (Repository (networkConfig genesisRun)) (MainnetVersion (userSettings genesisRun)) ''/tmp/vega-assistant1'' ArtifactVisor) Wb)"
    have h2: "perform ?E (DownloadArtifact (Repository (networkConfig genesisRun)) (MainnetVersion (userSettings genesisRun)) ''/tmp/vega-assistant1'' ArtifactVisor) Wb
                = (Ok ''/tmp/vega-assistant1/visor'', Wc)"
      by (simp add: Wc_def run_eval )
    define Wd where "Wd = snd (perform ?E (ExecuteBinary ''/tmp/vega-assistant1/vega'' [''version'']) Wc)"
    have h3: "perform ?E (ExecuteBinary ''/tmp/vega-assistant1/vega'' [''version'']) Wc
                = (Err (Msg ''refused''), Wd)"
      by (simp add: Wd_def run_eval )
    note r = Run_stops_at_first_error [THEN conjunct2, THEN mp, OF h0, THEN conjunct2, THEN mp, OF h1, THEN conjunct2, THEN mp, OF h2, THEN conjunct1, THEN mp, OF h3]
    show ?thesis
      unfolding r by (simp add: Wd_def run_eval )
  qed
  moreover
  have "fst (Run (linuxAmd64 (failing (named ''utils.ExecuteBinary /tmp/vega-assistant1/visor''))) genesisRun emptyWorld)
     = Err (Wrapped ''failed to check visor version: '' (Msg ''refused''))
   \<and> callName (last (trace (snd (Run (linuxAmd64 (failing (named ''utils.ExecuteBinary /tmp/vega-assistant1/visor''))) genesisRun emptyWorld))))
     = ''utils.ExecuteBinary /tmp/vega-assistant1/visor''"
  proof -
    let ?E = "linuxAmd64 (failing (named ''utils.ExecuteBinary /tmp/vega-assistant1/visor''))"
    define Wa where "Wa = snd (perform ?E (MkdirTemp [] ''vega-assistant'') emptyWorld)"
    have h0: "perform ?E (MkdirTemp [] ''vega-assistant'') emptyWorld
                = (Ok ''/tmp/vega-assistant1'', Wa)"
      by (simp add: Wa_def run_eval )
    define Wb where "Wb = snd (perform ?E (DownloadArtifact (Repository (networkConfig genesisRun)) (MainnetVersion (userSettings genesisRun)) ''/tmp/vega-assistant1'' ArtifactVega) Wa)"
    have h1: "perform ?E (DownloadArtifact (Repository (networkConfig genesisRun)) (MainnetVersion (userSettings genesisRun)) ''/tmp/vega-assistant1'' ArtifactVega) Wa
                = (Ok ''/tmp/vega-assistant1/vega'', Wb)"
      by (simp add: Wb_def run_eval )
    define Wc where "Wc = snd (perform ?E (DownloadArtifact (Repository (networkConfig genesisRun)) (MainnetVersion (userSettings genesisRun)) ''/tmp/vega-assistant1'' ArtifactVisor) Wb)"
    have h2: "perform ?E (DownloadArtifact (Repository (networkConfig genesisRun)) (MainnetVersion (userSettings genesisRun)) ''/tmp/vega-assistant1'' ArtifactVisor) Wb
                = (Ok ''/tmp/vega-assistant1/visor'', Wc)"
      by (simp add: Wc_def run_eval )
    define Wd where "Wd = snd (perform ?E (ExecuteBinary ''/tmp/vega-assistant1/vega'' [''version'']) Wc)"
    have h3: "perform ?E (ExecuteBinary ''/tmp/vega-assistant1/vega'' [''version'']) Wc
                = (Ok ''v0.72.14'', Wd)"
      by (simp add: Wd_def run_eval )
    define We where "We = snd (perform ?E (ExecuteBinary ''/tmp/vega-assistant1/visor'' [''version'']) Wd)"
    have h4: "perform ?E (ExecuteBinary ''/tmp/vega-assistant1/visor'' [''version'']) Wd
                = (Err (Msg ''refused''), We)"
      by (simp add: We_def run_eval )
    note r = Run_stops_at_first_error [THEN conjunct2, THEN mp, OF h0, THEN conjunct2, THEN mp, OF h1, THEN conjunct2, THEN mp, OF h2, THEN conjunct2, THEN mp, OF h3, THEN conjunct1, THEN mp, OF h4]
    show ?thesis
      unfolding r by (simp add: We_def run_eval )
  qed
  moreover
  have "fst (Run (linuxAmd64 (failing (named ''vegacmd.InitVisor''))) genesisRun emptyWorld)
     = Err (Wrapped ''failed to init vega node: '' (Wrapped ''failed to initialize vegavisor in /home/vega/vegavisor_home: '' (Msg ''refused'')))
   \<and> callName (last (trace (snd (Run (linuxAmd64 (failing (named ''vegacmd.InitVisor''))) genesisRun emptyWorld))))
     = ''vegacmd.InitVisor''"
  proof -
    let ?E = "linuxAmd64 (failing (named ''vegacmd.InitVisor''))"
    define Wa where "Wa = snd (perform ?E (MkdirTemp [] ''vega-assistant'') emptyWorld)"
    have h0: "perform ?E (MkdirTemp [] ''vega-assistant'') emptyWorld
                = (Ok ''/tmp/vega-assistant1'', Wa)"
      by (simp add: Wa_def run_eval )
    define Wb where "Wb = snd (perform ?E (DownloadArtifact (Repository (networkConfig genesisRun)) (MainnetVersion (userSettings genesisRun)) ''/tmp/vega-assistant1'' ArtifactVega) Wa)"
    have h1: "perform ?E (DownloadArtifact (Repository (networkConfig genesisRun)) (MainnetVersion (userSettings genesisRun)) ''/tmp/vega-assistant1'' ArtifactVega) Wa
                = (Ok ''/tmp/vega-assistant1/vega'', Wb)"
      by (simp add: Wb_def run_eval )
    define Wc where "Wc = snd (perform ?E (DownloadArtifact (Repository (networkConfig genesisRun)) (MainnetVersion (userSettings genesisRun)) ''/tmp/vega-assistant1'' ArtifactVisor) Wb)"
    have h2: "perform ?E (DownloadArtifact (Repository (networkConfig genesisRun)) (MainnetVersion (userSettings genesisRun)) ''/tmp/vega-assistant1'' ArtifactVisor) Wb
                = (Ok ''/tmp/vega-assistant1/visor'', Wc)"
      by (simp add: Wc_def run_eval )
    define Wd where "Wd = snd (perform ?E (ExecuteBinary ''/tmp/vega-assistant1/vega'' [''version'']) Wc)"
    have h3: "perform ?E (ExecuteBinary ''/tmp/vega-assistant1/vega'' [''version'']) Wc
                = (Ok ''v0.72.14'', Wd)"
      by (simp add: Wd_def run_eval )
    define We where "We = snd (perform ?E (ExecuteBinary ''/tmp/vega-assistant1/visor'' [''version'']) Wd)"
    have h4: "perform ?E (ExecuteBinary ''/tmp/vega-assistant1/visor'' [''version'']) Wd
                = (Ok ''v0.72.14'', We)"
      by (simp add: We_def run_eval )
    define Wf where "Wf = snd (initNode ?E genesisRun ''/tmp/vega-assistant1/visor'' ''/tmp/vega-assistant1/vega'' We)"
    have h5: "initNode ?E genesisRun ''/tmp/vega-assistant1/visor'' ''/tmp/vega-assistant1/vega'' We
                = (Err (Wrapped ''failed to initialize vegavisor in /home/vega/vegavisor_home: '' (Msg ''refused'')), Wf)"
      by (simp add: Wf_def run_eval initNode_def)
    note r = Run_stops_at_first_error [THEN conjunct2, THEN mp, OF h0, THEN conjunct2, THEN mp, OF h1, THEN conjunct2, THEN mp, OF h2, THEN conjunct2, THEN mp, OF h3, THEN conjunct2, THEN mp, OF h4, THEN conjunct1, THEN mp, OF h5]
    show ?thesis
      unfolding r by (simp add: Wf_def run_eval initNode_def)
  qed
  moreover
  have "fst (Run (linuxAmd64 (failing (named ''os.MkdirAll''))) genesisRun emptyWorld)
     = Err (Wrapped ''failed to prepare visor home: '' (Wrapped ''failed to make directory: '' (Msg ''refused'')))
   \<and> callName (last (trace (snd (Run (linuxAmd64 (failing (named ''os.MkdirAll''))) genesisRun emptyWorld))))
     = ''os.MkdirAll''"
  proof -
    let ?E = "linuxAmd64 (failing (named ''os.MkdirAll''))"
    define Wa where "Wa = snd (perform ?E (MkdirTemp [] ''vega-assistant'') emptyWorld)"
    have h0: "perform ?E (MkdirTemp [] ''vega-assistant'') emptyWorld
                = (Ok ''/tmp/vega-assistant1'', Wa)"
      by (simp add: Wa_def run_eval )
    define Wb where "Wb = snd (perform ?E (DownloadArtifact (Repository (networkConfig genesisRun)) (MainnetVersion (userSettings genesisRun)) ''/tmp/vega-assistant1'' ArtifactVega) Wa)"
    have h1: "perform ?E (DownloadArtifact (Repository (networkConfig genesisRun)) (MainnetVersion (userSettings genesisRun)) ''/tmp/vega-assistant1'' ArtifactVega) Wa
                = (Ok ''/tmp/vega-assistant1/vega'', Wb)"
      by (simp add: Wb_def run_eval )
    define Wc where "Wc = snd (perform ?E (DownloadArtifact (Repository (networkConfig genesisRun)) (MainnetVersion (userSettings genesisRun)) ''/tmp/vega-assistant1'' ArtifactVisor) Wb)"
    have h2: "perform ?E (DownloadArtifact (Repository (networkConfig genesisRun)) (MainnetVersion (userSettings genesisRun)) ''/tmp/vega-assistant1'' ArtifactVisor) Wb
                = (Ok ''/tmp/vega-assistant1/visor'', Wc)"
      by (simp add: Wc_def run_eval )
    define Wd where "Wd = snd (perform ?E (ExecuteBinary ''/tmp/vega-assistant1/vega'' [''version'']) Wc)"
    have h3: "perform ?E (ExecuteBinary ''/tmp/vega-assistant1/vega'' [''version'']) Wc
                = (Ok ''v0.72.14'', Wd)"
      by (simp add: Wd_def run_eval )
    define We where "We = snd (perform ?E (ExecuteBinary ''/tmp/vega-assistant1/visor'' [''version'']) Wd)"
    have h4: "perform ?E (ExecuteBinary ''/tmp/vega-assistant1/visor'' [''version'']) Wd
                = (Ok ''v0.72.14'', We)"
      by (simp add: We_def run_eval )
    define Wf where "Wf = snd (initNode ?E genesisRun ''/tmp/vega-assistant1/visor'' ''/tmp/vega-assistant1/vega'' We)"
    have h5: "initNode ?E genesisRun ''/tmp/vega-assistant1/visor'' ''/tmp/vega-assistant1/vega'' We
                = (Ok (), Wf)"
      by (simp add: Wf_def run_eval initNode_def)
    define Wg where "Wg = snd (prepareVisorHome ?E genesisRun Wf)"
    have h6: "prepareVisorHome ?E genesisRun Wf
                = (Err (Wrapped ''failed to make directory: '' (Msg ''refused'')), Wg)"
      by (simp add: Wg_def run_eval prepareVisorHome_def)
    note r = Run_stops_at_first_error [THEN conjunct2, THEN mp, OF h0, THEN conjunct2, THEN mp, OF h1, THEN conjunct2, THEN mp, OF h2, THEN conjunct2, THEN mp, OF h3, THEN conjunct2, THEN mp, OF h4, THEN conjunct2, THEN mp, OF h5, THEN conjunct1, THEN mp, OF h6]
    show ?thesis
      unfolding r by (simp add: Wg_def run_eval prepareVisorHome_def)
  qed
  moreover
  have "fst (Run (linuxAmd64 (failing (named ''utils.CopyFile''))) genesisRun emptyWorld)
     = Err (Wrapped ''failed to copy binaries to visor home: '' (Wrapped ''failed to copy visor binary: '' (Msg ''refused'')))
   \<and> callName (last (trace (snd (Run (linuxAmd64 (failing (named ''utils.CopyFile''))) genesisRun emptyWorld))))
     = ''utils.CopyFile''"
  proof -
    let ?E = "linuxAmd64 (failing (named ''utils.CopyFile''))"
    define Wa where "Wa = snd (perform ?E (MkdirTemp [] ''vega-assistant'') emptyWorld)"
    have h0: "perform ?E (MkdirTemp [] ''vega-assistant'') emptyWorld
                = (Ok ''/tmp/vega-assistant1'', Wa)"
      by (simp add: Wa_def run_eval )
    define Wb where "Wb = snd (perform ?E (DownloadArtifact (Repository (networkConfig genesisRun)) (MainnetVersion (userSettings genesisRun)) ''/tmp/vega-assistant1'' ArtifactVega) Wa)"
    have h1: "perform ?E (DownloadArtifact (Repository (networkConfig genesisRun)) (MainnetVersion (userSettings genesisRun)) ''/tmp/vega-assistant1'' ArtifactVega) Wa
                = (Ok ''/tmp/vega-assistant1/vega'', Wb)"
      by (simp add: Wb_def run_eval )
    define Wc where "Wc = snd (perform ?E (DownloadArtifact (Repository (networkConfig genesisRun)) (MainnetVersion (userSettings genesisRun)) ''/tmp/vega-assistant1'' ArtifactVisor) Wb)"
    have h2: "perform ?E (DownloadArtifact (Repository (networkConfig genesisRun)) (MainnetVersion (userSettings genesisRun)) ''/tmp/vega-assistant1'' ArtifactVisor) Wb
                = (Ok ''/tmp/vega-assistant1/visor'', Wc)"
      by (simp add: Wc_def run_eval )
    define Wd where "Wd = snd (perform ?E (ExecuteBinary ''/tmp/vega-assistant1/vega'' [''version'']) Wc)"
    have h3: "perform ?E (ExecuteBinary ''/tmp/vega-assistant1/vega'' [''version'']) Wc
                = (Ok ''v0.72.14'', Wd)"
      by (simp add: Wd_def run_eval )
    define We where "We = snd (perform ?E (ExecuteBinary ''/tmp/vega-assistant1/visor'' [''version'']) Wd)"
    have h4: "perform ?E (ExecuteBinary ''/tmp/vega-assistant1/visor'' [''version'']) Wd
                = (Ok ''v0.72.14'', We)"
      by (simp add: We_def run_eval )
    define Wf where "Wf = snd (initNode ?E genesisRun ''/tmp/vega-assistant1/visor'' ''/tmp/vega-assistant1/vega'' We)"
    have h5: "initNode ?E genesisRun ''/tmp/vega-assistant1/visor'' ''/tmp/vega-assistant1/vega'' We
                = (Ok (), Wf)"
      by (simp add: Wf_def run_eval initNode_def)
    define Wg where "Wg = snd (prepareVisorHome ?E genesisRun Wf)"
    have h6: "prepareVisorHome ?E genesisRun Wf
                = (Ok (), Wg)"
      by (simp add: Wg_def run_eval prepareVisorHome_def)
    define Wh where "Wh = snd (copyBinaries ?E genesisRun ''/tmp/vega-assistant1/vega'' ''/tmp/vega-assistant1/visor'' Wg)"
    have h7: "copyBinaries ?E genesisRun ''/tmp/vega-assistant1/vega'' ''/tmp/vega-assistant1/visor'' Wg
                = (Err (Wrapped ''failed to copy visor binary: '' (Msg ''refused'')), Wh)"
      by (simp add: Wh_def run_eval copyBinaries_def os_Symlink_def failing_def named_def Let_def)
    note r = Run_stops_at_first_error [THEN conjunct2, THEN mp, OF h0, THEN conjunct2, THEN mp, OF h1, THEN conjunct2, THEN mp, OF h2, THEN conjunct2, THEN mp, OF h3, THEN conjunct2, THEN mp, OF h4, THEN conjunct2, THEN mp, OF h5, THEN conjunct2, THEN mp, OF h6, THEN conjunct1, THEN mp, OF h7]
    show ?thesis
      unfolding r by (simp add: Wh_def run_eval copyBinaries_def os_Symlink_def failing_def named_def Let_def)
  qed
  moreover
  have "fst (Run (linuxAmd64 (failing (named ''utils.UpdateConfig''))) genesisRun emptyWorld)
     = Err (Wrapped ''failed to update config files for the node: '' (Wrapped ''failed to update the data-node config; '' (Msg ''refused'')))
   \<and> callName (last (trace (snd (Run (linuxAmd64 (failing (named ''utils.UpdateConfig''))) genesisRun emptyWorld))))
     = ''utils.UpdateConfig''"
  proof -
    let ?E = "linuxAmd64 (failing (named ''utils.UpdateConfig''))"
    obtain dn vc tm vv where b: "buildConfigs ?E genesisRun = Ok (dn, vc, tm, vv)"
      using buildConfigs_genesisRun by blast
    define Wa where "Wa = snd (perform ?E (MkdirTemp [] ''vega-assistant'') emptyWorld)"
    have h0: "perform ?E (MkdirTemp [] ''vega-assistant'') emptyWorld
                = (Ok ''/tmp/vega-assistant1'', Wa)"
      by (simp add: Wa_def run_eval )
    have c0: "fs Wa ''/home/vega/vegavisor_home/current'' = None"
      by (simp add: Wa_def run_eval )
    define Wb where "Wb = snd (perform ?E (DownloadArtifact (Repository (networkConfig genesisRun)) (MainnetVersion (userSettings genesisRun)) ''/tmp/vega-assistant1'' ArtifactVega) Wa)"
    have h1: "perform ?E (DownloadArtifact (Repository (networkConfig genesisRun)) (MainnetVersion (userSettings genesisRun)) ''/tmp/vega-assistant1'' ArtifactVega) Wa
                = (Ok ''/tmp/vega-assistant1/vega'', Wb)"
      by (simp add: Wb_def run_eval )
    have c1: "fs Wb ''/home/vega/vegavisor_home/current'' = None"
      by (simp add: Wb_def run_eval  c0)
    define Wc where "Wc = snd (perform ?E (DownloadArtifact (Repository (networkConfig genesisRun)) (MainnetVersion (userSettings genesisRun)) ''/tmp/vega-assistant1'' ArtifactVisor) Wb)"
    have h2: "perform ?E (DownloadArtifact (Repository (networkConfig genesisRun)) (MainnetVersion (userSettings genesisRun)) ''/tmp/vega-assistant1'' ArtifactVisor) Wb
                = (Ok ''/tmp/vega-assistant1/visor'', Wc)"
      by (simp add: Wc_def run_eval )
    have c2: "fs Wc ''/home/vega/vegavisor_home/current'' = None"
      by (simp add: Wc_def run_eval  c1)
    define Wd where "Wd = snd (perform ?E (ExecuteBinary ''/tmp/vega-assistant1/vega'' [''version'']) Wc)"
    have h3: "perform ?E (ExecuteBinary ''/tmp/vega-assistant1/vega'' [''version'']) Wc
                = (Ok ''v0.72.14'', Wd)"
      by (simp add: Wd_def run_eval )
    have c3: "fs Wd ''/home/vega/vegavisor_home/current'' = None"
      by (simp add: Wd_def run_eval  c2)
    define We where "We = snd (perform ?E (ExecuteBinary ''/tmp/vega-assistant1/visor'' [''version'']) Wd)"
    have h4: "perform ?E (ExecuteBinary ''/tmp/vega-assistant1/visor'' [''version'']) Wd
                = (Ok ''v0.72.14'', We)"
      by (simp add: We_def run_eval )
    have c4: "fs We ''/home/vega/vegavisor_home/current'' = None"
      by (simp add: We_def run_eval  c3)
    define Wf where "Wf = snd (initNode ?E genesisRun ''/tmp/vega-assistant1/visor'' ''/tmp/vega-assistant1/vega'' We)"
    have h5: "initNode ?E genesisRun ''/tmp/vega-assistant1/visor'' ''/tmp/vega-assistant1/vega'' We
                = (Ok (), Wf)"
      by (simp add: Wf_def run_eval initNode_def)
    have c5: "fs Wf ''/home/vega/vegavisor_home/current'' = None"
      by (simp add: Wf_def run_eval initNode_def c4)
    define Wg where "Wg = snd (prepareVisorHome ?E genesisRun Wf)"
    have h6: "prepareVisorHome ?E genesisRun Wf
                = (Ok (), Wg)"
      by (simp add: Wg_def run_eval prepareVisorHome_def)
    have c: "fs Wg ''/home/vega/vegavisor_home/current'' = None"
      by (simp add: Wg_def run_eval prepareVisorHome_def c5)
    define Wh where "Wh = snd (copyBinaries ?E genesisRun ''/tmp/vega-assistant1/vega'' ''/tmp/vega-assistant1/visor'' Wg)"
    have h7: "copyBinaries ?E genesisRun ''/tmp/vega-assistant1/vega'' ''/tmp/vega-assistant1/visor'' Wg
                = (Ok (), Wh)"
      by (simp add: Wh_def run_eval copyBinaries_def os_Symlink_def failing_def named_def Let_def c)
    define Wi where "Wi = snd (updateConfigs ?E genesisRun Wh)"
    have h8: "updateConfigs ?E genesisRun Wh
                = (Err (Wrapped ''failed to update the data-node config; '' (Msg ''refused'')), Wi)"
      by (simp add: Wi_def run_eval updateConfigs_def b Let_def)
    note r = Run_stops_at_first_error [THEN conjunct2, THEN mp, OF h0, THEN conjunct2, THEN mp, OF h1, THEN conjunct2, THEN mp, OF h2, THEN conjunct2, THEN mp, OF h3, THEN conjunct2, THEN mp, OF h4, THEN conjunct2, THEN mp, OF h5, THEN conjunct2, THEN mp, OF h6, THEN conjunct2, THEN mp, OF h7, THEN conjunct1, THEN mp, OF h8]
    show ?thesis
      unfolding r by (simp add: Wi_def run_eval updateConfigs_def b Let_def)
  qed
  moreover
  have "fst (Run (linuxAmd64 (failing (named ''utils.DownloadFile''))) genesisRun emptyWorld)
     = Err (Wrapped ''failed to download genesis: '' (Wrapped ''failed to download genesis: '' (Msg ''refused'')))
   \<and> callName (last (trace (snd (Run (linuxAmd64 (failing (named ''utils.DownloadFile''))) genesisRun emptyWorld))))
     = ''utils.DownloadFile''"
  proof -
    let ?E = "linuxAmd64 (failing (named ''utils.DownloadFile''))"
    obtain dn vc tm vv where b: "buildConfigs ?E genesisRun = Ok (dn, vc, tm, vv)"
      using buildConfigs_genesisRun by blast
    define Wa where "Wa = snd (perform ?E (MkdirTemp [] ''vega-assistant'') emptyWorld)"
    have h0: "perform ?E (MkdirTemp [] ''vega-assistant'') emptyWorld
                = (Ok ''/tmp/vega-assistant1'', Wa)"
      by (simp add: Wa_def run_eval )
    have c0: "fs Wa ''/home/vega/vegavisor_home/current'' = None"
      by (simp add: Wa_def run_eval )
    define Wb where "Wb = snd (perform ?E (DownloadArtifact (Repository (networkConfig genesisRun)) (MainnetVersion (userSettings genesisRun)) ''/tmp/vega-assistant1'' ArtifactVega) Wa)"
    have h1: "perform ?E (DownloadArtifact (Repository (networkConfig genesisRun)) (MainnetVersion (userSettings genesisRun)) ''/tmp/vega-assistant1'' ArtifactVega) Wa
                = (Ok ''/tmp/vega-assistant1/vega'', Wb)"
      by (simp add: Wb_def run_eval )
    have c1: "fs Wb ''/home/vega/vegavisor_home/current'' = None"
      by (simp add: Wb_def run_eval  c0)
    define Wc where "Wc = snd (perform ?E (DownloadArtifact (Repository (networkConfig genesisRun)) (MainnetVersion (userSettings genesisRun)) ''/tmp/vega-assistant1'' ArtifactVisor) Wb)"
    have h2: "perform ?E (DownloadArtifact (Repository (networkConfig genesisRun)) (MainnetVersion (userSettings genesisRun)) ''/tmp/vega-assistant1'' ArtifactVisor) Wb
                = (Ok ''/tmp/vega-assistant1/visor'', Wc)"
      by (simp add: Wc_def run_eval )
    have c2: "fs Wc ''/home/vega/vegavisor_home/current'' = None"
      by (simp add: Wc_def run_eval  c1)
    define Wd where "Wd = snd (perform ?E (ExecuteBinary ''/tmp/vega-assistant1/vega'' [''version'']) Wc)"
    have h3: "perform ?E (ExecuteBinary ''/tmp/vega-assistant1/vega'' [''version'']) Wc
                = (Ok ''v0.72.14'', Wd)"
      by (simp add: Wd_def run_eval )
    have c3: "fs Wd ''/home/vega/vegavisor_home/current'' = None"
      by (simp add: Wd_def run_eval  c2)
    define We where "We = snd (perform ?E (ExecuteBinary ''/tmp/vega-assistant1/visor'' [''version'']) Wd)"
    have h4: "perform ?E (ExecuteBinary ''/tmp/vega-assistant1/visor'' [''version'']) Wd
                = (Ok ''v0.72.14'', We)"
      by (simp add: We_def run_eval )
    have c4: "fs We ''/home/vega/vegavisor_home/current'' = None"
      by (simp add: We_def run_eval  c3)
    define Wf where "Wf = snd (initNode ?E genesisRun ''/tmp/vega-assistant1/visor'' ''/tmp/vega-assistant1/vega'' We)"
    have h5: "initNode ?E genesisRun ''/tmp/vega-assistant1/visor'' ''/tmp/vega-assistant1/vega'' We
                = (Ok (), Wf)"
      by (simp add: Wf_def run_eval initNode_def)
    have c5: "fs Wf ''/home/vega/vegavisor_home/current'' = None"
      by (simp add: Wf_def run_eval initNode_def c4)
    define Wg where "Wg = snd (prepareVisorHome ?E genesisRun Wf)"
    have h6: "prepareVisorHome ?E genesisRun Wf
                = (Ok (), Wg)"
      by (simp add: Wg_def run_eval prepareVisorHome_def)
    have c: "fs Wg ''/home/vega/vegavisor_home/current'' = None"
      by (simp add: Wg_def run_eval prepareVisorHome_def c5)
    define Wh where "Wh = snd (copyBinaries ?E genesisRun ''/tmp/vega-assistant1/vega'' ''/tmp/vega-assistant1/visor'' Wg)"
    have h7: "copyBinaries ?E genesisRun ''/tmp/vega-assistant1/vega'' ''/tmp/vega-assistant1/visor'' Wg
                = (Ok (), Wh)"
      by (simp add: Wh_def run_eval copyBinaries_def os_Symlink_def failing_def named_def Let_def c)
    define Wi where "Wi = snd (updateConfigs ?E genesisRun Wh)"
    have h8: "updateConfigs ?E genesisRun Wh
                = (Ok (), Wi)"
      by (simp add: Wi_def run_eval updateConfigs_def b Let_def)
    define Wj where "Wj = snd (downloadGenesis ?E genesisRun Wi)"
    have h9: "downloadGenesis ?E genesisRun Wi
                = (Err (Wrapped ''failed to download genesis: '' (Msg ''refused'')), Wj)"
      by (simp add: Wj_def run_eval downloadGenesis_def Let_def)
    note r = Run_stops_at_first_error [THEN conjunct2, THEN mp, OF h0, THEN conjunct2, THEN mp, OF h1, THEN conjunct2, THEN mp, OF h2, THEN conjunct2, THEN mp, OF h3, THEN conjunct2, THEN mp, OF h4, THEN conjunct2, THEN mp, OF h5, THEN conjunct2, THEN mp, OF h6, THEN conjunct2, THEN mp, OF h7, THEN conjunct2, THEN mp, OF h8, THEN conjunct1, THEN mp, OF h9]
    show ?thesis
      unfolding r by (simp add: Wj_def run_eval downloadGenesis_def Let_def)
  qed
  moreover
  have "fst (Run (linuxAmd64 (failing (named ''os.RemoveAll''))) genesisRun emptyWorld) = Ok ()
   \<and> callName (last (trace (snd (Run (linuxAmd64 (failing (named ''os.RemoveAll''))) genesisRun emptyWorld))))
     = ''utils.DownloadFile''"
  proof -
    let ?E = "linuxAmd64 (failing (named ''os.RemoveAll''))"
    obtain dn vc tm vv where b: "buildConfigs ?E genesisRun = Ok (dn, vc, tm, vv)"
      using buildConfigs_genesisRun by blast
    define Wa where "Wa = snd (perform ?E (MkdirTemp [] ''vega-assistant'') emptyWorld)"
    have h0: "perform ?E (MkdirTemp [] ''vega-assistant'') emptyWorld
                = (Ok ''/tmp/vega-assistant1'', Wa)"
      by (simp add: Wa_def run_eval )
    have c0: "fs Wa ''/home/vega/vegavisor_home/current'' = None"
      by (simp add: Wa_def run_eval )
    define Wb where "Wb = snd (perform ?E (DownloadArtifact (Repository (networkConfig genesisRun)) (MainnetVersion (userSettings genesisRun)) ''/tmp/vega-assistant1'' ArtifactVega) Wa)"
    have h1: "perform ?E (DownloadArtifact (Repository (networkConfig genesisRun)) (MainnetVersion (userSettings genesisRun)) ''/tmp/vega-assistant1'' ArtifactVega) Wa
                = (Ok ''/tmp/vega-assistant1/vega'', Wb)"
      by (simp add: Wb_def run_eval )
    have c1: "fs Wb ''/home/vega/vegavisor_home/current'' = None"
      by (simp add: Wb_def run_eval  c0)
    define Wc where "Wc = snd (perform ?E (DownloadArtifact (Repository (networkConfig genesisRun)) (MainnetVersion (userSettings genesisRun)) ''/tmp/vega-assistant1'' ArtifactVisor) Wb)"
    have h2: "perform ?E (DownloadArtifact (Repository (networkConfig genesisRun)) (MainnetVersion (userSettings genesisRun)) ''/tmp/vega-assistant1'' ArtifactVisor) Wb
                = (Ok ''/tmp/vega-assistant1/visor'', Wc)"
      by (simp add: Wc_def run_eval )
    have c2: "fs Wc ''/home/vega/vegavisor_home/current'' = None"
      by (simp add: Wc_def run_eval  c1)
    define Wd where "Wd = snd (perform ?E (ExecuteBinary ''/tmp/vega-assistant1/vega'' [''version'']) Wc)"
    have h3: "perform ?E (ExecuteBinary ''/tmp/vega-assistant1/vega'' [''version'']) Wc
                = (Ok ''v0.72.14'', Wd)"
      by (simp add: Wd_def run_eval )
    have c3: "fs Wd ''/home/vega/vegavisor_home/current'' = None"
      by (simp add: Wd_def run_eval  c2)
    define We where "We = snd (perform ?E (ExecuteBinary ''/tmp/vega-assistant1/visor'' [''version'']) Wd)"
    have h4: "perform ?E (ExecuteBinary ''/tmp/vega-assistant1/visor'' [''version'']) Wd
                = (Ok ''v0.72.14'', We)"
      by (simp add: We_def run_eval )
    have c4: "fs We ''/home/vega/vegavisor_home/current'' = None"
      by (simp add: We_def run_eval  c3)
    define Wf where "Wf = snd (initNode ?E genesisRun ''/tmp/vega-assistant1/visor'' ''/tmp/vega-assistant1/vega'' We)"
    have h5: "initNode ?E genesisRun ''/tmp/vega-assistant1/visor'' ''/tmp/vega-assistant1/vega'' We
                = (Ok (), Wf)"
      by (simp add: Wf_def run_eval initNode_def)
    have c5: "fs Wf ''/home/vega/vegavisor_home/current'' = None"
      by (simp add: Wf_def run_eval initNode_def c4)
    define Wg where "Wg = snd (prepareVisorHome ?E genesisRun Wf)"
    have h6: "prepareVisorHome ?E genesisRun Wf
                = (Ok (), Wg)"
      by (simp add: Wg_def run_eval prepareVisorHome_def)
    have c: "fs Wg ''/home/vega/vegavisor_home/current'' = None"
      by (simp add: Wg_def run_eval prepareVisorHome_def c5)
    define Wh where "Wh = snd (copyBinaries ?E genesisRun ''/tmp/vega-assistant1/vega'' ''/tmp/vega-assistant1/visor'' Wg)"
    have h7: "copyBinaries ?E genesisRun ''/tmp/vega-assistant1/vega'' ''/tmp/vega-assistant1/visor'' Wg
                = (Ok (), Wh)"
      by (simp add: Wh_def run_eval copyBinaries_def os_Symlink_def failing_def named_def Let_def c)
    define Wi where "Wi = snd (updateConfigs ?E genesisRun Wh)"
    have h8: "updateConfigs ?E genesisRun Wh
                = (Ok (), Wi)"
      by (simp add: Wi_def run_eval updateConfigs_def b Let_def)
    define Wj where "Wj = snd (downloadGenesis ?E genesisRun Wi)"
    have h9: "downloadGenesis ?E genesisRun Wi
                = (Ok (), Wj)"
      by (simp add: Wj_def run_eval downloadGenesis_def Let_def)
    note r = Run_stops_at_first_error [THEN conjunct2, THEN mp, OF h0, THEN conjunct2, THEN mp, OF h1, THEN conjunct2, THEN mp, OF h2, THEN conjunct2, THEN mp, OF h3, THEN conjunct2, THEN mp, OF h4, THEN conjunct2, THEN mp, OF h5, THEN conjunct2, THEN mp, OF h6, THEN conjunct2, THEN mp, OF h7, THEN conjunct2, THEN mp, OF h8, THEN conjunct2, THEN mp, OF h9]
    show ?thesis
      unfolding r by (simp add: Wj_def run_eval downloadGenesis_def Let_def)
  qed
  ultimately show ?thesis
    by blast
qed

section \<open>The symlink of the binary-copy step\<close>

lemma historyRun_sel:
  "Mode (userSettings historyRun) = StartFromNetworkHistory"
  "VisorHome (userSettings historyRun) = ''/home/vega/vegavisor_home''"
  "VegaHome (userSettings historyRun) = ''/home/vega/vega_home''"
  "TendermintHome (userSettings historyRun) = ''/home/vega/tendermint_home''"
  "DataNodeHome (userSettings historyRun) = ''/home/vega/data_node_home''"
  "MainnetVersion (userSettings historyRun) = ''v0.72.14''"
  "MainnetChainId (userSettings historyRun) = ''vega-mainnet-0011''"
  by (simp_all add: historyRun_def exampleSettings_def)

lemma andThen_wrapf_Symlink:
  "andThen (wrapf p (os_Symlink env old new w)) f =
     (if fs w new \<noteq> None
      then (Err (Wrapped p (LinkError ''symlink'' old new ''file exists'')),
            \<lparr>fs = fs w, trace = trace w @ [Symlink old new]\<rparr>)
      else (case fst (extern env (Symlink old new) (fs w)) of
              Inl e \<Rightarrow> (Err (Wrapped p e), \<lparr>fs = fs w, trace = trace w @ [Symlink old new]\<rparr>)
            | Inr v \<Rightarrow> f () \<lparr>fs = (fs w)(new \<mapsto> Link old), trace = trace w @ [Symlink old new]\<rparr>))"
  by (simp add: andThen_def wrapf_def os_Symlink_def Let_def split: sum.splits)

lemma symlink_Ok_trace:
  assumes ok: "fst (andThen (wrapf p (os_Symlink env old new w)) f) = Ok y"
    and rest: "\<And>v w1. trace w1 = trace w @ [Symlink old new] \<Longrightarrow> fst (f v w1) = Ok y
                 \<Longrightarrow> trace (snd (f v w1)) = trace w1 @ cs"
  shows "trace (snd (andThen (wrapf p (os_Symlink env old new w)) f)) = trace w @ Symlink old new # cs"
proof (cases "fs w new \<noteq> None")
  case True
  with ok show ?thesis by (simp add: andThen_wrapf_Symlink)
next
  case False
  show ?thesis
  proof (cases "fst (extern env (Symlink old new) (fs w))")
    case (Inl e)
    with False ok show ?thesis by (simp add: andThen_wrapf_Symlink)
  next
    case (Inr v)
    let ?w1 = "\<lparr>fs = (fs w)(new \<mapsto> Link old), trace = trace w @ [Symlink old new]\<rparr>"
    have eq: "andThen (wrapf p (os_Symlink env old new w)) f = f () ?w1"
      using False Inr by (simp add: andThen_wrapf_Symlink)
    have "trace (snd (f () ?w1)) = trace ?w1 @ cs"
      using ok eq by (intro rest) simp_all
    with eq show ?thesis by simp
  qed
qed

lemma perform_succeeds:
  "perform (linuxAmd64 succeeds) c w =
     (case succeeds c (fs w) of
        (Inl e, f) \<Rightarrow> (Err e, \<lparr>fs = f, trace = trace w @ [c]\<rparr>)
      | (Inr v, f) \<Rightarrow> (Ok v, \<lparr>fs = f, trace = trace w @ [c]\<rparr>))"
  by (simp add: perform_def platform_sel)

lemmas ok_eval = perform_succeeds platform_sel genesisRun_sel historyRun_sel andThen_def wrapf_def
  unixJoin_def Let_def emptyWorld_def

text \<open>
  C4, as the code has it. After both copies of \<open>copyBinaries\<close> returned without error: when no
  entry \<open>current\<close> exists in the supervisor home and the system reports no other failure, the
  step makes \<open>current\<close> a link to the versioned subdirectory and returns without error; when
  an entry \<open>current\<close> exists, the step returns the "file exists" error of \<open>os.Symlink\<close>,
  wrapped, and leaves the file system as the copies left it: the entry is not replaced.
\<close>

theorem copyBinaries_symlink:
  assumes "version = (if Mode (userSettings gen) = StartFromBlock0 then ''genesis''
                      else MainnetVersion (userSettings gen))"
    and "versionDirectory = filepath_Join env [VisorHome (userSettings gen), version]"
    and "currentDirectory = filepath_Join env [VisorHome (userSettings gen), ''current'']"
    and "perform env (CopyFile visorBinaryPath
                        (filepath_Join env [VisorHome (userSettings gen), ''visor''])) w = (Ok r1, w1)"
    and "perform env (CopyFile vegaBinaryPath
                        (filepath_Join env [VisorHome (userSettings gen), version, ''vega''])) w1
           = (Ok r2, w2)"
  shows "(fs w2 currentDirectory = None
          \<and> fst (extern env (Symlink versionDirectory currentDirectory) (fs w2)) = Inr r3
          \<longrightarrow> copyBinaries env gen vegaBinaryPath visorBinaryPath w
                = (Ok (), \<lparr>fs = (fs w2)(currentDirectory \<mapsto> Link versionDirectory),
                           trace = trace w2 @ [Symlink versionDirectory currentDirectory]\<rparr>))
       \<and> (fs w2 currentDirectory \<noteq> None
          \<longrightarrow> copyBinaries env gen vegaBinaryPath visorBinaryPath w
                = (Err (Wrapped (''failed to create symlink from '' @ versionDirectory @ '' to ''
                                  @ currentDirectory @ '': '')
                         (LinkError ''symlink'' versionDirectory currentDirectory ''file exists'')),
                   \<lparr>fs = fs w2, trace = trace w2 @ [Symlink versionDirectory currentDirectory]\<rparr>))"
proof -
  have v: "(if Mode (userSettings gen) = StartFromBlock0 then ''genesis''
            else MainnetVersion (userSettings gen)) = version"
    using assms(1) by simp
  have "copyBinaries env gen vegaBinaryPath visorBinaryPath w
          = andThen (wrapf (''failed to create symlink from '' @ versionDirectory @ '' to ''
                             @ currentDirectory @ '': '')
                       (os_Symlink env versionDirectory currentDirectory w2))
              (\<lambda>_ w. (Ok (), w))"
    unfolding copyBinaries_def Let_def v assms(2,3)
    by (simp add: assms(4,5) andThen_def wrapf_def)
  then show ?thesis
    by (simp add: andThen_wrapf_Symlink)
qed

theorem copyBinaries_symlink_counterexample:
  "fst (copyBinaries (linuxAmd64 succeeds) genesisRun
          ''/tmp/vega-assistant1/vega'' ''/tmp/vega-assistant1/visor'' occupiedWorld)
     = Err (Wrapped ''failed to create symlink from /home/vega/vegavisor_home/genesis to /home/vega/vegavisor_home/current: ''
             (LinkError ''symlink'' ''/home/vega/vegavisor_home/genesis''
                ''/home/vega/vegavisor_home/current'' ''file exists''))
   \<and> fs (snd (copyBinaries (linuxAmd64 succeeds) genesisRun
          ''/tmp/vega-assistant1/vega'' ''/tmp/vega-assistant1/visor'' occupiedWorld))
        ''/home/vega/vegavisor_home/current''
     = Some (Link ''/home/vega/vegavisor_home/v0.72.13'')"
  by (simp add: copyBinaries_def os_Symlink_def occupiedWorld_def ok_eval)

theorem copyBinaries_symlink_witness:
  "fst (copyBinaries (linuxAmd64 succeeds) genesisRun
          ''/tmp/vega-assistant1/vega'' ''/tmp/vega-assistant1/visor'' emptyWorld) = Ok ()
   \<and> fs (snd (copyBinaries (linuxAmd64 succeeds) genesisRun
          ''/tmp/vega-assistant1/vega'' ''/tmp/vega-assistant1/visor'' emptyWorld))
        ''/home/vega/vegavisor_home/current''
     = Some (Link ''/home/vega/vegavisor_home/genesis'')
   \<and> fst (copyBinaries (linuxAmd64 succeeds) historyRun
          ''/tmp/vega-assistant1/vega'' ''/tmp/vega-assistant1/visor'' occupiedWorld)
     = Err (Wrapped ''failed to create symlink from /home/vega/vegavisor_home/v0.72.14 to /home/vega/vegavisor_home/current: ''
             (LinkError ''symlink'' ''/home/vega/vegavisor_home/v0.72.14''
                ''/home/vega/vegavisor_home/current'' ''file exists''))"
proof -
  let ?E = "linuxAmd64 succeeds"
  let ?vega = "''/tmp/vega-assistant1/vega''"
  let ?visor = "''/tmp/vega-assistant1/visor''"
  let ?cur = "''/home/vega/vegavisor_home/current''"
  have "fst (copyBinaries ?E genesisRun ?vega ?visor emptyWorld) = Ok ()
        \<and> fs (snd (copyBinaries ?E genesisRun ?vega ?visor emptyWorld)) ?cur
            = Some (Link ''/home/vega/vegavisor_home/genesis'')"
  proof -
    define Wa where "Wa = snd (perform ?E (CopyFile ?visor
                        (filepath_Join ?E [VisorHome (userSettings genesisRun), ''visor''])) emptyWorld)"
    define Wb where "Wb = snd (perform ?E (CopyFile ?vega
                        (filepath_Join ?E [VisorHome (userSettings genesisRun), ''genesis'', ''vega''])) Wa)"
    have v: "''genesis'' = (if Mode (userSettings genesisRun) = StartFromBlock0 then ''genesis''
                            else MainnetVersion (userSettings genesisRun))"
      by (simp add: genesisRun_sel)
    have h1: "perform ?E (CopyFile ?visor
                (filepath_Join ?E [VisorHome (userSettings genesisRun), ''visor''])) emptyWorld
               = (Ok [], Wa)"
      by (simp add: Wa_def ok_eval)
    have h2: "perform ?E (CopyFile ?vega
                (filepath_Join ?E [VisorHome (userSettings genesisRun), ''genesis'', ''vega''])) Wa
               = (Ok [], Wb)"
      by (simp add: Wb_def ok_eval)
    have a: "fs Wb (filepath_Join ?E [VisorHome (userSettings genesisRun), ''current'']) = None
             \<and> fst (extern ?E (Symlink (filepath_Join ?E [VisorHome (userSettings genesisRun), ''genesis''])
                                  (filepath_Join ?E [VisorHome (userSettings genesisRun), ''current'']))
                      (fs Wb)) = Inr []"
      by (simp add: Wb_def Wa_def ok_eval)
    note r = copyBinaries_symlink [OF v refl refl h1 h2, THEN conjunct1, THEN mp, OF a]
    show ?thesis
      unfolding r by (simp add: ok_eval)
  qed
  moreover
  have "fst (copyBinaries ?E historyRun ?vega ?visor occupiedWorld)
     = Err (Wrapped ''failed to create symlink from /home/vega/vegavisor_home/v0.72.14 to /home/vega/vegavisor_home/current: ''
             (LinkError ''symlink'' ''/home/vega/vegavisor_home/v0.72.14''
                ''/home/vega/vegavisor_home/current'' ''file exists''))"
  proof -
    define Wa where "Wa = snd (perform ?E (CopyFile ?visor
                        (filepath_Join ?E [VisorHome (userSettings historyRun), ''visor''])) occupiedWorld)"
    define Wb where "Wb = snd (perform ?E (CopyFile ?vega
                        (filepath_Join ?E [VisorHome (userSettings historyRun), ''v0.72.14'', ''vega''])) Wa)"
    have v: "''v0.72.14'' = (if Mode (userSettings historyRun) = StartFromBlock0 then ''genesis''
                            else MainnetVersion (userSettings historyRun))"
      by (simp add: historyRun_sel)
    have h1: "perform ?E (CopyFile ?visor
                (filepath_Join ?E [VisorHome (userSettings historyRun), ''visor''])) occupiedWorld
               = (Ok [], Wa)"
      by (simp add: Wa_def ok_eval)
    have h2: "perform ?E (CopyFile ?vega
                (filepath_Join ?E [VisorHome (userSettings historyRun), ''v0.72.14'', ''vega''])) Wa
               = (Ok [], Wb)"
      by (simp add: Wb_def ok_eval)
    have a: "fs Wb (filepath_Join ?E [VisorHome (userSettings historyRun), ''current'']) \<noteq> None"
      by (simp add: Wb_def Wa_def occupiedWorld_def ok_eval)
    note r = copyBinaries_symlink [OF v refl refl h1 h2, THEN conjunct2, THEN mp, OF a]
    show ?thesis
      unfolding r by (simp add: ok_eval)
  qed
  ultimately show ?thesis
    by blast
qed

section \<open>The versioned directory\<close>

lemma prepareVisorHome_Ok_trace:
  assumes d: "d = (if Mode (userSettings gen) = StartFromBlock0 then ''genesis''
                   else MainnetVersion (userSettings gen))"
    and ok: "fst (prepareVisorHome env gen w) = Ok ()"
  shows "\<exists>content.
           TemplateVisorRunConfig env d (VegaHome (userSettings gen)) (TendermintHome (userSettings gen))
             = Inr content
           \<and> trace (snd (prepareVisorHome env gen w))
               = trace w @ [MkdirAll (filepath_Join env [VisorHome (userSettings gen), d]),
                            WriteFile (filepath_Join env
                                         [filepath_Join env [VisorHome (userSettings gen), d],
                                          ''run-config.toml'']) content]"
proof -
  let ?dir = "filepath_Join env [VisorHome (userSettings gen), d]"
  let ?T = "TemplateVisorRunConfig env d (VegaHome (userSettings gen)) (TendermintHome (userSettings gen))"
  let ?k = "\<lambda>(_::string) w. (case ?T of
                Inl e \<Rightarrow> (Err (Wrapped ''failed to generate run-config.toml from template: '' e), w)
              | Inr runConfigContent \<Rightarrow>
                  andThen (wrapf (''failed to write run-config.toml in '' @ runConfigContent @ '': '')
                             (perform env (WriteFile (filepath_Join env [?dir, ''run-config.toml''])
                                             runConfigContent) w))
                    (\<lambda>_ w. (Ok (), w)))"
  have p: "prepareVisorHome env gen w
             = andThen (wrapf ''failed to make directory: '' (perform env (MkdirAll ?dir) w)) ?k"
  proof (cases "Mode (userSettings gen) = StartFromBlock0")
    case True
    then have e: "d = ''genesis''" using d by simp
    show ?thesis unfolding e by (simp add: prepareVisorHome_def Let_def True)
  next
    case False
    then have e: "d = MainnetVersion (userSettings gen)" using d by simp
    show ?thesis unfolding e by (simp add: prepareVisorHome_def Let_def False)
  qed
  show ?thesis
  proof (cases ?T)
    case (Inl e)
    have "fst (prepareVisorHome env gen w) \<noteq> Ok ()"
      unfolding p by (simp add: andThen_wrapf_perform Inl split: prod.splits sum.splits)
    with ok show ?thesis by simp
  next
    case (Inr content)
    have "trace (snd (prepareVisorHome env gen w))
            = trace w @ [MkdirAll ?dir, WriteFile (filepath_Join env [?dir, ''run-config.toml'']) content]"
      using ok unfolding p Inr sum.case
      apply -
      apply (erule step_Ok_trace)
      apply (erule step_Ok_trace)
      apply simp
      done
    with Inr show ?thesis by simp
  qed
qed

lemma copyBinaries_Ok_trace:
  assumes d: "d = (if Mode (userSettings gen) = StartFromBlock0 then ''genesis''
                   else MainnetVersion (userSettings gen))"
    and ok: "fst (copyBinaries env gen vegaBinaryPath visorBinaryPath w) = Ok ()"
  shows "trace (snd (copyBinaries env gen vegaBinaryPath visorBinaryPath w))
           = trace w @ [CopyFile visorBinaryPath (filepath_Join env [VisorHome (userSettings gen), ''visor'']),
                        CopyFile vegaBinaryPath (filepath_Join env [VisorHome (userSettings gen), d, ''vega'']),
                        Symlink (filepath_Join env [VisorHome (userSettings gen), d])
                                (filepath_Join env [VisorHome (userSettings gen), ''current''])]"
proof -
  have v: "(if Mode (userSettings gen) = StartFromBlock0 then ''genesis''
            else MainnetVersion (userSettings gen)) = d"
    using d by simp
  show ?thesis
    using ok unfolding copyBinaries_def Let_def v
    apply -
    apply (erule step_Ok_trace)
    apply (erule step_Ok_trace)
    apply (erule symlink_Ok_trace)
    apply simp
    done
qed

lemma genesis_ignores_version:
  assumes "Mode (userSettings gen) = StartFromBlock0"
  shows "prepareVisorHome env (gen\<lparr>userSettings := (userSettings gen)\<lparr>MainnetVersion := v\<rparr>\<rparr>) w
           = prepareVisorHome env gen w"
    and "copyBinaries env (gen\<lparr>userSettings := (userSettings gen)\<lparr>MainnetVersion := v\<rparr>\<rparr>)
           vegaBinaryPath visorBinaryPath w
           = copyBinaries env gen vegaBinaryPath visorBinaryPath w"
  using assms by (simp_all add: prepareVisorHome_def copyBinaries_def Let_def)

text \<open>
  C2. Let \<open>d\<close> be \<open>genesis\<close> in mode \<open>StartFromBlock0\<close> and the version string otherwise.
  When \<open>prepareVisorHome\<close> returns without error it has created the directory \<open>d\<close> of the
  supervisor home and written \<open>run-config.toml\<close> inside it, and nothing else; when
  \<open>copyBinaries\<close> returns without error it has copied the supervisor binary into the
  supervisor home, the node binary into the directory \<open>d\<close> of it, and linked \<open>current\<close> to that
  directory. In mode \<open>StartFromBlock0\<close> both steps do the same whatever the version string is.
\<close>

theorem versioned_directory:
  assumes "d = (if Mode (userSettings gen) = StartFromBlock0 then ''genesis''
                else MainnetVersion (userSettings gen))"
  shows "(fst (prepareVisorHome env gen w) = Ok ()
          \<longrightarrow> (\<exists>content.
                TemplateVisorRunConfig env d (VegaHome (userSettings gen))
                    (TendermintHome (userSettings gen)) = Inr content
                \<and> trace (snd (prepareVisorHome env gen w))
                    = trace w @ [MkdirAll (filepath_Join env [VisorHome (userSettings gen), d]),
                                 WriteFile (filepath_Join env
                                              [filepath_Join env [VisorHome (userSettings gen), d],
                                               ''run-config.toml'']) content]))
       \<and> (fst (copyBinaries env gen vegaBinaryPath visorBinaryPath w) = Ok ()
          \<longrightarrow> trace (snd (copyBinaries env gen vegaBinaryPath visorBinaryPath w))
                = trace w @ [CopyFile visorBinaryPath
                               (filepath_Join env [VisorHome (userSettings gen), ''visor'']),
                             CopyFile vegaBinaryPath
                               (filepath_Join env [VisorHome (userSettings gen), d, ''vega'']),
                             Symlink (filepath_Join env [VisorHome (userSettings gen), d])
                                     (filepath_Join env [VisorHome (userSettings gen), ''current''])])
       \<and> (Mode (userSettings gen) = StartFromBlock0
          \<longrightarrow> prepareVisorHome env (gen\<lparr>userSettings := (userSettings gen)\<lparr>MainnetVersion := v\<rparr>\<rparr>) w
                = prepareVisorHome env gen w
              \<and> copyBinaries env (gen\<lparr>userSettings := (userSettings gen)\<lparr>MainnetVersion := v\<rparr>\<rparr>)
                  vegaBinaryPath visorBinaryPath w
                = copyBinaries env gen vegaBinaryPath visorBinaryPath w)"
  using prepareVisorHome_Ok_trace [OF assms] copyBinaries_Ok_trace [OF assms]
    genesis_ignores_version [of gen]
  by blast

theorem versioned_directory_witness:
  "fst (prepareVisorHome (linuxAmd64 succeeds) genesisRun emptyWorld) = Ok ()
   \<and> trace (snd (prepareVisorHome (linuxAmd64 succeeds) genesisRun emptyWorld))
     = [MkdirAll ''/home/vega/vegavisor_home/genesis'',
        WriteFile ''/home/vega/vegavisor_home/genesis/run-config.toml'' ''name = genesis'']
   \<and> fst (copyBinaries (linuxAmd64 succeeds) genesisRun
            ''/tmp/vega-assistant1/vega'' ''/tmp/vega-assistant1/visor'' emptyWorld) = Ok ()
   \<and> trace (snd (copyBinaries (linuxAmd64 succeeds) genesisRun
            ''/tmp/vega-assistant1/vega'' ''/tmp/vega-assistant1/visor'' emptyWorld))
     = [CopyFile ''/tmp/vega-assistant1/visor'' ''/home/vega/vegavisor_home/visor'',
        CopyFile ''/tmp/vega-assistant1/vega'' ''/home/vega/vegavisor_home/genesis/vega'',
        Symlink ''/home/vega/vegavisor_home/genesis'' ''/home/vega/vegavisor_home/current'']
   \<and> fst (prepareVisorHome (linuxAmd64 succeeds) historyRun emptyWorld) = Ok ()
   \<and> trace (snd (prepareVisorHome (linuxAmd64 succeeds) historyRun emptyWorld))
     = [MkdirAll ''/home/vega/vegavisor_home/v0.72.14'',
        WriteFile ''/home/vega/vegavisor_home/v0.72.14/run-config.toml'' ''name = v0.72.14'']
   \<and> fst (copyBinaries (linuxAmd64 succeeds) historyRun
            ''/tmp/vega-assistant1/vega'' ''/tmp/vega-assistant1/visor'' emptyWorld) = Ok ()
   \<and> trace (snd (copyBinaries (linuxAmd64 succeeds) historyRun
            ''/tmp/vega-assistant1/vega'' ''/tmp/vega-assistant1/visor'' emptyWorld))
     = [CopyFile ''/tmp/vega-assistant1/visor'' ''/home/vega/vegavisor_home/visor'',
        CopyFile ''/tmp/vega-assistant1/vega'' ''/home/vega/vegavisor_home/v0.72.14/vega'',
        Symlink ''/home/vega/vegavisor_home/v0.72.14'' ''/home/vega/vegavisor_home/current'']"
proof -
  let ?E = "linuxAmd64 succeeds"
  let ?vega = "''/tmp/vega-assistant1/vega''"
  let ?visor = "''/tmp/vega-assistant1/visor''"
  have dg: "''genesis'' = (if Mode (userSettings genesisRun) = StartFromBlock0 then ''genesis''
                           else MainnetVersion (userSettings genesisRun))"
    by (simp add: genesisRun_sel)
  have dh: "''v0.72.14'' = (if Mode (userSettings historyRun) = StartFromBlock0 then ''genesis''
                           else MainnetVersion (userSettings historyRun))"
    by (simp add: historyRun_sel)
  have pg: "fst (prepareVisorHome ?E genesisRun emptyWorld) = Ok ()"
    by (simp add: prepareVisorHome_def ok_eval)
  have cg: "fst (copyBinaries ?E genesisRun ?vega ?visor emptyWorld) = Ok ()"
    by (simp add: copyBinaries_def os_Symlink_def ok_eval)
  have ph: "fst (prepareVisorHome ?E historyRun emptyWorld) = Ok ()"
    by (simp add: prepareVisorHome_def ok_eval)
  have ch: "fst (copyBinaries ?E historyRun ?vega ?visor emptyWorld) = Ok ()"
    by (simp add: copyBinaries_def os_Symlink_def ok_eval)
  note G = versioned_directory [OF dg, of ?E emptyWorld ?vega ?visor]
  note H = versioned_directory [OF dh, of ?E emptyWorld ?vega ?visor]
  have tg: "trace (snd (prepareVisorHome ?E genesisRun emptyWorld))
     = [MkdirAll ''/home/vega/vegavisor_home/genesis'',
        WriteFile ''/home/vega/vegavisor_home/genesis/run-config.toml'' ''name = genesis'']"
    using G [THEN conjunct1, THEN mp, OF pg] by (auto simp: platform_sel genesisRun_sel unixJoin_def emptyWorld_def)
  have ug: "trace (snd (copyBinaries ?E genesisRun ?vega ?visor emptyWorld))
     = [CopyFile ?visor ''/home/vega/vegavisor_home/visor'',
        CopyFile ?vega ''/home/vega/vegavisor_home/genesis/vega'',
        Symlink ''/home/vega/vegavisor_home/genesis'' ''/home/vega/vegavisor_home/current'']"
    using G [THEN conjunct2, THEN conjunct1, THEN mp, OF cg]
    by (simp add: platform_sel genesisRun_sel unixJoin_def emptyWorld_def)
  have th: "trace (snd (prepareVisorHome ?E historyRun emptyWorld))
     = [MkdirAll ''/home/vega/vegavisor_home/v0.72.14'',
        WriteFile ''/home/vega/vegavisor_home/v0.72.14/run-config.toml'' ''name = v0.72.14'']"
    using H [THEN conjunct1, THEN mp, OF ph] by (auto simp: platform_sel historyRun_sel unixJoin_def emptyWorld_def)
  have uh: "trace (snd (copyBinaries ?E historyRun ?vega ?visor emptyWorld))
     = [CopyFile ?visor ''/home/vega/vegavisor_home/visor'',
        CopyFile ?vega ''/home/vega/vegavisor_home/v0.72.14/vega'',
        Symlink ''/home/vega/vegavisor_home/v0.72.14'' ''/home/vega/vegavisor_home/current'']"
    using H [THEN conjunct2, THEN conjunct1, THEN mp, OF ch]
    by (simp add: platform_sel historyRun_sel unixJoin_def emptyWorld_def)
  from pg tg cg ug ph th ch uh show ?thesis
    by blast
qed

section \<open>No cleanup of the staging directory\<close>

lemma ew_refl: "extendsWithout n w w"
  by (simp add: extendsWithout_def)

lemma ew_trans:
  assumes "extendsWithout n w w1" and "extendsWithout n w1 w2"
  shows "extendsWithout n w w2"
proof -
  from assms obtain cs ds where "trace w1 = trace w @ cs" "n \<notin> set (map callName cs)"
    "trace w2 = trace w1 @ ds" "n \<notin> set (map callName ds)"
    unfolding extendsWithout_def by blast
  then have "trace w2 = trace w @ (cs @ ds) \<and> n \<notin> set (map callName (cs @ ds))"
    by simp
  then show ?thesis
    unfolding extendsWithout_def by blast
qed

lemma ew_perform: "callName c \<noteq> n \<Longrightarrow> extendsWithout n w (snd (perform env c w))"
  unfolding extendsWithout_def
  by (rule exI [of _ "[c]"]) (auto simp: perform_def split: prod.splits sum.splits)

lemma ew_Symlink: "''os.Symlink'' \<noteq> n \<Longrightarrow> extendsWithout n w (snd (os_Symlink env old new w))"
  unfolding extendsWithout_def
  by (rule exI [of _ "[Symlink old new]"]) (auto simp: os_Symlink_def Let_def split: sum.splits)

lemma ew_andThen:
  assumes "extendsWithout n w (snd r)"
    and "\<And>v w1. extendsWithout n w1 (snd (f v w1))"
  shows "extendsWithout n w (snd (andThen (wrapf p r) f))"
proof (cases r)
  case (Pair x w1)
  show ?thesis
  proof (cases x)
    case (Ok v)
    with Pair have "andThen (wrapf p r) f = f v w1"
      by (simp add: andThen_def wrapf_def)
    with assms(1) assms(2) [of w1 v] Pair show ?thesis
      using ew_trans by fastforce
  next
    case (Err e)
    with Pair assms(1) show ?thesis by (simp add: andThen_def wrapf_def)
  next
    case (Panic q)
    with Pair assms(1) show ?thesis by (simp add: andThen_def wrapf_def)
  qed
qed

lemma ew_done: "extendsWithout n w (snd (x, w))"
  by (simp add: ew_refl)

lemma ew_initNode:
  "extendsWithout ''os.RemoveAll'' w (snd (initNode env gen visorBinary vegaBinary w))"
  unfolding initNode_def
  by (intro ew_andThen ew_perform ew_done) simp_all

lemma ew_downloadGenesis:
  "extendsWithout ''os.RemoveAll'' w (snd (downloadGenesis env gen w))"
  unfolding downloadGenesis_def Let_def
  by (intro ew_andThen ew_perform ew_done) simp_all

lemma ew_copyBinaries:
  "extendsWithout ''os.RemoveAll'' w (snd (copyBinaries env gen vegaBinaryPath visorBinaryPath w))"
  unfolding copyBinaries_def Let_def
  by (intro ew_andThen ew_perform ew_Symlink ew_done) simp_all

lemma ew_prepareVisorHome:
  "extendsWithout ''os.RemoveAll'' w (snd (prepareVisorHome env gen w))"
proof -
  have k: "extendsWithout ''os.RemoveAll'' w1
             (snd (case t of
                     Inl e \<Rightarrow> (Err (Wrapped ''failed to generate run-config.toml from template: '' e), w1)
                   | Inr runConfigContent \<Rightarrow>
                       andThen (wrapf (''failed to write run-config.toml in '' @ runConfigContent @ '': '')
                                  (perform env (WriteFile path runConfigContent) w1))
                         (\<lambda>_ w. (Ok (), w))))" for t w1 path
    by (cases t) (auto intro!: ew_andThen ew_perform ew_done ew_refl)
  show ?thesis
    unfolding prepareVisorHome_def Let_def
    by (intro ew_andThen ew_perform k) simp_all
qed

lemma ew_updateConfigs:
  "extendsWithout ''os.RemoveAll'' w (snd (updateConfigs env gen w))"
proof (cases "buildConfigs env gen")
  case (Ok kv)
  obtain dn vc tm vv where kv: "kv = (dn, vc, tm, vv)"
    by (cases kv) auto
  show ?thesis
    unfolding updateConfigs_def Ok kv Let_def res.case prod.case
    by (intro ew_andThen ew_perform ew_done) simp_all
next
  case (Err e)
  then show ?thesis by (simp add: updateConfigs_def ew_refl)
next
  case (Panic q)
  then show ?thesis by (simp add: updateConfigs_def ew_refl)
qed

lemma ew_Run: "extendsWithout ''os.RemoveAll'' w (snd (Run env gen w))"
  unfolding Run_def
  by (intro ew_andThen ew_perform ew_initNode ew_prepareVisorHome ew_copyBinaries ew_updateConfigs
      ew_downloadGenesis ew_done) simp_all

text \<open>
  C5, as the code has it. Whatever the machine does and however \<open>Run\<close> ends, the calls it
  issues contain no \<open>os.RemoveAll\<close>: the pipeline never removes the temporary staging
  directory (the deferred removal is commented out in the source), and it does no other cleanup.
\<close>

theorem Run_issues_no_removal:
  "\<exists>cs. trace (snd (Run env gen w)) = trace w @ cs \<and> (\<forall>p. RemoveAll p \<notin> set cs)"
proof -
  from ew_Run [of w env gen] obtain cs where t: "trace (snd (Run env gen w)) = trace w @ cs"
    and n: "''os.RemoveAll'' \<notin> set (map callName cs)"
    unfolding extendsWithout_def by blast
  have "RemoveAll p \<notin> set cs" for p
  proof
    assume "RemoveAll p \<in> set cs"
    then have "callName (RemoveAll p) \<in> set (map callName cs)"
      by (simp only: set_map image_eqI)
    with n show False by simp
  qed
  with t show ?thesis by blast
qed

theorem Run_issues_no_removal_counterexample:
  "fst (Run (linuxAmd64 succeeds) genesisRun emptyWorld) = Ok ()
   \<and> fs (snd (Run (linuxAmd64 succeeds) genesisRun emptyWorld)) ''/tmp/vega-assistant1'' = Some Dir
   \<and> fst (Run (linuxAmd64 (failing (named ''utils.DownloadFile''))) genesisRun emptyWorld)
       = Err (Wrapped ''failed to download genesis: ''
               (Wrapped ''failed to download genesis: '' (Msg ''refused'')))
   \<and> fs (snd (Run (linuxAmd64 (failing (named ''utils.DownloadFile''))) genesisRun emptyWorld))
        ''/tmp/vega-assistant1'' = Some Dir"
proof -
  obtain dn vc tm vv where b: "buildConfigs (linuxAmd64 succeeds) genesisRun = Ok (dn, vc, tm, vv)"
    using buildConfigs_genesisRun by blast
  obtain dn' vc' tm' vv' where b': "buildConfigs (linuxAmd64 (failing (named ''utils.DownloadFile'')))
                                      genesisRun = Ok (dn', vc', tm', vv')"
    using buildConfigs_genesisRun by blast
  have "fst (Run (linuxAmd64 succeeds) genesisRun emptyWorld) = Ok ()
        \<and> fs (snd (Run (linuxAmd64 succeeds) genesisRun emptyWorld)) ''/tmp/vega-assistant1'' = Some Dir"
    by (simp add: Run_def initNode_def prepareVisorHome_def copyBinaries_def os_Symlink_def
        updateConfigs_def downloadGenesis_def b ok_eval)
  moreover
  have "fst (Run (linuxAmd64 (failing (named ''utils.DownloadFile''))) genesisRun emptyWorld)
       = Err (Wrapped ''failed to download genesis: ''
               (Wrapped ''failed to download genesis: '' (Msg ''refused'')))
   \<and> fs (snd (Run (linuxAmd64 (failing (named ''utils.DownloadFile''))) genesisRun emptyWorld))
        ''/tmp/vega-assistant1'' = Some Dir"
    by (simp add: Run_def initNode_def prepareVisorHome_def copyBinaries_def os_Symlink_def
        updateConfigs_def downloadGenesis_def b' failing_def named_def run_eval)
  ultimately show ?thesis
    by blast
qed

theorem Run_issues_no_removal_witness:
  "\<exists>cs. trace (snd (Run (linuxAmd64 succeeds) genesisRun emptyWorld)) = cs
        \<and> (\<forall>p. RemoveAll p \<notin> set cs)"
  using Run_issues_no_removal [of "linuxAmd64 succeeds" genesisRun emptyWorld]
  by (simp add: emptyWorld_def)

section \<open>The port prompt\<close>

lemma Atoi_range: "Atoi s = Inr n \<Longrightarrow> - (2 ^ 63) \<le> n \<and> n < 2 ^ 63"
  by (auto simp: Atoi_def Let_def intSize_def split: list.splits sum.splits if_splits)

lemma portValidate_None: "portValidate s = None \<longleftrightarrow> (\<exists>n. Atoi s = Inr n)"
  by (simp add: portValidate_def split: sum.splits)

lemma ask_Cons:
  "s \<noteq> [] \<Longrightarrow> ask validate dflt (s # rest)
     = (if validate s = None then (Inr s, rest) else ask validate dflt rest)"
  by (auto split: option.splits)

text \<open>
  C6, as the code has it. The validator of the port prompt accepts exactly the strings that
  \<open>strconv.Atoi\<close> parses; the parsed value is an integer of the 64-bit \<open>int\<close> range, with no
  further bound. A line that is not empty is returned by the prompt when the validator accepts
  it, and otherwise the prompt asks again.
\<close>

theorem port_prompt:
  "(portValidate s = None \<longleftrightarrow> (\<exists>k. Atoi s = Inr k))
   \<and> (Atoi s = Inr n \<longrightarrow> - (2 ^ 63) \<le> n \<and> n < 2 ^ 63)
   \<and> (s \<noteq> [] \<and> portValidate s = None
        \<longrightarrow> ask portValidate dflt (s # rest) = (Inr s, rest))
   \<and> (s \<noteq> [] \<and> portValidate s \<noteq> None
        \<longrightarrow> ask portValidate dflt (s # rest) = ask portValidate dflt rest)"
  using Atoi_range [of s n] portValidate_None [of s] ask_Cons [of s portValidate dflt rest]
  by auto

lemma Atoi_70000: "Atoi ''70000'' = Inr 70000"
  by (simp add: Atoi_def digitVal_def intSize_def)

lemma Atoi_0: "Atoi ''0'' = Inr 0"
  by (simp add: Atoi_def digitVal_def intSize_def)

lemma Atoi_minus_1: "Atoi ''-1'' = Inr (- 1)"
  by (simp add: Atoi_def digitVal_def intSize_def)

lemma Atoi_5432: "Atoi ''5432'' = Inr 5432"
  by (simp add: Atoi_def digitVal_def intSize_def)

lemma Atoi_abc: "Atoi ''abc'' = Inl (NumError ''Atoi'' ''abc'' ErrSyntax)"
  by (simp add: Atoi_def digitVal_def intSize_def)

theorem port_prompt_counterexample:
  "portValidate ''70000'' = None
   \<and> Atoi ''70000'' = Inr 70000
   \<and> \<not> (1 \<le> (70000::int) \<and> (70000::int) \<le> 65535)
   \<and> portValidate ''0'' = None
   \<and> Atoi ''0'' = Inr 0
   \<and> portValidate ''-1'' = None
   \<and> Atoi ''-1'' = Inr (- 1)
   \<and> AskSQLCredentials
        \<lparr>Host = ''localhost'', Port = 5432, User = ''vega'', Pass = ''secret'', DatabaseName = ''vega''\<rparr>
        checkOk [''db'', ''70000'', ''u'', ''p'', ''n'']
      = (Ok \<lparr>Host = ''db'', Port = 70000, User = ''u'', Pass = ''p'', DatabaseName = ''n''\<rparr>, [])"
  by (simp add: portValidate_def Atoi_70000 Atoi_0 Atoi_minus_1 AskSQLCredentials.simps noValidate_def
      checkOk_def)

theorem port_prompt_witness:
  "portValidate ''5432'' = None
   \<and> Atoi ''5432'' = Inr 5432
   \<and> - (2 ^ 63) \<le> (5432::int) \<and> (5432::int) < 2 ^ 63
   \<and> ask portValidate ''5432'' [''5432'', ''vega''] = (Inr ''5432'', [''vega''])
   \<and> portValidate ''abc'' \<noteq> None
   \<and> ask portValidate ''5432'' [''abc'', ''5432'', ''vega''] = ask portValidate ''5432'' [''5432'', ''vega'']"
proof -
  have a: "Atoi ''5432'' = Inr 5432" by (rule Atoi_5432)
  have v: "portValidate ''5432'' = None"
    using port_prompt [of "''5432''"] a by blast
  have r: "- (2 ^ 63) \<le> (5432::int) \<and> (5432::int) < 2 ^ 63"
    using port_prompt [of "''5432''" 5432] a by blast
  have k: "ask portValidate ''5432'' [''5432'', ''vega''] = (Inr ''5432'', [''vega''])"
    using port_prompt [of "''5432''" _ "''5432''" "[''vega'']"] v by simp
  have n: "portValidate ''abc'' \<noteq> None"
    using port_prompt [of "''abc''"] Atoi_abc by simp
  have j: "ask portValidate ''5432'' [''abc'', ''5432'', ''vega''] = ask portValidate ''5432'' [''5432'', ''vega'']"
    using port_prompt [of "''abc''" _ "''5432''" "[''5432'', ''vega'']"] n by simp
  from v a r k n j show ?thesis by blast
qed

section \<open>The retry loop of the credentials prompt\<close>

text \<open>
  C7. Let the connectivity check fail on every credentials record, and let one round of the
  loop read host, port, user, password and database name and then the answer to the try-again
  prompt. When the answer is No (in any case of letters), \<open>AskSQLCredentials\<close> returns the
  credentials of this round with no error and reads no further line; when it is Yes, it does
  what it does on the lines that are left: the whole collection starts again.
\<close>

theorem AskSQLCredentials_try_again:
  assumes "\<forall>c. checkFunc c \<noteq> None"
    and "ask noValidate (Host defaultValue) u = (Inr dbHost, u1)"
    and "ask portValidate (showInt (Port defaultValue)) u1 = (Inr dbPortStr, u2)"
    and "Atoi dbPortStr = Inr dbPort"
    and "ask noValidate (User defaultValue) u2 = (Inr dbUser, u3)"
    and "ask noValidate (Pass defaultValue) u3 = (Inr dbPass, u4)"
    and "ask noValidate (DatabaseName defaultValue) u4 = (Inr dbName, u5)"
    and "ask yesNoValidate ''Yes'' u5 = (Inr tryAgain, u6)"
  shows "(ToLower tryAgain = ''no''
          \<longrightarrow> AskSQLCredentials defaultValue checkFunc u
                = (Ok \<lparr>Host = dbHost, Port = dbPort, User = dbUser, Pass = dbPass,
                        DatabaseName = dbName\<rparr>, u6))
       \<and> (ToLower tryAgain = ''yes''
          \<longrightarrow> AskSQLCredentials defaultValue checkFunc u
                = AskSQLCredentials defaultValue checkFunc u6)"
proof -
  obtain cerr where c: "checkFunc \<lparr>Host = dbHost, Port = dbPort, User = dbUser, Pass = dbPass,
                                   DatabaseName = dbName\<rparr> = Some cerr"
    using assms(1) by fastforce
  have "AskSQLCredentials defaultValue checkFunc u
          = (if ToLower tryAgain = ''yes'' then AskSQLCredentials defaultValue checkFunc u6
             else (Ok \<lparr>Host = dbHost, Port = dbPort, User = dbUser, Pass = dbPass,
                       DatabaseName = dbName\<rparr>, u6))"
    by (subst AskSQLCredentials.simps) (simp add: assms(2-8) c)
  then show ?thesis
    by simp
qed

lemma showInt_5432: "showInt 5432 = ''5432''"
  by code_simp

lemma ToLower_answers:
  "ToLower ''NO'' = ''no''" "ToLower ''No'' = ''no''" "ToLower ''Yes'' = ''yes''"
  by code_simp+

lemma yesNoValidate_answers:
  "yesNoValidate ''maybe'' \<noteq> None" "yesNoValidate ''NO'' = None" "yesNoValidate ''No'' = None"
  by code_simp+

theorem AskSQLCredentials_try_again_witness:
  "AskSQLCredentials
     \<lparr>Host = ''localhost'', Port = 5432, User = ''vega'', Pass = ''secret'', DatabaseName = ''vega''\<rparr>
     checkFails
     [[], ''0'', [], [], [], ''maybe'', ''NO'', ''rest'']
   = (Ok \<lparr>Host = ''localhost'', Port = 0, User = ''vega'', Pass = ''secret'', DatabaseName = ''vega''\<rparr>,
      [''rest''])
   \<and> AskSQLCredentials
     \<lparr>Host = ''localhost'', Port = 5432, User = ''vega'', Pass = ''secret'', DatabaseName = ''vega''\<rparr>
     checkFails
     [[], [], [], [], [], [], ''db'', ''70000'', ''u'', ''p'', ''n'', ''No'']
   = AskSQLCredentials
     \<lparr>Host = ''localhost'', Port = 5432, User = ''vega'', Pass = ''secret'', DatabaseName = ''vega''\<rparr>
     checkFails
     [''db'', ''70000'', ''u'', ''p'', ''n'', ''No'']
   \<and> AskSQLCredentials
     \<lparr>Host = ''localhost'', Port = 5432, User = ''vega'', Pass = ''secret'', DatabaseName = ''vega''\<rparr>
     checkFails
     [''db'', ''70000'', ''u'', ''p'', ''n'', ''No'']
   = (Ok \<lparr>Host = ''db'', Port = 70000, User = ''u'', Pass = ''p'', DatabaseName = ''n''\<rparr>, [])"
proof -
  let ?D = "\<lparr>Host = ''localhost'', Port = 5432, User = ''vega'', Pass = ''secret'',
              DatabaseName = ''vega''\<rparr>"
  let ?F = checkFails
  have f: "\<forall>c. ?F c \<noteq> None"
    by (simp add: checkFails_def)
  have a1: "ask noValidate (Host ?D) [[], ''0'', [], [], [], ''maybe'', ''NO'', ''rest'']
             = (Inr ''localhost'', [''0'', [], [], [], ''maybe'', ''NO'', ''rest''])"
    using yesNoValidate_answers
    by (auto simp: noValidate_def showInt_5432 portValidate_def Atoi_0 Atoi_70000 Atoi_5432 split: option.splits)
  have a2: "ask portValidate (showInt (Port ?D)) [''0'', [], [], [], ''maybe'', ''NO'', ''rest'']
             = (Inr ''0'', [[], [], [], ''maybe'', ''NO'', ''rest''])"
    using yesNoValidate_answers
    by (auto simp: noValidate_def showInt_5432 portValidate_def Atoi_0 Atoi_70000 Atoi_5432 split: option.splits)
  have a3: "Atoi ''0'' = Inr 0"
    by (simp add: Atoi_0 Atoi_70000 Atoi_5432)
  have a4: "ask noValidate (User ?D) [[], [], [], ''maybe'', ''NO'', ''rest'']
             = (Inr ''vega'', [[], [], ''maybe'', ''NO'', ''rest''])"
    using yesNoValidate_answers
    by (auto simp: noValidate_def showInt_5432 portValidate_def Atoi_0 Atoi_70000 Atoi_5432 split: option.splits)
  have a5: "ask noValidate (Pass ?D) [[], [], ''maybe'', ''NO'', ''rest'']
             = (Inr ''secret'', [[], ''maybe'', ''NO'', ''rest''])"
    using yesNoValidate_answers
    by (auto simp: noValidate_def showInt_5432 portValidate_def Atoi_0 Atoi_70000 Atoi_5432 split: option.splits)
  have a6: "ask noValidate (DatabaseName ?D) [[], ''maybe'', ''NO'', ''rest'']
             = (Inr ''vega'', [''maybe'', ''NO'', ''rest''])"
    using yesNoValidate_answers
    by (auto simp: noValidate_def showInt_5432 portValidate_def Atoi_0 Atoi_70000 Atoi_5432 split: option.splits)
  have a7: "ask yesNoValidate ''Yes'' [''maybe'', ''NO'', ''rest'']
             = (Inr ''NO'', [''rest''])"
    using yesNoValidate_answers
    by (auto simp: noValidate_def showInt_5432 portValidate_def Atoi_0 Atoi_70000 Atoi_5432 split: option.splits)
  have at: "ToLower ''NO'' = ''no''"
    by (simp add: ToLower_answers)
  note a = AskSQLCredentials_try_again [OF f a1 a2 a3 a4 a5 a6 a7, THEN conjunct1, THEN mp, OF at]
  have b1: "ask noValidate (Host ?D) [[], [], [], [], [], [], ''db'', ''70000'', ''u'', ''p'', ''n'', ''No'']
             = (Inr ''localhost'', [[], [], [], [], [], ''db'', ''70000'', ''u'', ''p'', ''n'', ''No''])"
    using yesNoValidate_answers
    by (auto simp: noValidate_def showInt_5432 portValidate_def Atoi_0 Atoi_70000 Atoi_5432 split: option.splits)
  have b2: "ask portValidate (showInt (Port ?D)) [[], [], [], [], [], ''db'', ''70000'', ''u'', ''p'', ''n'', ''No'']
             = (Inr ''5432'', [[], [], [], [], ''db'', ''70000'', ''u'', ''p'', ''n'', ''No''])"
    using yesNoValidate_answers
    by (auto simp: noValidate_def showInt_5432 portValidate_def Atoi_0 Atoi_70000 Atoi_5432 split: option.splits)
  have b3: "Atoi ''5432'' = Inr 5432"
    by (simp add: Atoi_0 Atoi_70000 Atoi_5432)
  have b4: "ask noValidate (User ?D) [[], [], [], [], ''db'', ''70000'', ''u'', ''p'', ''n'', ''No'']
             = (Inr ''vega'', [[], [], [], ''db'', ''70000'', ''u'', ''p'', ''n'', ''No''])"
    using yesNoValidate_answers
    by (auto simp: noValidate_def showInt_5432 portValidate_def Atoi_0 Atoi_70000 Atoi_5432 split: option.splits)
  have b5: "ask noValidate (Pass ?D) [[], [], [], ''db'', ''70000'', ''u'', ''p'', ''n'', ''No'']
             = (Inr ''secret'', [[], [], ''db'', ''70000'', ''u'', ''p'', ''n'', ''No''])"
    using yesNoValidate_answers
    by (auto simp: noValidate_def showInt_5432 portValidate_def Atoi_0 Atoi_70000 Atoi_5432 split: option.splits)
  have b6: "ask noValidate (DatabaseName ?D) [[], [], ''db'', ''70000'', ''u'', ''p'', ''n'', ''No'']
             = (Inr ''vega'', [[], ''db'', ''70000'', ''u'', ''p'', ''n'', ''No''])"
    using yesNoValidate_answers
    by (auto simp: noValidate_def showInt_5432 portValidate_def Atoi_0 Atoi_70000 Atoi_5432 split: option.splits)
  have b7: "ask yesNoValidate ''Yes'' [[], ''db'', ''70000'', ''u'', ''p'', ''n'', ''No'']
             = (Inr ''Yes'', [''db'', ''70000'', ''u'', ''p'', ''n'', ''No''])"
    using yesNoValidate_answers
    by (auto simp: noValidate_def showInt_5432 portValidate_def Atoi_0 Atoi_70000 Atoi_5432 split: option.splits)
  have bt: "ToLower ''Yes'' = ''yes''"
    by (simp add: ToLower_answers)
  note b = AskSQLCredentials_try_again [OF f b1 b2 b3 b4 b5 b6 b7, THEN conjunct2, THEN mp, OF bt]
  have c1: "ask noValidate (Host ?D) [''db'', ''70000'', ''u'', ''p'', ''n'', ''No'']
             = (Inr ''db'', [''70000'', ''u'', ''p'', ''n'', ''No''])"
    using yesNoValidate_answers
    by (auto simp: noValidate_def showInt_5432 portValidate_def Atoi_0 Atoi_70000 Atoi_5432 split: option.splits)
  have c2: "ask portValidate (showInt (Port ?D)) [''70000'', ''u'', ''p'', ''n'', ''No'']
             = (Inr ''70000'', [''u'', ''p'', ''n'', ''No''])"
    using yesNoValidate_answers
    by (auto simp: noValidate_def showInt_5432 portValidate_def Atoi_0 Atoi_70000 Atoi_5432 split: option.splits)
  have c3: "Atoi ''70000'' = Inr 70000"
    by (simp add: Atoi_0 Atoi_70000 Atoi_5432)
  have c4: "ask noValidate (User ?D) [''u'', ''p'', ''n'', ''No'']
             = (Inr ''u'', [''p'', ''n'', ''No''])"
    using yesNoValidate_answers
    by (auto simp: noValidate_def showInt_5432 portValidate_def Atoi_0 Atoi_70000 Atoi_5432 split: option.splits)
  have c5: "ask noValidate (Pass ?D) [''p'', ''n'', ''No'']
             = (Inr ''p'', [''n'', ''No''])"
    using yesNoValidate_answers
    by (auto simp: noValidate_def showInt_5432 portValidate_def Atoi_0 Atoi_70000 Atoi_5432 split: option.splits)
  have c6: "ask noValidate (DatabaseName ?D) [''n'', ''No'']
             = (Inr ''n'', [''No''])"
    using yesNoValidate_answers
    by (auto simp: noValidate_def showInt_5432 portValidate_def Atoi_0 Atoi_70000 Atoi_5432 split: option.splits)
  have c7: "ask yesNoValidate ''Yes'' [''No'']
             = (Inr ''No'', [])"
    using yesNoValidate_answers
    by (auto simp: noValidate_def showInt_5432 portValidate_def Atoi_0 Atoi_70000 Atoi_5432 split: option.splits)
  have ct: "ToLower ''No'' = ''no''"
    by (simp add: ToLower_answers)
  note c = AskSQLCredentials_try_again [OF f c1 c2 c3 c4 c5 c6 c7, THEN conjunct1, THEN mp, OF ct]
  from a b c show ?thesis
    by simp
qed

section \<open>The masked password of the summary\<close>

lemma of_char_lt_256: "(of_char c :: nat) < 256"
  by (cases c) (simp add: of_char_def)

lemma fmtC_prefix_code:
  assumes "fmtC a @ r = fmtC b @ s"
  shows "a = b \<and> r = s"
proof -
  let ?m = "of_char a :: nat" and ?n = "of_char b :: nat"
  have la: "?m < 256" and lb: "?n < 256"
    by (rule of_char_lt_256)+
  have hi: "of_char (char_of (192 + k div 64 :: nat)) = (192 + k div 64 :: nat)" if "k < 256" for k
    using that by (simp add: of_char_of)
  have lo: "of_char (char_of (128 + k mod 64 :: nat)) = (128 + k mod 64 :: nat)" for k
    by (simp add: of_char_of)
  consider (ss) "?m < 128" "?n < 128" | (sl) "?m < 128" "\<not> ?n < 128"
    | (ls) "\<not> ?m < 128" "?n < 128" | (ll) "\<not> ?m < 128" "\<not> ?n < 128"
    by blast
  then show ?thesis
  proof cases
    case ss
    with assms show ?thesis by (simp add: fmtC_def Let_def)
  next
    case sl
    with assms have "a = char_of (192 + ?n div 64)"
      by (simp add: fmtC_def Let_def)
    then have "?m = 192 + ?n div 64"
      using hi [OF lb] by simp
    with sl show ?thesis by simp
  next
    case ls
    with assms have "b = char_of (192 + ?m div 64)"
      by (simp add: fmtC_def Let_def)
    then have "?n = 192 + ?m div 64"
      using hi [OF la] by simp
    with ls show ?thesis by simp
  next
    case ll
    with assms have e: "char_of (192 + ?m div 64) = (char_of (192 + ?n div 64) :: char)"
      "char_of (128 + ?m mod 64) = (char_of (128 + ?n mod 64) :: char)" and rs: "r = s"
      by (simp_all add: fmtC_def Let_def)
    from e(1) have "(of_char (char_of (192 + ?m div 64)) :: nat) = of_char (char_of (192 + ?n div 64))"
      by simp
    then have d: "?m div 64 = ?n div 64"
      using hi [OF la] hi [OF lb] by simp
    from e(2) have "(of_char (char_of (128 + ?m mod 64)) :: nat) = of_char (char_of (128 + ?n mod 64))"
      by simp
    then have m: "?m mod 64 = ?n mod 64"
      using lo [of ?m] lo [of ?n] by simp
    from d m have "?m = ?n"
      by (metis div_mult_mod_eq)
    then have "a = b"
      by simp
    with rs show ?thesis by simp
  qed
qed

lemma masked_reveals:
  assumes "fmtC a @ ''***'' @ fmtC b = fmtC c @ ''***'' @ fmtC d"
  shows "a = c \<and> b = d"
proof -
  from fmtC_prefix_code [OF assms] have ac: "a = c" and "''***'' @ fmtC b = ''***'' @ fmtC d"
    by simp_all
  then have "fmtC b @ [] = fmtC d @ []"
    by simp
  from fmtC_prefix_code [OF this] ac show ?thesis
    by simp
qed

lemma printSummary_empty:
  "Pass (SQLCredentials settings) = [] \<Longrightarrow> printSummary settings = Inl (IndexOutOfRange 0 0)"
  by (simp add: printSummary_def index_def)

lemma printSummary_nonempty:
  assumes "Pass (SQLCredentials settings) \<noteq> []"
  shows "printSummary settings =
     Inr [(if Mode settings = StartFromBlock0
           then (''Mode'', CStr ''Start from block 0'')
           else (''Mode'', CStr ''Start from Network History'')),
          (''Visor Home'', CStr (VisorHome settings)),
          (''Vega Home'', CStr (VegaHome settings)),
          (''Tendermint Home'', CStr (TendermintHome settings)),
          (''SQL Host'', CStr (Host (SQLCredentials settings))),
          (''SQL Port'', CInt (Port (SQLCredentials settings))),
          (''SQL User'', CStr (User (SQLCredentials settings))),
          (''SQL Password'', CStr (fmtC (hd (Pass (SQLCredentials settings))) @ ''***''
                                     @ fmtC (last (Pass (SQLCredentials settings))))),
          (''SQL Database Name'', CStr (DatabaseName (SQLCredentials settings))),
          (''Vega Version'', CStr (MainnetVersion settings)),
          (''Vega Chain ID'', CStr (MainnetChainId settings))]"
proof -
  have "Pass (SQLCredentials settings) ! 0 = hd (Pass (SQLCredentials settings))"
    using assms by (simp add: hd_conv_nth)
  moreover have "Pass (SQLCredentials settings) ! (length (Pass (SQLCredentials settings)) - 1)
                   = last (Pass (SQLCredentials settings))"
    using assms by (simp add: last_conv_nth)
  ultimately show ?thesis
    using assms by (simp add: printSummary_def index_def Let_def)
qed

text \<open>
  C10. On an empty password \<open>printSummary\<close> panics with the index 0 out of range of length 0.
  On a password that is not empty it returns the table, and the password row shows the first
  byte, three stars and the last byte. Two passwords that are not empty give the same summary
  exactly when they have the same first byte and the same last byte: the summary shows these
  two and depends on nothing else of the password.
\<close>

theorem printSummary_password:
  "(Pass (SQLCredentials settings) = [] \<longrightarrow> printSummary settings = Inl (IndexOutOfRange 0 0))
   \<and> (Pass (SQLCredentials settings) \<noteq> []
        \<longrightarrow> (\<exists>rows. printSummary settings = Inr rows
               \<and> map_of rows ''SQL Password''
                   = Some (CStr (fmtC (hd (Pass (SQLCredentials settings))) @ ''***''
                                  @ fmtC (last (Pass (SQLCredentials settings)))))))
   \<and> (p \<noteq> [] \<and> q \<noteq> []
        \<longrightarrow> (printSummary (settings\<lparr>SQLCredentials := (SQLCredentials settings)\<lparr>Pass := p\<rparr>\<rparr>)
              = printSummary (settings\<lparr>SQLCredentials := (SQLCredentials settings)\<lparr>Pass := q\<rparr>\<rparr>)
             \<longleftrightarrow> hd p = hd q \<and> last p = last q))"
proof (intro conjI impI)
  assume "Pass (SQLCredentials settings) = []"
  then show "printSummary settings = Inl (IndexOutOfRange 0 0)"
    by (rule printSummary_empty)
next
  assume "Pass (SQLCredentials settings) \<noteq> []"
  from printSummary_nonempty [OF this]
  show "\<exists>rows. printSummary settings = Inr rows
               \<and> map_of rows ''SQL Password''
                   = Some (CStr (fmtC (hd (Pass (SQLCredentials settings))) @ ''***''
                                  @ fmtC (last (Pass (SQLCredentials settings)))))"
    by simp
next
  assume a: "p \<noteq> [] \<and> q \<noteq> []"
  let ?sp = "settings\<lparr>SQLCredentials := (SQLCredentials settings)\<lparr>Pass := p\<rparr>\<rparr>"
  let ?sq = "settings\<lparr>SQLCredentials := (SQLCredentials settings)\<lparr>Pass := q\<rparr>\<rparr>"
  have "Pass (SQLCredentials ?sp) \<noteq> []" "Pass (SQLCredentials ?sq) \<noteq> []"
    using a by simp_all
  from printSummary_nonempty [OF this(1)] printSummary_nonempty [OF this(2)]
  have "printSummary ?sp = printSummary ?sq
          \<longleftrightarrow> fmtC (hd p) @ ''***'' @ fmtC (last p) = fmtC (hd q) @ ''***'' @ fmtC (last q)"
    by simp
  also have "\<dots> \<longleftrightarrow> hd p = hd q \<and> last p = last q"
    using masked_reveals [of "hd p" "last p" "hd q" "last q"] by auto
  finally show "printSummary ?sp = printSummary ?sq \<longleftrightarrow> hd p = hd q \<and> last p = last q" .
qed

lemma fmtC_s: "fmtC CHR ''s'' = ''s''"
  by code_simp

lemma fmtC_t: "fmtC CHR ''t'' = ''t''"
  by code_simp

theorem printSummary_password_witness:
  "printSummary ((exampleSettings StartFromBlock0 \<lparr>BlockHeight = [], BlockHash = []\<rparr>)
                   \<lparr>SQLCredentials := \<lparr>Host = ''localhost'', Port = 5432, User = ''vega'', Pass = [],
                                        DatabaseName = ''vega''\<rparr>\<rparr>)
     = Inl (IndexOutOfRange 0 0)
   \<and> (\<exists>rows. printSummary (exampleSettings StartFromBlock0 \<lparr>BlockHeight = [], BlockHash = []\<rparr>)
                = Inr rows
             \<and> map_of rows ''SQL Password'' = Some (CStr ''s***t''))
   \<and> printSummary ((exampleSettings StartFromBlock0 \<lparr>BlockHeight = [], BlockHash = []\<rparr>)
                   \<lparr>SQLCredentials := \<lparr>Host = ''localhost'', Port = 5432, User = ''vega'',
                                        Pass = ''secret'', DatabaseName = ''vega''\<rparr>\<rparr>)
     = printSummary ((exampleSettings StartFromBlock0 \<lparr>BlockHeight = [], BlockHash = []\<rparr>)
                   \<lparr>SQLCredentials := \<lparr>Host = ''localhost'', Port = 5432, User = ''vega'',
                                        Pass = ''st'', DatabaseName = ''vega''\<rparr>\<rparr>)
   \<and> printSummary ((exampleSettings StartFromBlock0 \<lparr>BlockHeight = [], BlockHash = []\<rparr>)
                   \<lparr>SQLCredentials := \<lparr>Host = ''localhost'', Port = 5432, User = ''vega'',
                                        Pass = ''secret'', DatabaseName = ''vega''\<rparr>\<rparr>)
     \<noteq> printSummary ((exampleSettings StartFromBlock0 \<lparr>BlockHeight = [], BlockHash = []\<rparr>)
                   \<lparr>SQLCredentials := \<lparr>Host = ''localhost'', Port = 5432, User = ''vega'',
                                        Pass = ''tercet'', DatabaseName = ''vega''\<rparr>\<rparr>)"
proof -
  let ?S = "exampleSettings StartFromBlock0 \<lparr>BlockHeight = [], BlockHash = []\<rparr>"
  let ?E = "?S\<lparr>SQLCredentials := \<lparr>Host = ''localhost'', Port = 5432, User = ''vega'', Pass = [],
                                   DatabaseName = ''vega''\<rparr>\<rparr>"
  have c: "SQLCredentials ?S = \<lparr>Host = ''localhost'', Port = 5432, User = ''vega'', Pass = ''secret'',
                                DatabaseName = ''vega''\<rparr>"
    by (simp add: exampleSettings_def)
  have e: "printSummary ?E = Inl (IndexOutOfRange 0 0)"
    using printSummary_password [of ?E] by simp
  have n: "\<exists>rows. printSummary ?S = Inr rows \<and> map_of rows ''SQL Password'' = Some (CStr ''s***t'')"
    using printSummary_password [of ?S] by (simp add: c fmtC_s fmtC_t)
  have d: "printSummary (?S\<lparr>SQLCredentials := (SQLCredentials ?S)\<lparr>Pass := ''secret''\<rparr>\<rparr>)
           = printSummary (?S\<lparr>SQLCredentials := (SQLCredentials ?S)\<lparr>Pass := ''st''\<rparr>\<rparr>)"
    using printSummary_password [of ?S "''secret''" "''st''"] by simp
  have d': "printSummary (?S\<lparr>SQLCredentials := (SQLCredentials ?S)\<lparr>Pass := ''secret''\<rparr>\<rparr>)
           \<noteq> printSummary (?S\<lparr>SQLCredentials := (SQLCredentials ?S)\<lparr>Pass := ''tercet''\<rparr>\<rparr>)"
    using printSummary_password [of ?S "''secret''" "''tercet''"] by simp
  from e n d d' show ?thesis
    by (simp add: c)
qed

end
